theory Spec2Isabelle
  imports Complex_Main "HOL-Library.Char_ord" "HOL-Library.List_Lexorder"
begin

section \<open>Strings and errors\<close>

text \<open>
  A Python \<open>str\<close> is modelled as a \<open>string\<close>, one \<open>char\<close> per code point
  (code points below 256). The only character of the source outside that range is the
  sign U+2264 of two entries of \<open>target_def\<close>; it is written as its three UTF-8 bytes.
  No statement below depends on the length of those two entries.
\<close>

datatype error = KeyError | ValueError | AttributeError

text \<open>\<open>s.startswith(p)\<close>\<close>

definition startswith :: "string \<Rightarrow> string \<Rightarrow> bool" where
  "startswith s p = (take (length p) s = p)"

text \<open>
  \<open>s.replace(old, new)\<close>: every non-overlapping occurrence of \<open>old\<close>, found from the
  left, is replaced. For an empty \<open>old\<close> Python puts \<open>new\<close> before every character and
  at the end.
\<close>

fun replace_nonempty :: "string \<Rightarrow> string \<Rightarrow> string \<Rightarrow> string" where
  "replace_nonempty old new [] = []"
| "replace_nonempty old new (c # cs) =
     (if startswith (c # cs) old \<and> old \<noteq> []
      then new @ replace_nonempty old new (drop (length old - 1) cs)
      else c # replace_nonempty old new cs)"

definition str_replace :: "string \<Rightarrow> string \<Rightarrow> string \<Rightarrow> string" where
  "str_replace s old new =
     (if old = [] then new @ concat (map (\<lambda>c. c # new) s) else replace_nonempty old new s)"

text \<open>\<open>s.upper()\<close> and \<open>s.lower()\<close>, on the ASCII letters; every other character is kept.\<close>

definition upper_char :: "char \<Rightarrow> char" where
  "upper_char c =
     (case map_of (zip ''abcdefghijklmnopqrstuvwxyz'' ''ABCDEFGHIJKLMNOPQRSTUVWXYZ'') c of
        Some u \<Rightarrow> u | None \<Rightarrow> c)"

definition lower_char :: "char \<Rightarrow> char" where
  "lower_char c =
     (case map_of (zip ''ABCDEFGHIJKLMNOPQRSTUVWXYZ'' ''abcdefghijklmnopqrstuvwxyz'') c of
        Some l \<Rightarrow> l | None \<Rightarrow> c)"

definition upper :: "string \<Rightarrow> string" where
  "upper s = map upper_char s"

definition lower :: "string \<Rightarrow> string" where
  "lower s = map lower_char s"

section \<open>Dates: \<open>datetime.strptime(s, "%y-%b-%d")\<close>\<close>

text \<open>
  The row formatter calls the standard library's \<open>strptime\<close> with the fixed format
  \<open>%y-%b-%d\<close>. The library turns the format into the regular expression
  \<open>(\d\d)-(jan|feb|...|dec)-(3[0-1]|[1-2]\d|0[1-9]|[1-9]| [1-9])\<close>, matched without regard
  to case at the start of the string (month names of the C locale); it raises
  \<open>ValueError\<close> when the expression does not match or when characters remain after the
  match. A two-digit year up to 68 is a year of the 2000s, any other one of the 1900s.
\<close>

record datetime =
  year :: nat
  month :: nat
  day :: nat

definition digit_val :: "char \<Rightarrow> nat option" where
  "digit_val c = map_of (zip ''0123456789'' [0, 1, 2, 3, 4, 5, 6, 7, 8, 9]) c"

definition month_abbr :: "string \<Rightarrow> nat option" where
  "month_abbr s =
     map_of [(''jan'', 1), (''feb'', 2), (''mar'', 3), (''apr'', 4), (''may'', 5), (''jun'', 6),
             (''jul'', 7), (''aug'', 8), (''sep'', 9), (''oct'', 10), (''nov'', 11), (''dec'', 12)]
       (lower s)"

text \<open>The alternatives of \<open>%d\<close>, tried in the order of the expression: the day and the rest.\<close>

definition parse_day :: "string \<Rightarrow> (nat \<times> string) option" where
  "parse_day s =
     (case s of
        [] \<Rightarrow> None
      | [c] \<Rightarrow> (case digit_val c of
                 Some d \<Rightarrow> if 1 \<le> d then Some (d, []) else None
               | None \<Rightarrow> None)
      | c1 # c2 # rest \<Rightarrow>
          (case (digit_val c1, digit_val c2) of
             (Some a, Some b) \<Rightarrow>
               if a = 3 \<and> b \<le> 1 then Some (30 + b, rest)
               else if 1 \<le> a \<and> a \<le> 2 then Some (10 * a + b, rest)
               else if a = 0 \<and> 1 \<le> b then Some (b, rest)
               else if 1 \<le> a then Some (a, c2 # rest)
               else None
           | (Some a, None) \<Rightarrow> if 1 \<le> a then Some (a, c2 # rest) else None
           | (None, Some b) \<Rightarrow> if c1 = CHR '' '' \<and> 1 \<le> b then Some (b, rest) else None
           | (None, None) \<Rightarrow> None))"

definition strptime_y_b_d :: "string \<Rightarrow> error + datetime" where
  "strptime_y_b_d s =
     (case s of
        y1 # y2 # dash1 # m1 # m2 # m3 # dash2 # rest \<Rightarrow>
          (case (digit_val y1, digit_val y2, month_abbr [m1, m2, m3], parse_day rest) of
             (Some a, Some b, Some m, Some (d, remains)) \<Rightarrow>
               if dash1 = CHR ''-'' \<and> dash2 = CHR ''-'' \<and> remains = []
               then Inr \<lparr>year = (if 10 * a + b \<le> 68 then 2000 else 1900) + (10 * a + b),
                         month = m, day = d\<rparr>
               else Inl ValueError
           | _ \<Rightarrow> Inl ValueError)
      | _ \<Rightarrow> Inl ValueError)"

section \<open>The row formatter (\<open>where/writers/_gnss.py\<close>)\<close>

definition get_grc_csv_header :: "string list" where
  "get_grc_csv_header =
     [''Constellation'', ''Service Line'', ''Service Category'', ''Business Service'',
      ''Batch'', ''Satellite'', ''PRN'', ''Slot'', ''GSS Site'', ''Station'', ''Service'',
      ''Type'', ''Mode'', ''Target'', ''Unit'', ''Date'', ''Result'']"

text \<open>The lookup tables of \<open>get_grc_csv_row\<close>, each a dictionary of the source.\<close>

definition batch_def :: "string \<rightharpoonup> string" where
  "batch_def =
     map_of [(''GALILEO-1'', ''IOV''), (''GALILEO-2'', ''FOC''), (''BLOCK IIIA'', ''III''),
             (''BLOCK IIF'', ''IIF''), (''BLOCK IIR-A'', ''IIR''), (''BLOCK IIR-B'', ''IIR''),
             (''BLOCK IIR-M'', ''IIR-M'')]"

definition business_galileo :: "string \<rightharpoonup> string" where
  "business_galileo =
     map_of
      [(''hpe'', ''FOM-OS-08 Horizontal Positioning Service Accuracy per Station over Month''),
       (''site_vel_3d'', ''FOM-OS-14 3D Velocity Service Accuracy per Station over Month''),
       (''sisre'', ''SDD-OS-08 SIS Ranging Accuracy over All Satellites over Month''),
       (''sisre_sat'', ''SDD-OS-09 SIS Ranging Accuracy per Satellite over Month''),
       (''vpe'', ''FOM-OS-09 Vertical Positioning Service Accuracy per Station over Month'')]"

definition business_gps :: "string \<rightharpoonup> string" where
  "business_gps =
     map_of
      [(''hpe'', ''FOM-OS-08 Horizontal Positioning Service Accuracy per Station over Month''),
       (''site_vel_3d'', ''FOM-OS-14 3D Velocity Service Accuracy per Station over Month''),
       (''sisre'', ''SPS-OS-02 SIS Ranging Accuracy over All Satellites over Month''),
       (''sisre_sat'', ''SPS-OS-04 SIS Ranging Accuracy per Satellite over Month''),
       (''vpe'', ''FOM-OS-09 Vertical Positioning Service Accuracy per Station over Month'')]"

definition business_def :: "string \<rightharpoonup> (string \<rightharpoonup> string)" where
  "business_def = map_of [(''Galileo'', business_galileo), (''GPS'', business_gps)]"

definition category_def :: "string \<rightharpoonup> string" where
  "category_def =
     map_of [(''hpe'', ''Position Domain''), (''site_vel_3d'', ''Position Domain''),
             (''sisre'', ''Ranging Domain''), (''sisre_sat'', ''Ranging Domain''),
             (''vpe'', ''Position Domain'')]"

definition mode_def :: "string \<rightharpoonup> string" where
  "mode_def =
     map_of [(''e1'', ''E1''), (''e1e5a'', ''E1/E5a''), (''e1e5b'', ''E1/E5b''),
             (''l1'', ''L1''), (''l1l2'', ''L1/L2'')]"

definition slot_def :: "string \<rightharpoonup> string" where
  "slot_def =
     map_of
      [(''SVN43'', ''F6''), (''SVN45'', ''D3''), (''SVN48'', ''A4''), (''SVN50'', ''E3''),
       (''SVN51'', ''E4''), (''SVN52'', ''A2''), (''SVN53'', ''C4''), (''SVN55'', ''F2''),
       (''SVN56'', ''B1''), (''SVN57'', ''C1''), (''SVN58'', ''B4''), (''SVN59'', ''C5''),
       (''SVN61'', ''D1''), (''SVN62'', ''B2''), (''SVN63'', ''D2''), (''SVN64'', ''A3''),
       (''SVN65'', ''A1''), (''SVN66'', ''C2''), (''SVN67'', ''D4''), (''SVN68'', ''F3''),
       (''SVN69'', ''E1''), (''SVN70'', ''F1''), (''SVN71'', ''B5''), (''SVN72'', ''C3''),
       (''SVN73'', ''E2''), (''SVN74'', ''F4''), (''SVN75'', ''D6''), (''SVN76'', ''E5''),
       (''SVN77'', ''B6''), (''SVN78'', ''D5''), (''SVN79'', ''A6''),
       (''GSAT0101'', ''B05''), (''GSAT0102'', ''B06''), (''GSAT0103'', ''C04''),
       (''GSAT0104'', ''C14''), (''GSAT0201'', ''EXT01''), (''GSAT0202'', ''EXT02''),
       (''GSAT0203'', ''B08''), (''GSAT0204'', ''B14''), (''GSAT0205'', ''A08''),
       (''GSAT0206'', ''A05''), (''GSAT0207'', ''C06''), (''GSAT0208'', ''C07''),
       (''GSAT0209'', ''C02''), (''GSAT0210'', ''A02''), (''GSAT0211'', ''A06''),
       (''GSAT0212'', ''C08''), (''GSAT0213'', ''C03''), (''GSAT0214'', ''C01''),
       (''GSAT0215'', ''A03''), (''GSAT0216'', ''A07''), (''GSAT0217'', ''A04''),
       (''GSAT0218'', ''A01''), (''GSAT0219'', ''B04''), (''GSAT0220'', ''B01''),
       (''GSAT0221'', ''B02''), (''GSAT0222'', ''B07''), (''GSAT0223'', ''B03''),
       (''GSAT0224'', ''B15'')]"

definition station_def :: "string \<rightharpoonup> string" where
  "station_def =
     map_of
      [(''altc'', ''Alta (Norway)''), (''brux'', ''Brussels (Belgium)''),
       (''cpvg'', ''Cap-Vert (Cabo Verde)''), (''koug'', ''Kourou (French Guiana)''),
       (''hofs'', ''Hoefn (Iceland)''), (''hons'', ''Honningsvag (Norway)''),
       (''janm'', ''Jan Mayen (Norway)''), (''krss'', ''Kristiansand (Norway)''),
       (''mas1'', ''Maspalomas (Spain)''), (''nabd'', ''Ny Alesund (Norway)''),
       (''nklg'', ''N' Koltang (Gabon)''), (''vegs'', ''Vega (Norway)'')]"

definition le_sign :: string where
  "le_sign = [CHR 0xE2, CHR 0x89, CHR 0xA4]"

definition target_def :: "string \<rightharpoonup> string" where
  "target_def =
     map_of [(''hpe'', []), (''site_vel_3d'', []), (''sisre'', le_sign @ '' 2''),
             (''sisre_sat'', le_sign @ '' 7''), (''vpe'', [])]"

definition unit_def :: "string \<rightharpoonup> string" where
  "unit_def =
     map_of [(''hpe'', ''m''), (''site_vel_3d'', ''m/s''), (''sisre'', ''m''),
             (''sisre_sat'', ''m''), (''vpe'', ''m'')]"

text \<open>
  The satellite-metadata service \<open>atx.get_satellite_info(satellite, date)\<close> is not part
  of the repository: it is a parameter of the model, a function that returns the two
  entries the formatter reads.
\<close>

record sat_info =
  sat_type :: string
  sat_code :: string

text \<open>\<open>d[k] if k in d.keys() else default\<close>\<close>

definition lookup_or :: "('k \<rightharpoonup> 'v) \<Rightarrow> 'k \<Rightarrow> 'v \<Rightarrow> 'v" where
  "lookup_or d k dflt = (case d k of Some v \<Rightarrow> v | None \<Rightarrow> dflt)"

text \<open>\<open>d[k]\<close>, which raises \<open>KeyError\<close> on a missing key\<close>

definition subscript :: "('k \<rightharpoonup> 'v) \<Rightarrow> 'k \<Rightarrow> error + 'v" where
  "subscript d k = (case d k of Some v \<Rightarrow> Inr v | None \<Rightarrow> Inl KeyError)"

text \<open>Lines 223 to 228: the SVN or GSAT identifier of a satellite code.\<close>

definition sat_code_to_svn :: "string \<Rightarrow> string" where
  "sat_code_to_svn code =
     (if startswith code ''E'' then str_replace code ''E'' ''GSAT0''
      else if startswith code ''G'' then str_replace code ''G0'' ''SVN''
      else code)"

text \<open>
  Lines 216 to 229, the block under \<open>if satellite:\<close>; its result is the triple
  \<open>(batch, svn, slot)\<close>, which lines 70 to 72 set to empty strings.
\<close>

definition satellite_fields ::
  "(string \<Rightarrow> datetime \<Rightarrow> sat_info) \<Rightarrow> string \<Rightarrow> string \<Rightarrow> error + (string \<times> string \<times> string)"
where
  "satellite_fields atx date satellite =
     (if satellite \<noteq> [] then
        (case strptime_y_b_d (date @ ''-01'') of
           Inl e \<Rightarrow> Inl e
         | Inr used_date \<Rightarrow>
             (let info = atx satellite used_date;
                  batch = lookup_or batch_def (sat_type info) [];
                  svn = sat_code_to_svn (sat_code info);
                  slot = lookup_or slot_def svn []
              in Inr (batch, svn, slot)))
      else Inr ([], [], []))"

text \<open>
  \<open>get_grc_csv_row\<close>. The float \<open>result\<close> and its formatting \<open>f"{result:.5f}"\<close> are
  parameters (\<open>fmt5\<close>): no floating-point arithmetic is modelled. The dictionary
  subscripts of the returned list are evaluated in the order of the list.
\<close>

definition get_grc_csv_row ::
  "(string \<Rightarrow> datetime \<Rightarrow> sat_info) \<Rightarrow> ('r \<Rightarrow> string) \<Rightarrow>
   string \<Rightarrow> string \<Rightarrow> string \<Rightarrow> string \<Rightarrow> 'r \<Rightarrow> string \<Rightarrow> string \<Rightarrow> error + string list"
where
  "get_grc_csv_row atx fmt5 constellation kpi mode date result station satellite =
     (let type' = (if length mode = 2 then ''Single'' else ''Dual'');
          mode_to_write = lookup_or mode_def mode mode;
          station_to_write = lookup_or station_def station []
      in case satellite_fields atx date satellite of
           Inl e \<Rightarrow> Inl e
         | Inr (batch, svn, slot) \<Rightarrow>
             (case subscript category_def kpi of
                Inl e \<Rightarrow> Inl e
              | Inr category \<Rightarrow>
             (case subscript business_def constellation of
                Inl e \<Rightarrow> Inl e
              | Inr business \<Rightarrow>
             (case subscript business kpi of
                Inl e \<Rightarrow> Inl e
              | Inr business_service \<Rightarrow>
             (case subscript target_def kpi of
                Inl e \<Rightarrow> Inl e
              | Inr target \<Rightarrow>
             (case subscript unit_def kpi of
                Inl e \<Rightarrow> Inl e
              | Inr unit \<Rightarrow>
                  Inr [constellation, ''Open Service'', category, business_service, batch,
                       svn, satellite, slot, station_to_write, upper station, ''OS'', type',
                       mode_to_write, target, unit, date, fmt5 result]))))))"

text \<open>A pair the tables know: \<open>kpi\<close> a key of the category table, and \<open>kpi\<close> a key of
  the business-service table of \<open>constellation\<close>.\<close>

definition known_pair :: "string \<Rightarrow> string \<Rightarrow> bool" where
  "known_pair constellation kpi =
     (category_def kpi \<noteq> None \<and>
      (case business_def constellation of None \<Rightarrow> False | Some b \<Rightarrow> b kpi \<noteq> None))"

section \<open>The plot generator (\<open>where/writers/_gnss_plot.py\<close>): data\<close>

text \<open>
  A float of a dataset field is not-a-number or a number. Rounding is not modelled:
  no statement below depends on the value of a sum or a product of floats.
\<close>

datatype float = NaN | Num real

definition isnan :: "float \<Rightarrow> bool" where
  "isnan f = (f = NaN)"

text \<open>\<open>np.rad2deg\<close>, \<open>2 * np.pi + x\<close> and \<open>x < 0\<close> (false for not-a-number).\<close>

definition rad2deg :: "float \<Rightarrow> float" where
  "rad2deg f = (case f of NaN \<Rightarrow> NaN | Num x \<Rightarrow> Num (x * 180 / pi))"

definition add_2pi :: "float \<Rightarrow> float" where
  "add_2pi f = (case f of NaN \<Rightarrow> NaN | Num x \<Rightarrow> Num (2 * pi + x))"

definition negative :: "float \<Rightarrow> bool" where
  "negative f = (case f of NaN \<Rightarrow> False | Num x \<Rightarrow> x < 0)"

text \<open>A datetime of a dataset, as a number on its time scale.\<close>

type_synonym epoch = int

text \<open>An element of an array handed to the plotting primitive.\<close>

datatype val = F float | S string | T epoch

text \<open>A value of the option dictionary \<open>opt_args\<close>.\<close>

datatype optval =
  OBool bool | OInt int | OReal real | OStr string | OTime epoch
  | OList "optval list" | OTuple "optval list"

text \<open>
  A dictionary whose order matters is an association list; its keys are the first
  occurrences, in order.
\<close>

definition keys :: "('k \<times> 'v) list \<Rightarrow> 'k list" where
  "keys d = remdups (map fst d)"

fun dict_set :: "'k \<Rightarrow> 'v \<Rightarrow> ('k \<times> 'v) list \<Rightarrow> ('k \<times> 'v) list" where
  "dict_set k v [] = [(k, v)]"
| "dict_set k v ((k', v') # d) = (if k = k' then (k, v) # d else (k', v') # dict_set k v d)"

text \<open>\<open>{**a, **b}\<close>\<close>

definition dict_merge :: "('k \<times> 'v) list \<Rightarrow> ('k \<times> 'v) list \<Rightarrow> ('k \<times> 'v) list" where
  "dict_merge a b = foldl (\<lambda>d (k, v). dict_set k v d) a b"

text \<open>
  The dataset, as far as the plot generator reads it. Every per-observation array has one
  entry per observation. Float fields are addressed by name; a field of a collection has
  the dotted name \<open>collection.field\<close> (\<open>diff_epo.x\<close>, \<open>lin.x\<close>, \<open>obs.C1C\<close>,
  \<open>site_pos.azimuth\<close>), and a collection exists when it has a field.
\<close>

record dataset =
  system_array :: "string list"
  satellite_array :: "string list"
  time_gps :: "epoch list"
  time_utc :: "epoch list"
  float_fields :: "(string \<times> float list) list"
  meta_obstypes :: "(string \<times> string list) list"
  meta_linear_combination :: "(string \<times> (string \<times> string list) list) list"
  vars :: "(string \<times> string) list"
  analysis :: "(string \<times> string) list"

text \<open>The object of class \<open>GnssPlot\<close>: the two attributes \<open>__init__\<close> sets.\<close>

record gnss_plot =
  dset :: dataset
  figure_dir :: string

text \<open>A member of the enumeration \<open>enums.gnss_id_to_name\<close>: its \<open>value\<close> and its \<open>str\<close>.\<close>

record gnss_name =
  name_value :: string
  name_str :: string

text \<open>
  What the module calls and does not define: the file configuration, the file system, the
  dataset reader, midgard's satellite counter and enumeration, and whether
  \<open>dset.site_pos.azimuth\<close> hands out the array the dataset holds (\<open>True\<close>) or a new array
  on every access (\<open>False\<close>).
\<close>

record env =
  files_path :: "(string \<times> string) list \<Rightarrow> string"
  path_exists :: "string \<Rightarrow> bool"
  dataset_read :: "(string \<times> string) list \<Rightarrow> dataset option"
  get_number_of_satellites :: "string list \<Rightarrow> string list \<Rightarrow> epoch list \<Rightarrow> float list"
  gnss_id_to_name :: "string \<rightharpoonup> gnss_name"
  azimuth_by_reference :: bool

text \<open>One call of the plotting primitive \<open>plot\<close>, with the arguments it was given.\<close>

record plot_call =
  x_arrays :: "val list list"
  y_arrays :: "val list list"
  xlabel :: string
  ylabel :: string
  y_unit :: string
  labels :: "string list option"
  colors :: "string list option"
  figure_path :: string
  opt_args :: "(string \<times> optval) list"

text \<open>What a method does besides returning: log lines and calls of \<open>plot\<close>, in order.\<close>

datatype event = Debug string | Warn string | Plot plot_call

text \<open>The named tuple \<open>FigureInfo\<close> of \<open>plot_linear_combinations\<close>.\<close>

record figure_info =
  info_file_path :: string
  info_name :: string
  info_system :: string
  info_obstype :: "string list"

section \<open>Running a method: events, an error or a value, and the object afterwards\<close>

text \<open>
  A method of \<open>GnssPlot\<close> is a function of the object \<open>self\<close>. It gives the log lines and
  plot calls it made, in order, then the exception it raised or the value it returned, and
  the object as it is afterwards. What was logged, plotted and written before an
  exception stays.
\<close>

type_synonym 'a run = "gnss_plot \<Rightarrow> event list \<times> (error + 'a) \<times> gnss_plot"

definition ret :: "'a \<Rightarrow> 'a run" where
  "ret x = (\<lambda>self. ([], Inr x, self))"

definition raise :: "error \<Rightarrow> 'a run" where
  "raise e = (\<lambda>self. ([], Inl e, self))"

definition emit :: "event \<Rightarrow> unit run" where
  "emit e = (\<lambda>self. ([e], Inr (), self))"

text \<open>Reading from \<open>self\<close>, with and without a possible exception.\<close>

definition read :: "(gnss_plot \<Rightarrow> 'a) \<Rightarrow> 'a run" where
  "read f = (\<lambda>self. ([], Inr (f self), self))"

definition try_read :: "(gnss_plot \<Rightarrow> error + 'a) \<Rightarrow> 'a run" where
  "try_read f = (\<lambda>self. ([], f self, self))"

text \<open>Writing to the dataset \<open>self.dset\<close>.\<close>

definition modify_dset :: "(dataset \<Rightarrow> dataset) \<Rightarrow> unit run" where
  "modify_dset f = (\<lambda>self. ([], Inr (), self\<lparr>dset := f (dset self)\<rparr>))"

definition bind :: "'a run \<Rightarrow> ('a \<Rightarrow> 'b run) \<Rightarrow> 'b run" where
  "bind m f =
     (\<lambda>self. case m self of
        (ev, Inl e, self') \<Rightarrow> (ev, Inl e, self')
      | (ev, Inr x, self') \<Rightarrow> (case f x self' of (ev', r, self'') \<Rightarrow> (ev @ ev', r, self'')))"

text \<open>A \<open>for\<close> loop over a list, with the variables the body updates as accumulator.\<close>

fun for_each :: "'x list \<Rightarrow> ('x \<Rightarrow> 'a \<Rightarrow> 'a run) \<Rightarrow> 'a \<Rightarrow> 'a run" where
  "for_each [] body acc = ret acc"
| "for_each (x # xs) body acc = bind (body x acc) (for_each xs body)"

section \<open>The plot generator: helpers\<close>

definition FIGURE_FORMAT :: string where
  "FIGURE_FORMAT = ''png''"

text \<open>\<open>dset.filter(system=v)\<close> and \<open>dset.filter(satellite=v)\<close>: a boolean mask.\<close>

definition mask_eq :: "'a list \<Rightarrow> 'a \<Rightarrow> bool list" where
  "mask_eq xs v = map (\<lambda>x. x = v) xs"

text \<open>\<open>a[mask]\<close>, for a mask as long as the array.\<close>

definition select :: "bool list \<Rightarrow> 'a list \<Rightarrow> 'a list" where
  "select msk xs = map snd (filter fst (zip msk xs))"

text \<open>\<open>dset.unique(name)\<close>: the distinct values, sorted.\<close>

definition unique :: "string list \<Rightarrow> string list" where
  "unique xs = sort (remdups xs)"

text \<open>\<open>sorted(xs)\<close> and \<open>sorted(xs, reverse=True)\<close> on strings, compared by code point.\<close>

definition py_sorted :: "string list \<Rightarrow> string list" where
  "py_sorted xs = sort xs"

definition py_sorted_reverse :: "string list \<Rightarrow> string list" where
  "py_sorted_reverse xs = rev (sort xs)"

text \<open>\<open>sep.join(xs)\<close>, \<open>s.split(c)\<close> for a one-character separator, \<open>s.capitalize()\<close>.\<close>

fun join :: "string \<Rightarrow> string list \<Rightarrow> string" where
  "join sep [] = []"
| "join sep [x] = x"
| "join sep (x # y # ys) = x @ sep @ join sep (y # ys)"

fun split_char :: "char \<Rightarrow> string \<Rightarrow> string list" where
  "split_char c [] = [[]]"
| "split_char c (x # xs) =
     (if x = c then [] # split_char c xs
      else (case split_char c xs of w # ws \<Rightarrow> (x # w) # ws | [] \<Rightarrow> [[x]]))"

definition capitalize :: "string \<Rightarrow> string" where
  "capitalize s = (case s of [] \<Rightarrow> [] | c # cs \<Rightarrow> upper_char c # map lower_char cs)"

text \<open>
  \<open>figure_dir / name\<close>, for a directory written without a trailing slash and a name in
  normal form: an absolute name replaces the directory.
\<close>

definition joinpath :: "string \<Rightarrow> string \<Rightarrow> string" where
  "joinpath d n = (if startswith n ''/'' then n else d @ ''/'' @ n)"

text \<open>A float field by its name (\<open>dset.gdop\<close>, \<open>dset["lin.x"]\<close>, \<open>dset.obs["C1C"]\<close>).\<close>

definition get_field :: "string \<Rightarrow> gnss_plot \<Rightarrow> error + float list" where
  "get_field field_name self =
     (case map_of (float_fields (dset self)) field_name of
        None \<Rightarrow> Inl AttributeError
      | Some v \<Rightarrow> Inr v)"

text \<open>\<open>dset.<collection>.fields\<close>\<close>

definition collection_fields :: "string \<Rightarrow> gnss_plot \<Rightarrow> error + string list" where
  "collection_fields c self =
     (let names = map (drop (length c + 1))
                    (filter (\<lambda>k. startswith k (c @ ''.'')) (keys (float_fields (dset self))))
      in if names = [] then Inl AttributeError else Inr names)"

text \<open>\<open>dset.fields\<close>, \<open>dset.add_float(name, val=v)\<close> and an assignment to a stored array.\<close>

definition dataset_fields :: "dataset \<Rightarrow> string list" where
  "dataset_fields d = keys (float_fields d)"

definition add_float :: "string \<Rightarrow> float list \<Rightarrow> dataset \<Rightarrow> dataset" where
  "add_float field_name v d = d\<lparr>float_fields := float_fields d @ [(field_name, v)]\<rparr>"

definition set_field :: "string \<Rightarrow> float list \<Rightarrow> dataset \<Rightarrow> dataset" where
  "set_field field_name v d = d\<lparr>float_fields := dict_set field_name v (float_fields d)\<rparr>"

text \<open>\<open>dset.meta["obstypes"][sys]\<close> and \<open>dset.meta["linear_combination"][field][sys]\<close>\<close>

definition obstypes_of :: "string \<Rightarrow> gnss_plot \<Rightarrow> error + string list" where
  "obstypes_of sys self = subscript (map_of (meta_obstypes (dset self))) sys"

definition set_obstypes :: "string \<Rightarrow> string list \<Rightarrow> dataset \<Rightarrow> dataset" where
  "set_obstypes sys v d = d\<lparr>meta_obstypes := dict_set sys v (meta_obstypes d)\<rparr>"

definition linear_combination_of :: "string \<Rightarrow> string \<Rightarrow> gnss_plot \<Rightarrow> error + string list" where
  "linear_combination_of field sys self =
     (case subscript (map_of (meta_linear_combination (dset self))) field of
        Inl e \<Rightarrow> Inl e
      | Inr by_system \<Rightarrow> subscript (map_of by_system) sys)"

text \<open>\<open>enums.gnss_id_to_name[sys]\<close>\<close>

definition gnss_name_of :: "env \<Rightarrow> string \<Rightarrow> gnss_plot \<Rightarrow> error + gnss_name" where
  "gnss_name_of env sys self = subscript (gnss_id_to_name env) sys"

text \<open>
  The loop over the satellites of one system, which eight plots share:
  \<^verbatim>\<open>
  for sat in sorted(self.dset.unique("satellite")):
      if not sat.startswith(sys):
          continue
      idx = self.dset.filter(satellite=sat)
      x_arrays.append(X[idx]); y_arrays.append(Y[idx]); labels.append(sat)
  \<close>
  It gives \<open>(x_arrays, y_arrays, labels)\<close>.
\<close>

definition satellite_curves ::
  "dataset \<Rightarrow> string \<Rightarrow> val list \<Rightarrow> val list \<Rightarrow> val list list \<times> val list list \<times> string list"
where
  "satellite_curves d sys xs ys =
     (let sats = filter (\<lambda>sat. startswith sat sys) (py_sorted (unique (satellite_array d)))
      in (map (\<lambda>sat. select (mask_eq (satellite_array d) sat) xs) sats,
          map (\<lambda>sat. select (mask_eq (satellite_array d) sat) ys) sats,
          sats))"

text \<open>The options of the scatter plots with statistics, the same in six places.\<close>

definition scatter_opt_args :: "(string \<times> optval) list" where
  "scatter_opt_args =
     [(''figsize'', OTuple [OInt 7, OInt 6]), (''legend'', OBool True),
      (''legend_ncol'', OInt 6), (''legend_location'', OStr ''bottom''),
      (''plot_to'', OStr ''file''), (''plot_type'', OStr ''scatter''),
      (''statistic'', OList [OStr ''rms'', OStr ''mean'', OStr ''std'', OStr ''min'',
                             OStr ''max'', OStr ''percentile''])]"

text \<open>The figure path of a name in which \<open>placeholder\<close> stands for \<open>solution\<close>.\<close>

definition figure_path_of :: "string \<Rightarrow> string \<Rightarrow> string \<Rightarrow> gnss_plot \<Rightarrow> string" where
  "figure_path_of figure_name placeholder solution self =
     joinpath (figure_dir self)
       (str_replace (str_replace figure_name placeholder solution) ''{FIGURE_FORMAT}'' FIGURE_FORMAT)"

definition simple_figure_path :: "string \<Rightarrow> gnss_plot \<Rightarrow> string" where
  "simple_figure_path figure_name self =
     joinpath (figure_dir self) (str_replace figure_name ''{FIGURE_FORMAT}'' FIGURE_FORMAT)"

definition plot_message :: "string \<Rightarrow> string" where
  "plot_message p = ''Plot '' @ p @ ''.''"

section \<open>The plot generator: methods\<close>

definition plot_dop :: "string \<Rightarrow> string run" where
  "plot_dop figure_name =
     bind (read (simple_figure_path figure_name)) (\<lambda>path.
     bind (emit (Debug (plot_message path))) (\<lambda>_.
     bind (read (\<lambda>self. map T (time_gps (dset self)))) (\<lambda>t.
     bind (try_read (get_field ''gdop'')) (\<lambda>gdop.
     bind (try_read (get_field ''pdop'')) (\<lambda>pdop.
     bind (try_read (get_field ''vdop'')) (\<lambda>vdop.
     bind (try_read (get_field ''hdop'')) (\<lambda>hdop.
     bind (try_read (get_field ''tdop'')) (\<lambda>tdop.
     bind (emit (Plot
       \<lparr>x_arrays = [t, t, t, t, t],
        y_arrays = map (map F) [gdop, pdop, vdop, hdop, tdop],
        xlabel = ''Time [GPS]'', ylabel = ''Dilution of precision'', y_unit = [],
        labels = Some [''GDOP'', ''PDOP'', ''VDOP'', ''HDOP'', ''TDOP''], colors = None,
        figure_path = path,
        opt_args = [(''figsize'', OTuple [OInt 7, OInt 4]), (''legend'', OBool True),
                    (''plot_to'', OStr ''file'')]\<rparr>)) (\<lambda>_.
     ret path)))))))))"

text \<open>
  One turn of the loop over the systems in \<open>plot_epoch_by_epoch_difference\<close> and
  \<open>plot_field\<close>, which differ in the array they plot and in the label of the y axis: a
  system whose values are all not-a-number is skipped (\<open>continue\<close>) before anything is
  logged or plotted.
\<close>

definition scatter_of_system ::
  "string \<Rightarrow> string \<Rightarrow> string \<Rightarrow> string \<Rightarrow> string \<Rightarrow> string list \<Rightarrow> string list run"
where
  "scatter_of_system figure_name field field_name y_label sys figure_paths =
     bind (try_read (get_field field_name)) (\<lambda>vals.
     bind (read (\<lambda>self. select (mask_eq (system_array (dset self)) sys) vals)) (\<lambda>of_system.
     if list_all isnan of_system then ret figure_paths
     else
       bind (read (figure_path_of figure_name ''{solution}'' (sys @ ''_'' @ field))) (\<lambda>path.
       bind (emit (Debug (plot_message path))) (\<lambda>_.
       bind (read (\<lambda>self. satellite_curves (dset self) sys
                             (map T (time_gps (dset self))) (map F vals))) (\<lambda>(x, y, l).
       bind (emit (Plot
         \<lparr>x_arrays = x, y_arrays = y, xlabel = ''Time [GPS]'', ylabel = y_label,
          y_unit = ''m'', labels = Some l, colors = None, figure_path = path,
          opt_args = scatter_opt_args\<rparr>)) (\<lambda>_.
       ret (figure_paths @ [path])))))))"

definition obstypes_systems :: "gnss_plot \<Rightarrow> string list" where
  "obstypes_systems self = py_sorted (keys (meta_obstypes (dset self)))"

definition plot_epoch_by_epoch_difference :: "string \<Rightarrow> string list run" where
  "plot_epoch_by_epoch_difference figure_name =
     bind (try_read (collection_fields ''diff_epo'')) (\<lambda>fields.
     for_each fields
       (\<lambda>field figure_paths.
          bind (read obstypes_systems) (\<lambda>systems.
          for_each systems
            (scatter_of_system figure_name field (''diff_epo.'' @ field)
               (''Epoch by epoch difference ('' @ field @ '')''))
            figure_paths))
       [])"

definition field_def :: "string \<rightharpoonup> string" where
  "field_def =
     map_of [(''gnss_ionosphere'', ''Ionospheric delay''), (''gnss_range'', ''Range''),
             (''gnss_satellite_clock'', ''Satellite clock''),
             (''gnss_total_group_delay'', ''Total group delay''),
             (''troposphere_radio'', ''Troposphere delay'')]"

text \<open>Line 168: \<open>fieldname = f"{collection}.{field}" if collection else field\<close>\<close>

definition field_name_of :: "string option \<Rightarrow> string \<Rightarrow> string" where
  "field_name_of collection field =
     (case collection of
        None \<Rightarrow> field
      | Some c \<Rightarrow> if c \<noteq> [] then c @ ''.'' @ field else field)"

definition plot_field :: "string \<Rightarrow> string option \<Rightarrow> string \<Rightarrow> string list run" where
  "plot_field field collection figure_name =
     bind (read obstypes_systems) (\<lambda>systems.
     for_each systems
       (scatter_of_system figure_name field (field_name_of collection field)
          (lookup_or field_def field (''Field ('' @ field @ '')'')))
       [])"

text \<open>
  One turn of a loop over the systems in \<open>plot_linear_combinations\<close>. The four branches
  differ in the name they record, in the label of the y axis (the last branch splits the
  field name into three parts and raises when there are not three) and in whether the
  path is logged (the code-multipath branch does not log).
\<close>

definition linear_combination_of_system ::
  "string \<Rightarrow> string \<Rightarrow> string \<Rightarrow> bool \<Rightarrow> (error + string) \<Rightarrow> string \<Rightarrow>
   figure_info list \<Rightarrow> figure_info list run"
where
  "linear_combination_of_system figure_name field display_name log_debug y_label sys figure_info =
     bind (try_read (linear_combination_of field sys)) (\<lambda>combination.
     bind (read (figure_path_of figure_name ''{solution}''
                   (field @ ''_'' @ sys @ ''_'' @ join ''_'' combination))) (\<lambda>path.
     bind (if log_debug then emit (Debug (plot_message path)) else ret ()) (\<lambda>_.
     bind (try_read (get_field (''lin.'' @ field))) (\<lambda>vals.
     bind (read (\<lambda>self. satellite_curves (dset self) sys
                           (map T (time_gps (dset self))) (map F vals))) (\<lambda>(x, y, l).
     bind (try_read (\<lambda>self. y_label)) (\<lambda>yl.
     bind (emit (Plot
       \<lparr>x_arrays = x, y_arrays = y, xlabel = ''Time [GPS]'', ylabel = yl,
        y_unit = ''m'', labels = Some l, colors = None, figure_path = path,
        opt_args = scatter_opt_args\<rparr>)) (\<lambda>_.
     ret (figure_info @
          [\<lparr>info_file_path = path, info_name = display_name, info_system = sys,
            info_obstype = combination\<rparr>]))))))))"

definition generic_ylabel :: "string \<Rightarrow> error + string" where
  "generic_ylabel field =
     (case split_char CHR ''_'' field of
        [name1, name2, obscode] \<Rightarrow> Inr (capitalize name1 @ ''-'' @ name2 @ '' ('' @ obscode @ '')'')
      | _ \<Rightarrow> Inl ValueError)"

definition plot_linear_combinations :: "string \<Rightarrow> figure_info list run" where
  "plot_linear_combinations figure_name =
     bind (try_read (collection_fields ''lin'')) (\<lambda>fields.
     for_each fields
       (\<lambda>field figure_info.
          if field = ''melbourne_wuebbena'' then
            bind (read obstypes_systems) (\<lambda>systems.
            for_each systems
              (linear_combination_of_system figure_name field field True
                 (Inr (''Melbourne-W'' @ [CHR 0xFC] @ ''bbena'')))
              figure_info)
          else if field = ''code_multipath_f1'' \<or> field = ''code_multipath_f2'' then
            bind (read obstypes_systems) (\<lambda>systems.
            for_each systems
              (linear_combination_of_system figure_name field
                 (str_replace (str_replace field ''_f1'' '' '') ''_f2'' '' '') False
                 (Inr ''Code-multipath combination''))
              figure_info)
          else if field = ''code_phase_f1'' \<or> field = ''code_phase_f2'' then
            bind (read obstypes_systems) (\<lambda>systems.
            for_each systems
              (linear_combination_of_system figure_name field
                 (str_replace (str_replace field ''_f1'' '' '') ''_f2'' '' '') True
                 (Inr ''Code-phase difference''))
              figure_info)
          else
            bind (read (\<lambda>self. py_sorted (unique (system_array (dset self))))) (\<lambda>systems.
            for_each systems
              (linear_combination_of_system figure_name field
                 (join ''_'' (take 2 (split_char CHR ''_'' field))) True
                 (generic_ylabel field))
              figure_info))
       [])"

text \<open>One turn of the loop over the systems in \<open>plot_number_of_satellites\<close>.\<close>

definition number_of_satellites_of_system ::
  "env \<Rightarrow> string \<Rightarrow> val list list \<times> val list list \<times> string list \<Rightarrow>
   (val list list \<times> val list list \<times> string list) run"
where
  "number_of_satellites_of_system env sys xyl =
     bind (read (\<lambda>self.
             let d = dset self; idx = mask_eq (system_array d) sys
             in (map T (select idx (time_gps d)),
                 map F (get_number_of_satellites env (select idx (system_array d))
                          (select idx (satellite_array d)) (select idx (time_gps d))))))
       (\<lambda>(xa, ya).
     bind (try_read (gnss_name_of env sys)) (\<lambda>n.
     ret (fst xyl @ [xa], fst (snd xyl) @ [ya], snd (snd xyl) @ [name_value n])))"

definition plot_number_of_satellites :: "env \<Rightarrow> string \<Rightarrow> string run" where
  "plot_number_of_satellites env figure_name =
     bind (read (simple_figure_path figure_name)) (\<lambda>path.
     bind (emit (Debug (plot_message path))) (\<lambda>_.
     bind (read (\<lambda>self. py_sorted (unique (system_array (dset self))))) (\<lambda>systems.
     bind (for_each systems (number_of_satellites_of_system env) ([], [], [])) (\<lambda>(x, y, l).
     bind (read (\<lambda>self. length (unique (system_array (dset self))))) (\<lambda>ncol.
     bind (emit (Plot
       \<lparr>x_arrays = x, y_arrays = y, xlabel = ''Time [GPS]'', ylabel = ''# satellites'',
        y_unit = [], labels = Some l, colors = None, figure_path = path,
        opt_args = [(''figsize'', OTuple [OInt 7, OInt 4]), (''marker'', OStr '',''),
                    (''legend'', OBool True), (''legend_location'', OStr ''bottom''),
                    (''legend_ncol'', OInt (int ncol)), (''plot_to'', OStr ''file''),
                    (''plot_type'', OStr ''plot'')]\<rparr>)) (\<lambda>_.
     ret path))))))"

definition plot_number_of_satellites_used :: "env \<Rightarrow> string \<Rightarrow> string run" where
  "plot_number_of_satellites_used env figure_name =
     bind (read (simple_figure_path figure_name)) (\<lambda>path.
     bind (emit (Debug (plot_message path))) (\<lambda>_.
     bind (read (\<lambda>self. dataset_fields (dset self))) (\<lambda>fields.
     bind (if ''num_satellite_used'' \<notin> set fields
           then modify_dset (\<lambda>d. add_float ''num_satellite_used''
                  (get_number_of_satellites env (system_array d) (satellite_array d) (time_gps d)) d)
           else ret ()) (\<lambda>_.
     bind (read (\<lambda>self. map T (time_gps (dset self)))) (\<lambda>t.
     bind (try_read (get_field ''num_satellite_available'')) (\<lambda>available.
     bind (try_read (get_field ''num_satellite_used'')) (\<lambda>used.
     bind (emit (Plot
       \<lparr>x_arrays = [t, t], y_arrays = [map F available, map F used],
        xlabel = ''Time [GPS]'', ylabel = ''Number of satellites'', y_unit = [],
        labels = Some [''Available'', ''Used''], colors = None, figure_path = path,
        opt_args = [(''figsize'', OTuple [OInt 7, OInt 4]), (''legend'', OBool True),
                    (''marker'', OStr '',''), (''plot_to'', OStr ''file''),
                    (''plot_type'', OStr ''plot'')]\<rparr>)) (\<lambda>_.
     ret path))))))))"


text \<open>
  \<open>_sort_string_array\<close>: \<open>array.sort(key=lambda x: x[-2:3])\<close>, a stable sort by the slice
  from the last but one character (from the start for a shorter string) up to the third.
  The list is sorted in place, and the list the callers hand over is the list
  \<open>dset.meta["obstypes"][sys]\<close> of the dataset.
\<close>

definition sort_string_array :: "string list \<Rightarrow> string list" where
  "sort_string_array array = sort_key (\<lambda>x. drop (length x - 2) (take 3 x)) array"

text \<open>\<open>dset.num_obs\<close>, the length of every per-observation array.\<close>

definition num_obs :: "dataset \<Rightarrow> nat" where
  "num_obs d = length (satellite_array d)"

text \<open>
  \<open>target[mask] = values\<close>, for a mask as long as the target and as many values as the
  mask selects.
\<close>

fun masked_assign :: "bool list \<Rightarrow> 'a list \<Rightarrow> 'a list \<Rightarrow> 'a list" where
  "masked_assign (m # ms) (t # ts) vs =
     (if m then (case vs of v # vs' \<Rightarrow> v # masked_assign ms ts vs'
                 | [] \<Rightarrow> t # masked_assign ms ts [])
      else t # masked_assign ms ts vs)"
| "masked_assign ms ts vs = ts"

text \<open>
  Lines 564 to 571, one observation type of one satellite in
  \<open>plot_obstype_availability\<close>: the mask of the observations of the satellite that have a
  value, and a row of the figure when there is one.
\<close>

definition obstype_of_satellite ::
  "string \<Rightarrow> bool list \<Rightarrow> string \<Rightarrow> bool list \<times> val list list \<times> val list list \<Rightarrow>
   (bool list \<times> val list list \<times> val list list) run"
where
  "obstype_of_satellite sat idx_sat obstype kxy =
     bind (try_read (get_field (''obs.'' @ obstype))) (\<lambda>vals.
     bind (read (\<lambda>self.
             let keep = masked_assign idx_sat (fst kxy)
                          (map (\<lambda>v. \<not> isnan v) (select idx_sat vals))
             in (keep, select keep (time_gps (dset self))))) (\<lambda>(keep, epochs).
     ret (if list_ex (\<lambda>k. k) keep
          then (keep, fst (snd kxy) @ [map T epochs],
                snd (snd kxy) @ [replicate (length epochs) (S (sat @ ''_'' @ obstype))])
          else (keep, fst (snd kxy), snd (snd kxy)))))"

text \<open>
  Lines 557 to 571, one satellite of a system: the list of observation types of the
  system is sorted in place, then the loop runs over the sorted list.
\<close>

definition obstypes_of_satellite ::
  "string \<Rightarrow> string \<Rightarrow> val list list \<times> val list list \<Rightarrow> (val list list \<times> val list list) run"
where
  "obstypes_of_satellite sys sat xy =
     bind (read (\<lambda>self. (mask_eq (satellite_array (dset self)) sat,
                          replicate (num_obs (dset self)) False))) (\<lambda>(idx_sat, all_false).
     bind (try_read (obstypes_of sys)) (\<lambda>array.
     bind (modify_dset (set_obstypes sys (sort_string_array array))) (\<lambda>_.
     bind (for_each (sort_string_array array) (obstype_of_satellite sat idx_sat)
             (all_false, fst xy, snd xy)) (\<lambda>(keep_idx, x, y).
     ret (x, y)))))"

text \<open>Lines 546 to 588, one system in \<open>plot_obstype_availability\<close>.\<close>

definition obstype_availability_of_system :: "string \<Rightarrow> string \<Rightarrow> string list \<Rightarrow> string list run" where
  "obstype_availability_of_system figure_name sys figure_paths =
     bind (read (\<lambda>self. length (remdups (select (mask_eq (system_array (dset self)) sys)
                                             (satellite_array (dset self)))))) (\<lambda>num_sat.
     bind (read (figure_path_of figure_name ''{system}'' sys)) (\<lambda>path.
     bind (emit (Debug (plot_message path))) (\<lambda>_.
     bind (read (\<lambda>self. filter (\<lambda>sat. startswith sat sys)
                           (py_sorted_reverse (unique (satellite_array (dset self)))))) (\<lambda>sats.
     bind (for_each sats (obstypes_of_satellite sys) ([], [])) (\<lambda>(x, y).
     bind (emit (Plot
       \<lparr>x_arrays = x, y_arrays = y, xlabel = ''Time [GPS]'',
        ylabel = ''Satellite and observation type'', y_unit = [], labels = None,
        colors = None, figure_path = path,
        opt_args = [(''colormap'', OStr ''tab20''),
                    (''figsize'', OTuple [OReal (1.0 * real num_sat), OReal (3.0 * real num_sat)]),
                    (''fontsize'', OInt 5), (''plot_to'', OStr ''file''),
                    (''plot_type'', OStr ''scatter'')]\<rparr>)) (\<lambda>_.
     ret (figure_paths @ [path])))))))"

definition plot_obstype_availability :: "string \<Rightarrow> string list run" where
  "plot_obstype_availability figure_name =
     bind (read (\<lambda>self. py_sorted (unique (system_array (dset self))))) (\<lambda>systems.
     for_each systems (obstype_availability_of_system figure_name) [])"

text \<open>What \<open>_get_dataset\<close> returns: a dataset, or \<open>enums.ExitStatus.error\<close>.\<close>

datatype dataset_or_exit = Dataset dataset | ExitStatus_error

text \<open>
  \<open>_sort_by_satellite\<close>. Line 903 binds the local name \<open>dset\<close> to the argument, or to
  \<open>self.dset\<close> when there is none; lines 907 to 911 read \<open>self.dset\<close>.
\<close>

definition rows_of_satellites :: "dataset \<Rightarrow> string list \<Rightarrow> 'a list \<Rightarrow> 'a list" where
  "rows_of_satellites d sats column =
     concat (map (\<lambda>sat. select (mask_eq (satellite_array d) sat) column) sats)"

definition sort_by_satellite ::
  "dataset_or_exit option \<Rightarrow> (epoch list \<times> string list \<times> string list) run"
where
  "sort_by_satellite dset_arg =
     read (\<lambda>self.
       let dset_local = (case dset_arg of None \<Rightarrow> Dataset (dset self) | Some a \<Rightarrow> a);
           sats = py_sorted_reverse (unique (satellite_array (dset self)))
       in (rows_of_satellites (dset self) sats (time_gps (dset self)),
           rows_of_satellites (dset self) sats (satellite_array (dset self)),
           rows_of_satellites (dset self) sats (system_array (dset self))))"

text \<open>One turn of the loop over the systems in \<open>plot_satellite_availability\<close>.\<close>

definition availability_of_system ::
  "env \<Rightarrow> epoch list \<Rightarrow> string list \<Rightarrow> string list \<Rightarrow> string \<Rightarrow>
   val list list \<times> val list list \<times> string list \<Rightarrow>
   (val list list \<times> val list list \<times> string list) run"
where
  "availability_of_system env time_sorted satellite_sorted system_sorted sys xyl =
     bind (try_read (gnss_name_of env sys)) (\<lambda>n.
     ret (fst xyl @ [map T (select (mask_eq system_sorted sys) time_sorted)],
          fst (snd xyl) @ [map S (select (mask_eq system_sorted sys) satellite_sorted)],
          snd (snd xyl) @ [name_value n]))"

definition plot_satellite_availability :: "env \<Rightarrow> string \<Rightarrow> string run" where
  "plot_satellite_availability env figure_name =
     bind (read (simple_figure_path figure_name)) (\<lambda>path.
     bind (emit (Debug (plot_message path))) (\<lambda>_.
     bind (sort_by_satellite None) (\<lambda>(time_sorted, satellite_sorted, system_sorted).
     bind (read (\<lambda>self. py_sorted_reverse (unique (system_array (dset self))))) (\<lambda>systems.
     bind (for_each systems (availability_of_system env time_sorted satellite_sorted system_sorted)
             ([], [], [])) (\<lambda>(x, y, l).
     bind (read (\<lambda>self. (length (unique (satellite_array (dset self))),
                          length (unique (system_array (dset self)))))) (\<lambda>(num_sat, ncol).
     bind (emit (Plot
       \<lparr>x_arrays = x, y_arrays = y, xlabel = ''Time [GPS]'', ylabel = ''Satellite'',
        y_unit = [], labels = None, colors = None, figure_path = path,
        opt_args = [(''colormap'', OStr ''tab20''),
                    (''figsize'', OTuple [OReal (0.1 * real num_sat), OReal (0.2 * real num_sat)]),
                    (''fontsize'', OInt 10), (''legend'', OBool True),
                    (''legend_location'', OStr ''bottom''), (''legend_ncol'', OInt (int ncol)),
                    (''plot_to'', OStr ''file''), (''plot_type'', OStr ''scatter'')]\<rparr>)) (\<lambda>_.
     ret path)))))))"

text \<open>
  \<open>plot_skyplot\<close>. Line 664 takes the array \<open>dset.site_pos.azimuth\<close> and line 666 assigns
  to its negative entries in place; the dataset sees the assignment when the array is
  the one it holds. \<open>skyplot_of_system\<close> is one turn of the loop over the systems.
\<close>

definition skyplot_of_system ::
  "env \<Rightarrow> string \<Rightarrow> float list \<Rightarrow> float list \<Rightarrow> string \<Rightarrow> string list \<Rightarrow> string list run"
where
  "skyplot_of_system env figure_name azimuth zenith_distance sys figure_paths =
     bind (read (figure_path_of figure_name ''{system}'' sys)) (\<lambda>path.
     bind (read (\<lambda>self. satellite_curves (dset self) sys
                           (map F azimuth) (map F zenith_distance))) (\<lambda>(x, y, l).
     bind (try_read (gnss_name_of env sys)) (\<lambda>n.
     bind (emit (Plot
       \<lparr>x_arrays = x, y_arrays = y, xlabel = [], ylabel = [], y_unit = [],
        labels = Some l, colors = None, figure_path = path,
        opt_args = [(''colormap'', OStr ''tab20''),
                    (''figsize'', OTuple [OInt 7, OReal 7.5]),
                    (''legend'', OBool True), (''legend_ncol'', OInt 6),
                    (''legend_location'', OStr ''bottom''), (''plot_to'', OStr ''file''),
                    (''plot_type'', OStr ''scatter''), (''projection'', OStr ''polar''),
                    (''title'', OStr (''Skyplot for '' @ name_str n @ [CHR 0x0A] @
                                      '' Azimuth [deg] / Elevation[deg]'')),
                    (''xlim'', OList [OInt 0, OReal (2 * pi)]),
                    (''ylim'', OList [OInt 0, OInt 90]),
                    (''yticks'', OList [OInt 0, OInt 30, OInt 60]),
                    (''yticklabels'', OList [OStr ''90'', OStr ''60'', OStr ''30''])]\<rparr>)) (\<lambda>_.
     ret (figure_paths @ [path])))))"

definition plot_skyplot :: "env \<Rightarrow> string \<Rightarrow> string list run" where
  "plot_skyplot env figure_name =
     bind (try_read (get_field ''site_pos.azimuth'')) (\<lambda>azimuth_read.
     bind (ret (map (\<lambda>a. if negative a then add_2pi a else a) azimuth_read)) (\<lambda>azimuth.
     bind (if azimuth_by_reference env
           then modify_dset (set_field ''site_pos.azimuth'' azimuth) else ret ()) (\<lambda>_.
     bind (try_read (get_field ''site_pos.zenith_distance'')) (\<lambda>zenith_read.
     bind (ret (map rad2deg zenith_read)) (\<lambda>zenith_distance.
     bind (read (\<lambda>self. py_sorted (unique (system_array (dset self))))) (\<lambda>systems.
     for_each systems (skyplot_of_system env figure_name azimuth zenith_distance) []))))))"

text \<open>\<open>_get_day_limits\<close>: \<open>min\<close> and \<open>max\<close> raise \<open>ValueError\<close> on an empty sequence.\<close>

definition get_day_limits :: "(epoch \<times> epoch) run" where
  "get_day_limits =
     try_read (\<lambda>self. case time_utc (dset self) of
                         [] \<Rightarrow> Inl ValueError
                       | t # ts \<Rightarrow> Inr (fold min ts t, fold max ts t))"

text \<open>One turn of the loop over the systems in \<open>plot_satellite_elevation\<close>.\<close>

definition elevation_of_system ::
  "env \<Rightarrow> string \<Rightarrow> float list \<Rightarrow> epoch \<Rightarrow> epoch \<Rightarrow> string \<Rightarrow> string list \<Rightarrow> string list run"
where
  "elevation_of_system env figure_name elevation day_start day_end sys figure_paths =
     bind (read (figure_path_of figure_name ''{system}'' sys)) (\<lambda>path.
     bind (emit (Debug (plot_message path))) (\<lambda>_.
     bind (read (\<lambda>self. satellite_curves (dset self) sys
                           (map T (time_gps (dset self))) (map F elevation))) (\<lambda>(x, y, l).
     bind (try_read (gnss_name_of env sys)) (\<lambda>n.
     bind (emit (Plot
       \<lparr>x_arrays = x, y_arrays = y, xlabel = ''Time [GPS]'',
        ylabel = ''Elevation [deg]'', y_unit = [], labels = Some l, colors = None,
        figure_path = path,
        opt_args = [(''colormap'', OStr ''tab20''),
                    (''figsize'', OTuple [OInt 7, OInt 8]),
                    (''legend'', OBool True), (''legend_ncol'', OInt 6),
                    (''legend_location'', OStr ''bottom''), (''plot_to'', OStr ''file''),
                    (''plot_type'', OStr ''scatter''),
                    (''title'', OStr (''Satellite elevation for '' @ name_str n)),
                    (''xlim'', OList [OTime day_start, OTime day_end])]\<rparr>)) (\<lambda>_.
     ret (figure_paths @ [path]))))))"

definition plot_satellite_elevation :: "env \<Rightarrow> string \<Rightarrow> string list run" where
  "plot_satellite_elevation env figure_name =
     bind (try_read (get_field ''site_pos.elevation'')) (\<lambda>elevation_read.
     bind (ret (map rad2deg elevation_read)) (\<lambda>elevation.
     bind get_day_limits (\<lambda>(day_start, day_end).
     bind (read (\<lambda>self. py_sorted (unique (system_array (dset self))))) (\<lambda>systems.
     for_each systems (elevation_of_system env figure_name elevation day_start day_end) []))))"

text \<open>\<open>dset.subset(keep_idx)\<close>: the observations the mask keeps.\<close>

definition subset :: "bool list \<Rightarrow> dataset \<Rightarrow> dataset" where
  "subset keep d =
     d\<lparr>system_array := select keep (system_array d),
       satellite_array := select keep (satellite_array d),
       time_gps := select keep (time_gps d),
       time_utc := select keep (time_utc d),
       float_fields := map (\<lambda>(k, v). (k, select keep v)) (float_fields d)\<rparr>"

definition stage_file_vars :: "string \<Rightarrow> gnss_plot \<Rightarrow> (string \<times> string) list" where
  "stage_file_vars stage self =
     dict_set ''stage'' stage (dict_merge (vars (dset self)) (analysis (dset self)))"

text \<open>
  \<open>_get_dataset\<close>: the dataset of a stage, cut down to the given systems, or the exit
  status when reading raises \<open>OSError\<close> (\<open>dataset_read\<close> gives \<open>None\<close>). The warning is
  not an f-string in the source: it is logged with its braces.
\<close>

definition get_dataset :: "env \<Rightarrow> string \<Rightarrow> string list \<Rightarrow> dataset_or_exit run" where
  "get_dataset env stage systems =
     bind (read (stage_file_vars stage)) (\<lambda>file_vars.
     case dataset_read env file_vars of
       None \<Rightarrow>
         bind (emit (Warn ''Could not read dataset {config.files.path('dataset', file_vars=file_vars)}.''))
           (\<lambda>_. ret ExitStatus_error)
     | Some dset_out \<Rightarrow>
         ret (Dataset (if systems \<noteq> []
                       then subset (map (\<lambda>s. s \<in> set systems) (system_array dset_out)) dset_out
                       else dset_out)))"

definition plot_satellite_overview :: "env \<Rightarrow> string \<Rightarrow> string option run" where
  "plot_satellite_overview env figure_name =
     bind (read (simple_figure_path figure_name)) (\<lambda>path.
     bind (emit (Debug (plot_message path))) (\<lambda>_.
     bind get_day_limits (\<lambda>(day_start, day_end).
     bind (read (\<lambda>self. files_path env (stage_file_vars ''read'' self))) (\<lambda>file_path.
     if path_exists env file_path then
       bind (read (\<lambda>self. keys (meta_obstypes (dset self)))) (\<lambda>systems.
       bind (get_dataset env ''read'' systems) (\<lambda>dset_read.
       bind (sort_by_satellite (Some dset_read)) (\<lambda>(time_read, satellite_read, system_read).
       bind (get_dataset env ''orbit'' systems) (\<lambda>dset_orbit.
       bind (sort_by_satellite (Some dset_orbit)) (\<lambda>(time_orbit, satellite_orbit, system_orbit).
       bind (get_dataset env ''edit'' systems) (\<lambda>dset_edit.
       bind (sort_by_satellite (Some dset_edit)) (\<lambda>(time_edit, satellite_edit, system_edit).
       bind (emit (Plot
         \<lparr>x_arrays = [map T time_read, map T time_orbit, map T time_edit],
          y_arrays = [map S satellite_read, map S satellite_orbit, map S satellite_edit],
          xlabel = ''Time [GPS]'', ylabel = ''Satellite'', y_unit = [], labels = None,
          colors = Some [''red'', ''orange'', ''green''], figure_path = path,
          opt_args = [(''colormap'', OStr ''tab20''), (''figsize'', OTuple [OInt 7, OInt 6]),
                      (''marker'', OStr ''|''), (''plot_to'', OStr ''file''),
                      (''plot_type'', OStr ''scatter''),
                      (''title'', OStr ''Overview over satellites''),
                      (''xlim'', OList [OTime day_start, OTime day_end])]\<rparr>)) (\<lambda>_.
       ret (Some path)))))))))
     else
       bind (emit (Warn (''Read dataset does not exists: '' @ file_path @ ''. Plot '' @ path @
                         '' can not be plotted.''))) (\<lambda>_.
       ret None)))))"

section \<open>What a call is observed to do\<close>

text \<open>The notions the statements below are written in.\<close>

definition events :: "'a run \<Rightarrow> gnss_plot \<Rightarrow> event list" where
  "events m self = fst (m self)"

definition outcome :: "'a run \<Rightarrow> gnss_plot \<Rightarrow> error + 'a" where
  "outcome m self = fst (snd (m self))"

definition after :: "'a run \<Rightarrow> gnss_plot \<Rightarrow> gnss_plot" where
  "after m self = snd (snd (m self))"

definition keeps_self :: "'a run \<Rightarrow> bool" where
  "keeps_self m = (\<forall>self. after m self = self)"

definition plots :: "event list \<Rightarrow> plot_call list" where
  "plots ev = concat (map (\<lambda>e. case e of Plot p \<Rightarrow> [p] | _ \<Rightarrow> []) ev)"

definition warnings :: "event list \<Rightarrow> string list" where
  "warnings ev = concat (map (\<lambda>e. case e of Warn w \<Rightarrow> [w] | _ \<Rightarrow> []) ev)"

text \<open>The observations of a system are all not-a-number in an array.\<close>

definition all_nan :: "float list \<Rightarrow> string \<Rightarrow> gnss_plot \<Rightarrow> bool" where
  "all_nan vals sys self = list_all isnan (select (mask_eq (system_array (dset self)) sys) vals)"

definition solution_path :: "string \<Rightarrow> string \<Rightarrow> gnss_plot \<Rightarrow> string \<Rightarrow> string" where
  "solution_path figure_name field self sys =
     figure_path_of figure_name ''{solution}'' (sys @ ''_'' @ field) self"

definition plotted_systems :: "float list \<Rightarrow> gnss_plot \<Rightarrow> string list" where
  "plotted_systems vals self = filter (\<lambda>sys. \<not> all_nan vals sys self) (obstypes_systems self)"

definition field_values :: "string \<Rightarrow> gnss_plot \<Rightarrow> float list" where
  "field_values field_name self = (case get_field field_name self of Inr v \<Rightarrow> v | Inl e \<Rightarrow> [])"

definition satellites_of_system :: "gnss_plot \<Rightarrow> string \<Rightarrow> string list" where
  "satellites_of_system self sys =
     filter (\<lambda>sat. startswith sat sys) (sort (remdups (satellite_array (dset self))))"

definition scatter_events ::
  "string \<Rightarrow> string \<Rightarrow> string \<Rightarrow> string \<Rightarrow> gnss_plot \<Rightarrow> string \<Rightarrow> event list" where
  "scatter_events n f fn yl self sys = fst (scatter_of_system n f fn yl sys [] self)"

definition epoch_difference_paths :: "string \<Rightarrow> gnss_plot \<Rightarrow> string \<Rightarrow> string list" where
  "epoch_difference_paths n self field =
     map (solution_path n field self)
       (plotted_systems (field_values (''diff_epo.'' @ field) self) self)"

definition epoch_difference_events :: "string \<Rightarrow> gnss_plot \<Rightarrow> string \<Rightarrow> event list" where
  "epoch_difference_events n self field =
     concat (map (scatter_events n field (''diff_epo.'' @ field)
                    (''Epoch by epoch difference ('' @ field @ '')'') self)
               (obstypes_systems self))"

definition epoch_difference_labels :: "gnss_plot \<Rightarrow> string \<Rightarrow> string list option list" where
  "epoch_difference_labels self field =
     map (\<lambda>sys. Some (satellites_of_system self sys))
       (plotted_systems (field_values (''diff_epo.'' @ field) self) self)"

text \<open>The rows of the object's own dataset, ordered by satellite, descending.\<close>

definition own_rows_by_satellite :: "gnss_plot \<Rightarrow> 'a list \<Rightarrow> 'a list" where
  "own_rows_by_satellite self column =
     rows_of_satellites (dset self) (py_sorted_reverse (unique (satellite_array (dset self)))) column"

definition read_file_path :: "env \<Rightarrow> gnss_plot \<Rightarrow> string" where
  "read_file_path env self = files_path env (stage_file_vars ''read'' self)"

text \<open>The dataset after \<open>plot_number_of_satellites_used\<close>.\<close>

definition with_num_satellite_used :: "env \<Rightarrow> gnss_plot \<Rightarrow> gnss_plot" where
  "with_num_satellite_used env self =
     (if ''num_satellite_used'' \<in> set (dataset_fields (dset self)) then self
      else self\<lparr>dset := add_float ''num_satellite_used''
                   (get_number_of_satellites env (system_array (dset self))
                      (satellite_array (dset self)) (time_gps (dset self)))
                   (dset self)\<rparr>)"

text \<open>The dataset after \<open>plot_skyplot\<close>.\<close>

definition with_wrapped_azimuth :: "env \<Rightarrow> gnss_plot \<Rightarrow> gnss_plot" where
  "with_wrapped_azimuth env self =
     (case get_field ''site_pos.azimuth'' self of
        Inl e \<Rightarrow> self
      | Inr azimuth \<Rightarrow>
          if azimuth_by_reference env
          then self\<lparr>dset := set_field ''site_pos.azimuth''
                         (map (\<lambda>a. if negative a then add_2pi a else a) azimuth) (dset self)\<rparr>
          else self)"

text \<open>
  The object \<open>self'\<close> is \<open>self\<close> but for the order within lists of observation types: its
  dataset has the same systems in \<open>meta["obstypes"]\<close>, and the list of each is the list it
  was or that list sorted by \<open>_sort_string_array\<close>.
\<close>

definition obstypes_sorted_from :: "gnss_plot \<Rightarrow> gnss_plot \<Rightarrow> bool" where
  "obstypes_sorted_from self self' =
     (self' = self\<lparr>dset := (dset self)\<lparr>meta_obstypes := meta_obstypes (dset self')\<rparr>\<rparr> \<and>
      map fst (meta_obstypes (dset self')) = map fst (meta_obstypes (dset self)) \<and>
      list_all2 (\<lambda>a b. snd b = snd a \<or> snd b = sort_string_array (snd a))
        (meta_obstypes (dset self)) (meta_obstypes (dset self')))"

definition sorts_obstypes_only :: "'a run \<Rightarrow> bool" where
  "sorts_obstypes_only m = (\<forall>self. obstypes_sorted_from self (after m self))"

text \<open>A plot of the satellites of a system, in ascending order, at the path of the system.\<close>

definition plot_of_system :: "string \<Rightarrow> gnss_plot \<Rightarrow> string \<Rightarrow> plot_call \<Rightarrow> bool" where
  "plot_of_system figure_name self sys p =
     (labels p = Some (satellites_of_system self sys) \<and>
      figure_path p = figure_path_of figure_name ''{system}'' sys self)"

definition dataset_systems :: "gnss_plot \<Rightarrow> string list" where
  "dataset_systems self = sort (remdups (system_array (dset self)))"

definition linear_combination_systems :: "gnss_plot \<Rightarrow> string \<Rightarrow> string list" where
  "linear_combination_systems self field =
     (if field \<in> {''melbourne_wuebbena'', ''code_multipath_f1'', ''code_multipath_f2'',
                   ''code_phase_f1'', ''code_phase_f2''}
      then obstypes_systems self else dataset_systems self)"

definition observations_of_system :: "gnss_plot \<Rightarrow> string \<Rightarrow> val list" where
  "observations_of_system self sys =
     map T (select (mask_eq (system_array (dset self)) sys) (time_gps (dset self)))"

definition availability_rows :: "gnss_plot \<Rightarrow> string \<Rightarrow> val list" where
  "availability_rows self sys =
     map S (select (mask_eq (own_rows_by_satellite self (system_array (dset self))) sys)
              (own_rows_by_satellite self (satellite_array (dset self))))"

text \<open>A row of the figure that belongs to a satellite: every entry is a label that begins
  with the satellite and an underscore.\<close>

definition row_of_satellite :: "string \<Rightarrow> val list \<Rightarrow> bool" where
  "row_of_satellite sat row =
     list_all (\<lambda>v. case v of S label \<Rightarrow> startswith label (sat @ ''_'') | _ \<Rightarrow> False) row"

definition rows_by_satellite :: "string list \<Rightarrow> val list list \<Rightarrow> bool" where
  "rows_by_satellite sats rows =
     (\<exists>blocks. rows = concat blocks \<and>
        list_all2 (\<lambda>sat block. list_all (row_of_satellite sat) block) sats blocks)"

definition obstype_plot_of_system :: "string \<Rightarrow> gnss_plot \<Rightarrow> string \<Rightarrow> plot_call \<Rightarrow> bool" where
  "obstype_plot_of_system figure_name self sys p =
     (figure_path p = figure_path_of figure_name ''{system}'' sys self \<and>
      rows_by_satellite (rev (satellites_of_system self sys)) (y_arrays p))"

text \<open>A call that returns, as opposed to one that raises.\<close>

definition returns :: "'a run \<Rightarrow> gnss_plot \<Rightarrow> bool" where
  "returns m self = (case outcome m self of Inl e \<Rightarrow> False | Inr r \<Rightarrow> True)"

section \<open>Example inputs\<close>

text \<open>Concrete services, formatters and datasets, used where a statement is evaluated.\<close>

definition example_atx :: "string \<Rightarrow> datetime \<Rightarrow> sat_info" where
  "example_atx satellite date =
     (if satellite = ''G01'' then \<lparr>sat_type = ''BLOCK IIR-M'', sat_code = ''G043''\<rparr>
      else if satellite = ''E11'' then \<lparr>sat_type = ''GALILEO-1'', sat_code = ''E101''\<rparr>
      else \<lparr>sat_type = ''UNKNOWN'', sat_code = satellite\<rparr>)"

definition fixed5 :: "unit \<Rightarrow> string" where
  "fixed5 r = ''1.00000''"

definition repeated_code_atx :: "string \<Rightarrow> datetime \<Rightarrow> sat_info" where
  "repeated_code_atx satellite date = \<lparr>sat_type = ''GALILEO-1'', sat_code = ''E1E''\<rparr>"

definition example_dataset :: dataset where
  "example_dataset =
     \<lparr>system_array = [''E'', ''E'', ''G'', ''G''],
      satellite_array = [''E11'', ''E02'', ''G01'', ''G02''],
      time_gps = [0, 30, 0, 30],
      time_utc = [0, 30, 0, 30],
      float_fields =
        [(''gnss_range'', [Num 1, NaN, NaN, NaN]),
         (''diff_epo.C1C'', [NaN, NaN, Num 2, NaN]),
         (''obs.C1C'', [Num 1, Num 1, Num 1, Num 1]),
         (''obs.C2W'', [NaN, NaN, Num 1, NaN]),
         (''site_pos.azimuth'', [Num (- 1), Num 1, Num 2, Num 3]),
         (''site_pos.zenith_distance'', [Num 1, Num 1, Num 1, Num 1])],
      meta_obstypes = [(''G'', [''C2W'', ''C1C'']), (''E'', [''C1C''])],
      meta_linear_combination = [],
      vars = [(''rundate'', ''2021-07-01'')],
      analysis = [(''id'', ''test'')]\<rparr>"

definition example_self :: gnss_plot where
  "example_self = \<lparr>dset = example_dataset, figure_dir = ''figs''\<rparr>"

definition example_files_path :: "(string \<times> string) list \<Rightarrow> string" where
  "example_files_path file_vars = ''work/'' @ lookup_or (map_of file_vars) ''stage'' [] @ ''.hdf5''"

definition example_no_file :: "string \<Rightarrow> bool" where
  "example_no_file p = False"

definition example_read_file :: "string \<Rightarrow> bool" where
  "example_read_file p = (p = ''work/read.hdf5'')"

definition example_stage_dataset :: dataset where
  "example_stage_dataset =
     \<lparr>system_array = [''E'', ''R''],
      satellite_array = [''E30'', ''R05''],
      time_gps = [60, 90],
      time_utc = [60, 90],
      float_fields = [],
      meta_obstypes = [(''E'', [''C1C''])],
      meta_linear_combination = [],
      vars = [],
      analysis = []\<rparr>"

definition example_dataset_read :: "(string \<times> string) list \<Rightarrow> dataset option" where
  "example_dataset_read file_vars =
     (if map_of file_vars ''stage'' = Some ''orbit'' then None else Some example_stage_dataset)"

definition example_count :: "string list \<Rightarrow> string list \<Rightarrow> epoch list \<Rightarrow> float list" where
  "example_count systems satellites epochs = map (\<lambda>t. Num 2) epochs"

definition example_names :: "string \<rightharpoonup> gnss_name" where
  "example_names =
     map_of [(''E'', \<lparr>name_value = ''Galileo'', name_str = ''gnss_id_to_name.E''\<rparr>),
             (''G'', \<lparr>name_value = ''GPS'', name_str = ''gnss_id_to_name.G''\<rparr>)]"

definition example_env :: env where
  "example_env =
     \<lparr>files_path = example_files_path, path_exists = example_read_file,
      dataset_read = example_dataset_read, get_number_of_satellites = example_count,
      gnss_id_to_name = example_names, azimuth_by_reference = True\<rparr>"

definition example_env_no_file :: env where
  "example_env_no_file = example_env\<lparr>path_exists := example_no_file\<rparr>"

definition example_empty_self :: gnss_plot where
  "example_empty_self =
     \<lparr>dset = \<lparr>system_array = [], satellite_array = [], time_gps = [], time_utc = [],
              float_fields = [], meta_obstypes = [], meta_linear_combination = [],
              vars = [], analysis = []\<rparr>,
      figure_dir = ''figs''\<rparr>"

definition example_env_fresh_arrays :: env where
  "example_env_fresh_arrays = example_env\<lparr>azimuth_by_reference := False\<rparr>"

text \<open>The example dataset with an elevation and two linear combinations.\<close>

definition example_survey_self :: gnss_plot where
  "example_survey_self =
     \<lparr>dset = example_dataset
        \<lparr>float_fields := float_fields example_dataset @
           [(''site_pos.elevation'', [Num 1, Num 1, Num 1, Num 1]),
            (''lin.melbourne_wuebbena'', [Num 1, Num 1, Num 1, Num 1]),
            (''lin.geometry_free_C1C'', [Num 1, Num 1, Num 1, Num 1])],
         meta_linear_combination :=
           [(''melbourne_wuebbena'', [(''E'', [''C1C'', ''C5Q'']), (''G'', [''C1C'', ''C2W''])]),
            (''geometry_free_C1C'', [(''E'', [''C1C'', ''C5Q'']), (''G'', [''C1C'', ''C2W''])])]\<rparr>,
      figure_dir = ''figs''\<rparr>"

section \<open>Properties of the row formatter\<close>

lemma dom_target_def: "dom target_def = dom category_def"
  by (simp add: category_def_def target_def_def dom_map_of_conv_image_fst)

lemma dom_unit_def: "dom unit_def = dom category_def"
  by (simp add: category_def_def unit_def_def dom_map_of_conv_image_fst)

lemma subscript_target: "category_def k = Some c \<Longrightarrow> \<exists>t. target_def k = Some t"
  using dom_target_def by (auto simp: dom_def)

lemma subscript_unit: "category_def k = Some c \<Longrightarrow> \<exists>t. unit_def k = Some t"
  using dom_unit_def by (auto simp: dom_def)

lemma get_grc_csv_row_cases:
  "get_grc_csv_row atx fmt5 c k m d r st sat =
     (case satellite_fields atx d sat of
        Inl e \<Rightarrow> Inl e
      | Inr (batch, svn, slot) \<Rightarrow>
          if known_pair c k
          then Inr [c, ''Open Service'', the (category_def k), the (the (business_def c) k),
                    batch, svn, sat, slot, lookup_or station_def st [], upper st, ''OS'',
                    (if length m = 2 then ''Single'' else ''Dual''), lookup_or mode_def m m,
                    the (target_def k), the (unit_def k), d, fmt5 r]
          else Inl KeyError)"
proof (cases "satellite_fields atx d sat")
  case (Inl e)
  then show ?thesis by (simp add: get_grc_csv_row_def)
next
  case (Inr t)
  obtain batch svn slot where t: "t = (batch, svn, slot)" by (cases t) auto
  show ?thesis
  proof (cases "known_pair c k")
    case True
    then obtain cat b bs where *: "category_def k = Some cat" "business_def c = Some b" "b k = Some bs"
      by (auto simp: known_pair_def split: option.splits)
    from subscript_target[OF *(1)] subscript_unit[OF *(1)] obtain tg un
      where **: "target_def k = Some tg" "unit_def k = Some un" by blast
    show ?thesis using Inr t True * **
      by (simp add: get_grc_csv_row_def subscript_def)
  next
    case False
    then show ?thesis using Inr t
      by (auto simp: get_grc_csv_row_def subscript_def known_pair_def split: option.splits)
  qed
qed

lemma satellite_fields_empty: "satellite_fields atx d [] = Inr ([], [], [])"
  by (simp add: satellite_fields_def)

lemma satellite_fields_cases:
  "sat \<noteq> [] \<Longrightarrow> satellite_fields atx d sat =
     (case strptime_y_b_d (d @ ''-01'') of
        Inl e \<Rightarrow> Inl e
      | Inr ud \<Rightarrow> Inr (lookup_or batch_def (sat_type (atx sat ud)) [],
                       sat_code_to_svn (sat_code (atx sat ud)),
                       lookup_or slot_def (sat_code_to_svn (sat_code (atx sat ud))) []))"
  by (simp add: satellite_fields_def Let_def split: sum.splits)

lemma strptime_error: "strptime_y_b_d s = Inl e \<Longrightarrow> e = ValueError"
  by (auto simp: strptime_y_b_d_def split: list.splits option.splits if_splits prod.splits)

lemma satellite_fields_error: "satellite_fields atx d sat = Inl e \<Longrightarrow> e = ValueError"
  by (auto simp: satellite_fields_def Let_def strptime_error split: if_splits sum.splits)

lemma strptime_non_digit: "digit_val c = None \<Longrightarrow> strptime_y_b_d (c # cs) = Inl ValueError"
  by (auto simp: strptime_y_b_d_def split: list.splits option.splits if_splits prod.splits)

lemma replace_single_char:
  "replace_nonempty [c] new s = concat (map (\<lambda>x. if x = c then new else [x]) s)"
  by (induction s) (simp_all add: startswith_def)

lemma row_of_known_pair:
  assumes "known_pair c k" and "satellite_fields atx d sat = Inr (batch, svn, slot)"
  shows "\<exists>category business target unit.
           category_def k = Some category \<and>
           (\<exists>b. business_def c = Some b \<and> b k = Some business) \<and>
           target_def k = Some target \<and> unit_def k = Some unit \<and>
           get_grc_csv_row atx fmt5 c k m d r st sat =
             Inr [c, ''Open Service'', category, business, batch, svn, sat, slot,
                  lookup_or station_def st [], upper st, ''OS'',
                  (if length m = 2 then ''Single'' else ''Dual''), lookup_or mode_def m m,
                  target, unit, d, fmt5 r]"
proof -
  from assms(1) obtain cat b bs
    where *: "category_def k = Some cat" "business_def c = Some b" "b k = Some bs"
    by (auto simp: known_pair_def split: option.splits)
  from subscript_target[OF *(1)] subscript_unit[OF *(1)] obtain tg un
    where **: "target_def k = Some tg" "unit_def k = Some un" by blast
  show ?thesis using assms * ** by (simp add: get_grc_csv_row_cases)
qed

lemma satellite_fields_ok:
  assumes "sat = [] \<or> (\<exists>ud. strptime_y_b_d (d @ ''-01'') = Inr ud)"
  shows "\<exists>batch svn slot. satellite_fields atx d sat = Inr (batch, svn, slot)"
proof (cases "sat = []")
  case True
  then show ?thesis by (simp add: satellite_fields_empty)
next
  case False
  with assms obtain ud where "strptime_y_b_d (d @ ''-01'') = Inr ud" by blast
  with False show ?thesis by (simp add: satellite_fields_cases)
qed

text \<open>
  Claim C1, as amended. For every known (constellation, kpi) pair, when \<open>satellite\<close> is
  empty or the string \<open>date\<close> followed by \<open>-01\<close> parses under \<open>%y-%b-%d\<close>,
  \<open>get_grc_csv_row\<close> returns a row of exactly 17 strings, and the header has 17 columns;
  pairing the header with the row position by position gives each column its own field:
  the constellation, the service line, the category, the business service, the batch, the
  SVN, the PRN, the slot, the site, the station, the service, the type, the mode, the target,
  the unit, the date and the result.
\<close>

theorem grc_row_has_17_fields_aligned_with_header:
  assumes "known_pair constellation kpi"
    and "satellite = [] \<or> (\<exists>used_date. strptime_y_b_d (date @ ''-01'') = Inr used_date)"
  shows "\<exists>row category business batch svn slot target unit.
           get_grc_csv_row atx fmt5 constellation kpi mode date result station satellite = Inr row \<and>
           length row = 17 \<and> length get_grc_csv_header = 17 \<and>
           zip get_grc_csv_header row =
             [(''Constellation'', constellation), (''Service Line'', ''Open Service''),
              (''Service Category'', category), (''Business Service'', business),
              (''Batch'', batch), (''Satellite'', svn), (''PRN'', satellite), (''Slot'', slot),
              (''GSS Site'', lookup_or station_def station []), (''Station'', upper station),
              (''Service'', ''OS''),
              (''Type'', if length mode = 2 then ''Single'' else ''Dual''),
              (''Mode'', lookup_or mode_def mode mode), (''Target'', target), (''Unit'', unit),
              (''Date'', date), (''Result'', fmt5 result)] \<and>
           category_def kpi = Some category \<and>
           (\<exists>b. business_def constellation = Some b \<and> b kpi = Some business) \<and>
           target_def kpi = Some target \<and> unit_def kpi = Some unit \<and>
           satellite_fields atx date satellite = Inr (batch, svn, slot)"
proof -
  from satellite_fields_ok[OF assms(2)] obtain batch svn slot
    where sf: "satellite_fields atx date satellite = Inr (batch, svn, slot)" by blast
  from row_of_known_pair[OF assms(1) sf, of fmt5 mode result station]
  obtain category business target unit where
    r: "category_def kpi = Some category"
       "\<exists>b. business_def constellation = Some b \<and> b kpi = Some business"
       "target_def kpi = Some target" "unit_def kpi = Some unit"
       "get_grc_csv_row atx fmt5 constellation kpi mode date result station satellite =
          Inr [constellation, ''Open Service'', category, business, batch, svn, satellite, slot,
               lookup_or station_def station [], upper station, ''OS'',
               (if length mode = 2 then ''Single'' else ''Dual''), lookup_or mode_def mode mode,
               target, unit, date, fmt5 result]"
    by blast
  show ?thesis
    apply (rule exI[where x = "[constellation, ''Open Service'', category, business, batch, svn, satellite, slot,
               lookup_or station_def station [], upper station, ''OS'',
               (if length mode = 2 then ''Single'' else ''Dual''), lookup_or mode_def mode mode,
               target, unit, date, fmt5 result]"])
    apply (rule exI[where x = category], rule exI[where x = business], rule exI[where x = batch])
    apply (rule exI[where x = svn], rule exI[where x = slot], rule exI[where x = target])
    apply (rule exI[where x = unit])
    using r sf by (simp add: get_grc_csv_header_def)
qed

text \<open>The theorem of C1 at a Galileo satellite row of July 2021.\<close>

lemma known_galileo_sisre_sat: "known_pair ''Galileo'' ''sisre_sat''"
  by (simp add: known_pair_def category_def_def business_def_def business_galileo_def)

lemma parse_21_Jul: "strptime_y_b_d (''21-Jul'' @ ''-01'') = Inr \<lparr>year = 2021, month = 7, day = 1\<rparr>"
  by (simp add: strptime_y_b_d_def digit_val_def month_abbr_def parse_day_def lower_def lower_char_def)

theorem grc_row_has_17_fields_witness:
  "known_pair ''Galileo'' ''sisre_sat'' \<and>
   (\<exists>used_date. strptime_y_b_d (''21-Jul'' @ ''-01'') = Inr used_date) \<and>
   (\<exists>row. get_grc_csv_row example_atx fixed5 ''Galileo'' ''sisre_sat'' ''e1'' ''21-Jul'' () [] ''E11''
             = Inr row \<and> length row = 17)"
proof -
  have h2: "''E11'' = [] \<or> (\<exists>used_date. strptime_y_b_d (''21-Jul'' @ ''-01'') = Inr used_date)"
    using parse_21_Jul by blast
  from grc_row_has_17_fields_aligned_with_header[OF known_galileo_sisre_sat h2,
       of example_atx fixed5 "''e1''" "()" "[]"]
  have "\<exists>row. get_grc_csv_row example_atx fixed5 ''Galileo'' ''sisre_sat'' ''e1'' ''21-Jul'' () [] ''E11''
             = Inr row \<and> length row = 17" by blast
  then show ?thesis using known_galileo_sisre_sat parse_21_Jul by blast
qed

lemma parse_2021: "strptime_y_b_d (''2021'' @ ''-01'') = Inl ValueError"
  by (simp add: strptime_y_b_d_def digit_val_def month_abbr_def parse_day_def lower_def lower_char_def)

text \<open>
  Claim C1 as stated fails: for a known pair and a non-empty satellite, a date that does
  not parse makes \<open>get_grc_csv_row\<close> raise \<open>ValueError\<close> instead of returning a row.
\<close>

theorem grc_row_malformed_date_counterexample:
  "known_pair ''Galileo'' ''sisre_sat'' \<and>
   get_grc_csv_row example_atx fixed5 ''Galileo'' ''sisre_sat'' ''e1'' ''2021'' () [] ''E11''
     = Inl ValueError"
  using known_galileo_sisre_sat parse_2021
  by (simp add: get_grc_csv_row_cases satellite_fields_cases)

lemma get_grc_csv_row_KeyError_iff:
  "get_grc_csv_row atx fmt5 c k m d r st sat = Inl KeyError \<longleftrightarrow>
     (sat = [] \<or> (\<exists>ud. strptime_y_b_d (d @ ''-01'') = Inr ud)) \<and> \<not> known_pair c k"
proof (cases "satellite_fields atx d sat")
  case (Inl e)
  then have e: "e = ValueError" by (rule satellite_fields_error)
  have "\<not> (sat = [] \<or> (\<exists>ud. strptime_y_b_d (d @ ''-01'') = Inr ud))"
    using Inl satellite_fields_ok[of sat d atx] by auto
  then show ?thesis using Inl e by (simp add: get_grc_csv_row_cases)
next
  case (Inr t)
  have "sat = [] \<or> (\<exists>ud. strptime_y_b_d (d @ ''-01'') = Inr ud)"
    using Inr by (cases "sat = []") (auto simp: satellite_fields_cases split: sum.splits)
  then show ?thesis using Inr by (auto simp: get_grc_csv_row_cases split: prod.splits)
qed

lemma get_grc_csv_row_ValueError_iff:
  "get_grc_csv_row atx fmt5 c k m d r st sat = Inl ValueError \<longleftrightarrow>
     sat \<noteq> [] \<and> strptime_y_b_d (d @ ''-01'') = Inl ValueError"
proof (cases "sat = []")
  case True
  then show ?thesis by (simp add: get_grc_csv_row_cases satellite_fields_empty)
next
  case False
  show ?thesis
  proof (cases "strptime_y_b_d (d @ ''-01'')")
    case (Inl e)
    then have "e = ValueError" by (rule strptime_error)
    then show ?thesis using False Inl by (simp add: get_grc_csv_row_cases satellite_fields_cases)
  next
    case (Inr ud)
    then show ?thesis using False by (simp add: get_grc_csv_row_cases satellite_fields_cases)
  qed
qed

lemma row_fields:
  assumes "get_grc_csv_row atx fmt5 c k m d r st sat = Inr row"
  shows "\<exists>batch svn slot. satellite_fields atx d sat = Inr (batch, svn, slot) \<and> known_pair c k \<and>
           length row = 17 \<and> row ! 4 = batch \<and> row ! 5 = svn \<and> row ! 6 = sat \<and> row ! 7 = slot \<and>
           row ! 8 = lookup_or station_def st [] \<and> row ! 9 = upper st \<and>
           row ! 11 = (if length m = 2 then ''Single'' else ''Dual'') \<and>
           row ! 12 = lookup_or mode_def m m"
proof (cases "satellite_fields atx d sat")
  case (Inl e)
  then show ?thesis using assms by (simp add: get_grc_csv_row_cases)
next
  case (Inr t)
  obtain batch svn slot where t: "t = (batch, svn, slot)" by (cases t) auto
  show ?thesis using assms Inr t
    by (auto simp: get_grc_csv_row_cases split: if_splits)
qed

text \<open>
  Claim C2, as amended. \<open>get_grc_csv_row\<close> raises \<open>KeyError\<close> exactly when the pair is
  not known and the satellite block did not raise before (the satellite is empty or the
  date parses). For a known pair with an empty satellite it returns a row: an unknown mode
  is passed through in the Mode field, an unknown station gives an empty GSS Site field,
  the Station field is the station code in upper case, and Batch and Slot are empty. With
  a satellite, a returned row has an empty Batch for an unknown satellite type and an empty
  Slot for an unknown SVN.
\<close>

theorem grc_row_errors_and_fallbacks:
  "(get_grc_csv_row atx fmt5 constellation kpi mode date result station satellite = Inl KeyError
      \<longleftrightarrow> (satellite = [] \<or> (\<exists>used_date. strptime_y_b_d (date @ ''-01'') = Inr used_date)) \<and>
          \<not> known_pair constellation kpi) \<and>
   (known_pair constellation kpi \<and> satellite = [] \<longrightarrow>
      (\<exists>row. get_grc_csv_row atx fmt5 constellation kpi mode date result station satellite = Inr row \<and>
         (mode_def mode = None \<longrightarrow> row ! 12 = mode) \<and>
         (station_def station = None \<longrightarrow> row ! 8 = []) \<and>
         row ! 9 = upper station \<and> row ! 4 = [] \<and> row ! 7 = [] \<and>
         get_grc_csv_header ! 12 = ''Mode'' \<and> get_grc_csv_header ! 8 = ''GSS Site'' \<and>
         get_grc_csv_header ! 9 = ''Station'' \<and> get_grc_csv_header ! 4 = ''Batch'' \<and>
         get_grc_csv_header ! 7 = ''Slot'')) \<and>
   (\<forall>row. get_grc_csv_row atx fmt5 constellation kpi mode date result station satellite = Inr row \<and>
          satellite \<noteq> [] \<longrightarrow>
      (\<exists>used_date. strptime_y_b_d (date @ ''-01'') = Inr used_date \<and>
         (batch_def (sat_type (atx satellite used_date)) = None \<longrightarrow> row ! 4 = []) \<and>
         (slot_def (row ! 5) = None \<longrightarrow> row ! 7 = [])))"
proof (intro conjI impI allI)
  show "get_grc_csv_row atx fmt5 constellation kpi mode date result station satellite = Inl KeyError
      \<longleftrightarrow> (satellite = [] \<or> (\<exists>used_date. strptime_y_b_d (date @ ''-01'') = Inr used_date)) \<and>
          \<not> known_pair constellation kpi"
    by (rule get_grc_csv_row_KeyError_iff)
next
  assume a: "known_pair constellation kpi \<and> satellite = []"
  then have sf: "satellite_fields atx date satellite = Inr ([], [], [])"
    by (simp add: satellite_fields_empty)
  from row_of_known_pair[OF conjunct1[OF a] sf, of fmt5 mode result station]
  obtain row where r: "get_grc_csv_row atx fmt5 constellation kpi mode date result station satellite = Inr row"
    by blast
  from row_fields[OF r] sf show "\<exists>row. get_grc_csv_row atx fmt5 constellation kpi mode date result station satellite = Inr row \<and>
         (mode_def mode = None \<longrightarrow> row ! 12 = mode) \<and>
         (station_def station = None \<longrightarrow> row ! 8 = []) \<and>
         row ! 9 = upper station \<and> row ! 4 = [] \<and> row ! 7 = [] \<and>
         get_grc_csv_header ! 12 = ''Mode'' \<and> get_grc_csv_header ! 8 = ''GSS Site'' \<and>
         get_grc_csv_header ! 9 = ''Station'' \<and> get_grc_csv_header ! 4 = ''Batch'' \<and>
         get_grc_csv_header ! 7 = ''Slot''"
    using r by (auto simp: lookup_or_def get_grc_csv_header_def)
next
  fix row
  assume a: "get_grc_csv_row atx fmt5 constellation kpi mode date result station satellite = Inr row \<and>
          satellite \<noteq> []"
  from row_fields[OF conjunct1[OF a]] obtain batch svn slot where
    sf: "satellite_fields atx date satellite = Inr (batch, svn, slot)"
    and f: "row ! 4 = batch" "row ! 5 = svn" "row ! 7 = slot" by blast
  from sf a show "\<exists>used_date. strptime_y_b_d (date @ ''-01'') = Inr used_date \<and>
         (batch_def (sat_type (atx satellite used_date)) = None \<longrightarrow> row ! 4 = []) \<and>
         (slot_def (row ! 5) = None \<longrightarrow> row ! 7 = [])"
    using f by (auto simp: satellite_fields_cases lookup_or_def split: sum.splits)
qed

text \<open>The definitions that evaluate a call of the formatter on concrete arguments.\<close>

lemmas eval_defs =
  get_grc_csv_row_def satellite_fields_def subscript_def lookup_or_def sat_code_to_svn_def
  str_replace_def startswith_def upper_def upper_char_def
  strptime_y_b_d_def digit_val_def month_abbr_def parse_day_def lower_def lower_char_def
  category_def_def business_def_def business_galileo_def business_gps_def target_def_def
  unit_def_def mode_def_def station_def_def slot_def_def batch_def_def
  example_atx_def fixed5_def known_pair_def

lemma known_galileo_hpe: "known_pair ''Galileo'' ''hpe''"
  by (simp add: known_pair_def category_def_def business_def_def business_galileo_def)

lemma unknown_galileo_foo: "\<not> known_pair ''Galileo'' ''foo''"
  by (simp add: known_pair_def category_def_def)

text \<open>The theorem of C2 at an unknown kpi, at an unknown mode and station, and at a
  satellite whose type and code are in no table.\<close>

theorem grc_row_errors_and_fallbacks_witness:
  "get_grc_csv_row example_atx fixed5 ''Galileo'' ''foo'' ''e1'' ''21-Jul'' () [] [] = Inl KeyError \<and>
   (\<exists>row. get_grc_csv_row example_atx fixed5 ''Galileo'' ''hpe'' ''x9'' ''21-Jul'' () ''zzzz'' [] = Inr row \<and>
      row ! 12 = ''x9'' \<and> row ! 8 = [] \<and> row ! 9 = ''ZZZZ'' \<and> row ! 4 = [] \<and> row ! 7 = []) \<and>
   (\<exists>row. get_grc_csv_row example_atx fixed5 ''Galileo'' ''hpe'' ''e1'' ''21-Jul'' () [] ''R05'' = Inr row \<and>
      row ! 4 = [] \<and> row ! 5 = ''R05'' \<and> row ! 7 = [])"
proof -
  note t1 = grc_row_errors_and_fallbacks[of example_atx fixed5 "''Galileo''" "''foo''" "''e1''"
      "''21-Jul''" "()" "[]" "[]"]
  have a: "get_grc_csv_row example_atx fixed5 ''Galileo'' ''foo'' ''e1'' ''21-Jul'' () [] [] = Inl KeyError"
    using t1 unknown_galileo_foo by blast
  note t2 = grc_row_errors_and_fallbacks[of example_atx fixed5 "''Galileo''" "''hpe''" "''x9''"
      "''21-Jul''" "()" "''zzzz''" "[]"]
  have m: "mode_def ''x9'' = None" by (simp add: mode_def_def)
  have st: "station_def ''zzzz'' = None" by (simp add: station_def_def)
  have up: "upper ''zzzz'' = ''ZZZZ''" by (simp add: upper_def upper_char_def)
  have b: "\<exists>row. get_grc_csv_row example_atx fixed5 ''Galileo'' ''hpe'' ''x9'' ''21-Jul'' () ''zzzz'' [] = Inr row \<and>
      row ! 12 = ''x9'' \<and> row ! 8 = [] \<and> row ! 9 = ''ZZZZ'' \<and> row ! 4 = [] \<and> row ! 7 = []"
    using t2 known_galileo_hpe m st up by auto
  have r: "get_grc_csv_row example_atx fixed5 ''Galileo'' ''hpe'' ''e1'' ''21-Jul'' () [] ''R05'' =
      Inr [''Galileo'', ''Open Service'', ''Position Domain'',
           ''FOM-OS-08 Horizontal Positioning Service Accuracy per Station over Month'',
           [], ''R05'', ''R05'', [], [], [], ''OS'', ''Single'', ''E1'', [], ''m'', ''21-Jul'', ''1.00000'']"
    by (simp add: eval_defs)
  have c: "\<exists>row. get_grc_csv_row example_atx fixed5 ''Galileo'' ''hpe'' ''e1'' ''21-Jul'' () [] ''R05'' = Inr row \<and>
      row ! 4 = [] \<and> row ! 5 = ''R05'' \<and> row ! 7 = []"
    using r by simp
  show ?thesis using a b c by blast
qed

text \<open>
  Claim C2 as stated fails: with a non-empty satellite and a date that does not parse, an
  unknown kpi gives \<open>ValueError\<close>, not \<open>KeyError\<close>, and a known pair raises as well.
\<close>

theorem grc_row_KeyError_counterexample:
  "\<not> known_pair ''Galileo'' ''foo'' \<and>
   get_grc_csv_row example_atx fixed5 ''Galileo'' ''foo'' ''e1'' ''2021'' () [] ''E11'' = Inl ValueError \<and>
   get_grc_csv_row example_atx fixed5 ''Galileo'' ''foo'' ''e1'' ''2021'' () [] ''E11'' \<noteq> Inl KeyError \<and>
   known_pair ''Galileo'' ''hpe'' \<and>
   get_grc_csv_row example_atx fixed5 ''Galileo'' ''hpe'' ''e1'' ''2021'' () [] ''E11'' = Inl ValueError"
  using unknown_galileo_foo known_galileo_hpe parse_2021
  by (simp add: get_grc_csv_row_cases satellite_fields_cases)

text \<open>
  Claim C3. The docstring gives the date as month and year (\<open>July-2021\<close>), and the
  code parses \<open>date\<close> followed by \<open>-01\<close> with the format \<open>%y-%b-%d\<close>, which starts
  with a two-digit year. With a non-empty satellite, every date that starts with a
  character that is no digit, so every date that starts with a month name, raises
  \<open>ValueError\<close>: the date is not parsed and the service is never queried.
\<close>

theorem strptime_rejects_month_year_dates:
  assumes "satellite \<noteq> []" and "date = c # cs" and "digit_val c = None"
  shows "get_grc_csv_row atx fmt5 constellation kpi mode date result station satellite = Inl ValueError"
  using assms strptime_non_digit[of c "cs @ ''-01''"]
  by (simp add: get_grc_csv_row_cases satellite_fields_cases)

text \<open>The documented example: \<open>July-2021\<close> with satellite \<open>E11\<close>.\<close>

theorem strptime_rejects_July_2021:
  "''E11'' \<noteq> [] \<and> digit_val CHR ''J'' = None \<and>
   get_grc_csv_row example_atx fixed5 ''Galileo'' ''sisre_sat'' ''e1'' ''July-2021'' () [] ''E11''
     = Inl ValueError"
proof -
  have d: "digit_val CHR ''J'' = None" by (simp add: digit_val_def)
  have n: "''E11'' \<noteq> []" by simp
  from strptime_rejects_month_year_dates[OF n _ d, of "''July-2021''" "''uly-2021''"]
  have "get_grc_csv_row example_atx fixed5 ''Galileo'' ''sisre_sat'' ''e1'' ''July-2021'' () [] ''E11''
     = Inl ValueError" by simp
  with d n show ?thesis by blast
qed

lemma sat_code_to_svn_E:
  "startswith code ''E'' \<Longrightarrow>
     sat_code_to_svn code = concat (map (\<lambda>x. if x = CHR ''E'' then ''GSAT0'' else [x]) code)"
  by (simp add: sat_code_to_svn_def str_replace_def replace_single_char)

text \<open>
  Claim C4, as amended. With a non-empty satellite, a returned row holds in its Satellite
  field the identifier made from the service's short code: in a code that starts with
  \<open>E\<close> every \<open>E\<close> is replaced by \<open>GSAT0\<close>; in any other code that starts with
  \<open>G\<close> every occurrence of \<open>G0\<close> is replaced by \<open>SVN\<close>; any other code is kept.
  The identifier keys the slot table, and the Slot field is empty on a miss.
\<close>

theorem svn_conversion_replaces_every_occurrence:
  assumes "get_grc_csv_row atx fmt5 constellation kpi mode date result station satellite = Inr row"
    and "satellite \<noteq> []"
  shows "\<exists>used_date code svn.
           strptime_y_b_d (date @ ''-01'') = Inr used_date \<and>
           code = sat_code (atx satellite used_date) \<and> row ! 5 = svn \<and>
           (startswith code ''E'' \<longrightarrow>
              svn = concat (map (\<lambda>x. if x = CHR ''E'' then ''GSAT0'' else [x]) code)) \<and>
           (\<not> startswith code ''E'' \<and> startswith code ''G'' \<longrightarrow>
              svn = str_replace code ''G0'' ''SVN'') \<and>
           (\<not> startswith code ''E'' \<and> \<not> startswith code ''G'' \<longrightarrow> svn = code) \<and>
           (slot_def svn = None \<longrightarrow> row ! 7 = []) \<and>
           (\<forall>slot. slot_def svn = Some slot \<longrightarrow> row ! 7 = slot)"
proof -
  from row_fields[OF assms(1)] obtain batch svn slot where
    sf: "satellite_fields atx date satellite = Inr (batch, svn, slot)"
    and f: "row ! 5 = svn" "row ! 7 = slot" by blast
  from sf assms(2) obtain ud where ud: "strptime_y_b_d (date @ ''-01'') = Inr ud"
    and svn: "svn = sat_code_to_svn (sat_code (atx satellite ud))"
    and slot: "slot = lookup_or slot_def svn []"
    by (auto simp: satellite_fields_cases split: sum.splits)
  show ?thesis
    apply (rule exI[where x = ud], rule exI[where x = "sat_code (atx satellite ud)"])
    apply (rule exI[where x = svn])
    using ud f svn slot sat_code_to_svn_E[of "sat_code (atx satellite ud)"]
    by (auto simp: lookup_or_def sat_code_to_svn_def)
qed

text \<open>The theorem of C4 at \<open>G043\<close>, which becomes \<open>SVN43\<close> in slot \<open>F6\<close>, and at
  \<open>E101\<close>, which becomes \<open>GSAT0101\<close> in slot \<open>B05\<close>.\<close>

theorem svn_conversion_witness:
  "(\<exists>row. get_grc_csv_row example_atx fixed5 ''GPS'' ''sisre_sat'' ''l1'' ''21-Jul'' () [] ''G01'' = Inr row \<and>
      row ! 5 = ''SVN43'' \<and> row ! 7 = ''F6'') \<and>
   (\<exists>row. get_grc_csv_row example_atx fixed5 ''Galileo'' ''sisre_sat'' ''e1'' ''21-Jul'' () [] ''E11'' = Inr row \<and>
      row ! 5 = ''GSAT0101'' \<and> row ! 7 = ''B05'')"
proof -
  have r1: "get_grc_csv_row example_atx fixed5 ''GPS'' ''sisre_sat'' ''l1'' ''21-Jul'' () [] ''G01'' =
      Inr [''GPS'', ''Open Service'', ''Ranging Domain'',
           ''SPS-OS-04 SIS Ranging Accuracy per Satellite over Month'',
           ''IIR-M'', ''SVN43'', ''G01'', ''F6'', [], [], ''OS'', ''Single'', ''L1'',
           le_sign @ '' 7'', ''m'', ''21-Jul'', ''1.00000'']"
    by (simp add: eval_defs)
  have r2: "get_grc_csv_row example_atx fixed5 ''Galileo'' ''sisre_sat'' ''e1'' ''21-Jul'' () [] ''E11'' =
      Inr [''Galileo'', ''Open Service'', ''Ranging Domain'',
           ''SDD-OS-09 SIS Ranging Accuracy per Satellite over Month'',
           ''IOV'', ''GSAT0101'', ''E11'', ''B05'', [], [], ''OS'', ''Single'', ''E1'',
           le_sign @ '' 7'', ''m'', ''21-Jul'', ''1.00000'']"
    by (simp add: eval_defs)
  have s1: "slot_def ''SVN43'' = Some ''F6''" by (simp add: slot_def_def)
  have s2: "slot_def ''GSAT0101'' = Some ''B05''" by (simp add: slot_def_def)
  have n1: "''G01'' \<noteq> []" and n2: "''E11'' \<noteq> []" by simp_all
  from svn_conversion_replaces_every_occurrence[OF r1 n1] s1
  have a: "[''GPS'', ''Open Service'', ''Ranging Domain'',
           ''SPS-OS-04 SIS Ranging Accuracy per Satellite over Month'',
           ''IIR-M'', ''SVN43'', ''G01'', ''F6'', [], [], ''OS'', ''Single'', ''L1'',
           le_sign @ '' 7'', ''m'', ''21-Jul'', ''1.00000''] ! 7 = ''F6''" by simp
  from svn_conversion_replaces_every_occurrence[OF r2 n2] s2
  have b: "[''Galileo'', ''Open Service'', ''Ranging Domain'',
           ''SDD-OS-09 SIS Ranging Accuracy per Satellite over Month'',
           ''IOV'', ''GSAT0101'', ''E11'', ''B05'', [], [], ''OS'', ''Single'', ''E1'',
           le_sign @ '' 7'', ''m'', ''21-Jul'', ''1.00000''] ! 7 = ''B05''" by simp
  show ?thesis using r1 r2 a b by simp
qed

text \<open>
  Claim C4 as stated fails: the code \<open>E1E\<close> becomes \<open>GSAT01GSAT0\<close>; replacing the
  leading \<open>E\<close> only would give \<open>GSAT01E\<close>.
\<close>

theorem svn_conversion_first_occurrence_counterexample:
  "sat_code (repeated_code_atx ''E11'' \<lparr>year = 2021, month = 7, day = 1\<rparr>) = ''E1E'' \<and>
   strptime_y_b_d (''21-Jul'' @ ''-01'') = Inr \<lparr>year = 2021, month = 7, day = 1\<rparr> \<and>
   get_grc_csv_row repeated_code_atx fixed5 ''Galileo'' ''sisre_sat'' ''e1'' ''21-Jul'' () [] ''E11'' =
     Inr [''Galileo'', ''Open Service'', ''Ranging Domain'',
          ''SDD-OS-09 SIS Ranging Accuracy per Satellite over Month'',
          ''IOV'', ''GSAT01GSAT0'', ''E11'', [], [], [], ''OS'', ''Single'', ''E1'',
          le_sign @ '' 7'', ''m'', ''21-Jul'', ''1.00000''] \<and>
   ''GSAT01GSAT0'' \<noteq> ''GSAT0'' @ tl ''E1E''"
  by (simp add: eval_defs repeated_code_atx_def)

text \<open>
  Claim C5. In every row that \<open>get_grc_csv_row\<close> returns, the field under the header's
  \<open>Type\<close> column is \<open>Single\<close> exactly when the mode has length 2, and \<open>Dual\<close>
  otherwise.
\<close>

theorem type_field_single_iff_mode_length_2:
  assumes "get_grc_csv_row atx fmt5 constellation kpi mode date result station satellite = Inr row"
  shows "get_grc_csv_header ! 11 = ''Type'' \<and>
         row ! 11 = (if length mode = 2 then ''Single'' else ''Dual'') \<and>
         (row ! 11 = ''Single'' \<longleftrightarrow> length mode = 2) \<and>
         (row ! 11 = ''Dual'' \<longleftrightarrow> length mode \<noteq> 2)"
  using row_fields[OF assms] by (auto simp: get_grc_csv_header_def)

text \<open>The theorem of C5 at modes of length 2, 5 and 1.\<close>

theorem type_field_witness:
  "(\<exists>row. get_grc_csv_row example_atx fixed5 ''Galileo'' ''hpe'' ''e1'' ''21-Jul'' () ''altc'' [] = Inr row \<and>
      row ! 11 = ''Single'') \<and>
   (\<exists>row. get_grc_csv_row example_atx fixed5 ''Galileo'' ''hpe'' ''e1e5b'' ''21-Jul'' () ''altc'' [] = Inr row \<and>
      row ! 11 = ''Dual'') \<and>
   (\<exists>row. get_grc_csv_row example_atx fixed5 ''Galileo'' ''hpe'' ''e'' ''21-Jul'' () ''altc'' [] = Inr row \<and>
      row ! 11 = ''Dual'')"
proof -
  have sf: "satellite_fields example_atx ''21-Jul'' [] = Inr ([], [], [])"
    by (rule satellite_fields_empty)
  from row_of_known_pair[OF known_galileo_hpe sf, of fixed5 "''e1''" "()" "''altc''"]
  obtain r1 where r1: "get_grc_csv_row example_atx fixed5 ''Galileo'' ''hpe'' ''e1'' ''21-Jul'' () ''altc'' [] = Inr r1"
    by blast
  from row_of_known_pair[OF known_galileo_hpe sf, of fixed5 "''e1e5b''" "()" "''altc''"]
  obtain r2 where r2: "get_grc_csv_row example_atx fixed5 ''Galileo'' ''hpe'' ''e1e5b'' ''21-Jul'' () ''altc'' [] = Inr r2"
    by blast
  from row_of_known_pair[OF known_galileo_hpe sf, of fixed5 "''e''" "()" "''altc''"]
  obtain r3 where r3: "get_grc_csv_row example_atx fixed5 ''Galileo'' ''hpe'' ''e'' ''21-Jul'' () ''altc'' [] = Inr r3"
    by blast
  from type_field_single_iff_mode_length_2[OF r1] have a: "r1 ! 11 = ''Single''" by simp
  from type_field_single_iff_mode_length_2[OF r2] have b: "r2 ! 11 = ''Dual''" by simp
  from type_field_single_iff_mode_length_2[OF r3] have c: "r3 ! 11 = ''Dual''" by simp
  show ?thesis using r1 r2 r3 a b c by blast
qed

section \<open>Properties of the plot generator\<close>

lemma keeps_ret [intro!, simp]: "keeps_self (ret x)"
  by (simp add: keeps_self_def after_def ret_def)

lemma keeps_raise [intro!, simp]: "keeps_self (raise e)"
  by (simp add: keeps_self_def after_def raise_def)

lemma keeps_emit [intro!, simp]: "keeps_self (emit e)"
  by (simp add: keeps_self_def after_def emit_def)

lemma keeps_read [intro!, simp]: "keeps_self (read f)"
  by (simp add: keeps_self_def after_def read_def)

lemma keeps_try_read [intro!, simp]: "keeps_self (try_read f)"
  by (simp add: keeps_self_def after_def try_read_def)

lemma keeps_selfD:
  assumes "keeps_self m" and "m self = (ev, r, s)"
  shows "s = self"
proof -
  from assms(1) have "after m self = self" by (simp add: keeps_self_def)
  with assms(2) show ?thesis by (simp add: after_def)
qed

lemma keeps_bind [intro!]:
  assumes "keeps_self m" and "\<And>x. keeps_self (f x)"
  shows "keeps_self (bind m f)"
  unfolding keeps_self_def after_def
proof
  fix self
  obtain ev r s where m: "m self = (ev, r, s)" by (cases "m self") auto
  from assms(1) m have s: "s = self" by (rule keeps_selfD)
  show "snd (snd (bind m f self)) = self"
  proof (cases r)
    case (Inl e)
    with m s show ?thesis by (simp add: bind_def)
  next
    case (Inr x)
    obtain ev' r' s' where f: "f x self = (ev', r', s')" by (cases "f x self") auto
    from assms(2)[of x] f have "s' = self" by (rule keeps_selfD)
    with m s Inr f show ?thesis by (simp add: bind_def)
  qed
qed

lemma keeps_for_each [intro!]:
  assumes "\<And>x acc. keeps_self (body x acc)"
  shows "keeps_self (for_each xs body acc)"
  by (induction xs arbitrary: acc) (auto intro: assms)

lemma keeps_if [intro!]:
  "(c \<Longrightarrow> keeps_self a) \<Longrightarrow> (\<not> c \<Longrightarrow> keeps_self b) \<Longrightarrow> keeps_self (if c then a else b)"
  by simp

lemma keeps_case_prod [intro!]:
  "(\<And>a b. keeps_self (f a b)) \<Longrightarrow> keeps_self (case p of (a, b) \<Rightarrow> f a b)"
  by (cases p) simp

lemma keeps_case_option [intro!]:
  "keeps_self a \<Longrightarrow> (\<And>x. keeps_self (f x)) \<Longrightarrow> keeps_self (case opt of None \<Rightarrow> a | Some x \<Rightarrow> f x)"
  by (cases opt) simp_all

lemma keeps_plot_dop: "keeps_self (plot_dop n)"
  unfolding plot_dop_def by (intro keeps_bind keeps_ret keeps_emit keeps_read keeps_try_read)

lemma keeps_scatter_of_system: "keeps_self (scatter_of_system n f fn yl sys acc)"
  unfolding scatter_of_system_def by (intro keeps_bind keeps_ret keeps_emit keeps_read keeps_try_read keeps_if keeps_case_prod)

lemma keeps_plot_epoch_by_epoch_difference: "keeps_self (plot_epoch_by_epoch_difference n)"
  unfolding plot_epoch_by_epoch_difference_def
  by (intro keeps_bind keeps_for_each keeps_read keeps_try_read keeps_scatter_of_system)

lemma keeps_plot_field: "keeps_self (plot_field f c n)"
  unfolding plot_field_def
  by (intro keeps_bind keeps_for_each keeps_read keeps_scatter_of_system)

lemma keeps_linear_combination_of_system:
  "keeps_self (linear_combination_of_system n f dn lg yl sys acc)"
  unfolding linear_combination_of_system_def
  by (intro keeps_bind keeps_ret keeps_emit keeps_read keeps_try_read keeps_if keeps_case_prod)

lemma keeps_plot_linear_combinations: "keeps_self (plot_linear_combinations n)"
  unfolding plot_linear_combinations_def
  by (intro keeps_bind keeps_for_each keeps_read keeps_try_read keeps_if
        keeps_linear_combination_of_system)

lemma keeps_number_of_satellites_of_system:
  "keeps_self (number_of_satellites_of_system env sys xyl)"
  unfolding number_of_satellites_of_system_def
  by (intro keeps_bind keeps_ret keeps_read keeps_try_read keeps_case_prod)

lemma keeps_plot_number_of_satellites: "keeps_self (plot_number_of_satellites env n)"
  unfolding plot_number_of_satellites_def
  by (intro keeps_bind keeps_for_each keeps_ret keeps_emit keeps_read keeps_case_prod
        keeps_number_of_satellites_of_system)

lemma keeps_sort_by_satellite: "keeps_self (sort_by_satellite a)"
  unfolding sort_by_satellite_def by (rule keeps_read)

lemma keeps_availability_of_system:
  "keeps_self (availability_of_system env ts sats syss sys xyl)"
  unfolding availability_of_system_def
  by (intro keeps_bind keeps_ret keeps_try_read)

lemma keeps_plot_satellite_availability: "keeps_self (plot_satellite_availability env n)"
  unfolding plot_satellite_availability_def
  by (intro keeps_bind keeps_for_each keeps_ret keeps_emit keeps_read
        keeps_case_prod keeps_sort_by_satellite keeps_availability_of_system)

lemma keeps_get_day_limits: "keeps_self get_day_limits"
  unfolding get_day_limits_def by (rule keeps_try_read)

lemma keeps_elevation_of_system:
  "keeps_self (elevation_of_system env n elevation day_start day_end sys acc)"
  unfolding elevation_of_system_def
  by (intro keeps_bind keeps_ret keeps_emit keeps_read keeps_try_read keeps_case_prod)

lemma keeps_plot_satellite_elevation: "keeps_self (plot_satellite_elevation env n)"
  unfolding plot_satellite_elevation_def
  by (intro keeps_bind keeps_for_each keeps_ret keeps_read keeps_try_read
        keeps_case_prod keeps_get_day_limits keeps_elevation_of_system)

lemma keeps_get_dataset: "keeps_self (get_dataset env stage systems)"
  unfolding get_dataset_def
  by (intro keeps_bind keeps_ret keeps_emit keeps_read keeps_case_option)

lemma keeps_plot_satellite_overview: "keeps_self (plot_satellite_overview env n)"
  unfolding plot_satellite_overview_def
  by (intro keeps_bind keeps_ret keeps_emit keeps_read keeps_try_read keeps_if
        keeps_case_prod keeps_get_day_limits keeps_get_dataset keeps_sort_by_satellite)

lemma bind_ret [simp]: "bind (ret x) f = f x"
  by (rule ext) (simp add: bind_def ret_def split: prod.splits)

lemma bind_read [simp]: "bind (read g) f self = f (g self) self"
  by (simp add: bind_def read_def split: prod.splits)

lemma bind_emit [simp]:
  "bind (emit e) f self = (case f () self of (ev, r, s) \<Rightarrow> (e # ev, r, s))"
  by (simp add: bind_def emit_def split: prod.splits)

lemma bind_try_read [simp]:
  "bind (try_read g) f self = (case g self of Inl e \<Rightarrow> ([], Inl e, self) | Inr x \<Rightarrow> f x self)"
  by (simp add: bind_def try_read_def split: prod.splits sum.splits)

lemma bind_modify_dset [simp]:
  "bind (modify_dset g) f self = f () (self\<lparr>dset := g (dset self)\<rparr>)"
  by (simp add: bind_def modify_dset_def split: prod.splits)

lemma ret_apply [simp]: "ret x self = ([], Inr x, self)"
  by (simp add: ret_def)

lemma bind_run:
  "m self = (ev, Inr x, s) \<Longrightarrow> f x s = (ev', r, s') \<Longrightarrow> bind m f self = (ev @ ev', r, s')"
  by (simp add: bind_def)

lemma bind_run_error:
  "m self = (ev, Inl e, s) \<Longrightarrow> bind m f self = (ev, Inl e, s)"
  by (simp add: bind_def)

text \<open>A loop whose every turn succeeds, appends to the accumulator and keeps the object.\<close>

lemma for_each_append:
  assumes "\<And>x acc. x \<in> set xs \<Longrightarrow> body x acc self = (ev x, Inr (acc @ out x), self)"
  shows "for_each xs body acc self = (concat (map ev xs), Inr (acc @ concat (map out xs)), self)"
  using assms
proof (induction xs arbitrary: acc)
  case Nil
  then show ?case by simp
next
  case (Cons x xs)
  have step: "body x acc self = (ev x, Inr (acc @ out x), self)"
    by (rule Cons.prems) simp
  have rest: "for_each xs body (acc @ out x) self =
      (concat (map ev xs), Inr ((acc @ out x) @ concat (map out xs)), self)"
    by (rule Cons.IH) (simp add: Cons.prems)
  show ?case
    using bind_run[of "body x acc" self "ev x" "acc @ out x" self "for_each xs body", OF step rest]
    by simp
qed

lemma plots_append [simp]: "plots (a @ b) = plots a @ plots b"
  by (simp add: plots_def)

lemma warnings_append [simp]: "warnings (a @ b) = warnings a @ warnings b"
  by (simp add: warnings_def)

lemma plots_simps [simp]:
  "plots [] = []" "plots (Plot p # ev) = p # plots ev"
  "plots (Debug m # ev) = plots ev" "plots (Warn m # ev) = plots ev"
  by (simp_all add: plots_def)

lemma warnings_simps [simp]:
  "warnings [] = []" "warnings (Plot p # ev) = warnings ev"
  "warnings (Debug m # ev) = warnings ev" "warnings (Warn m # ev) = m # warnings ev"
  by (simp_all add: warnings_def)

lemma plots_concat: "plots (concat evs) = concat (map plots evs)"
  by (induction evs) simp_all

lemma warnings_concat: "warnings (concat evs) = concat (map warnings evs)"
  by (induction evs) simp_all

lemma scatter_of_system_skip:
  assumes "get_field fn self = Inr vals" and "all_nan vals sys self"
  shows "scatter_of_system n f fn yl sys acc self = ([], Inr acc, self)"
  using assms by (simp add: scatter_of_system_def all_nan_def)

lemma scatter_of_system_plot:
  assumes "get_field fn self = Inr vals" and "\<not> all_nan vals sys self"
  shows "\<exists>p. scatter_of_system n f fn yl sys acc self =
           ([Debug (plot_message (solution_path n f self sys)), Plot p],
            Inr (acc @ [solution_path n f self sys]), self) \<and>
         figure_path p = solution_path n f self sys \<and>
         labels p = Some (filter (\<lambda>sat. startswith sat sys)
                            (py_sorted (unique (satellite_array (dset self)))))"
  using assms
  by (simp add: scatter_of_system_def all_nan_def solution_path_def satellite_curves_def
      Let_def split: prod.splits)

lemma concat_map_if:
  "concat (map (\<lambda>x. if P x then [] else [f x]) xs) = map f (filter (\<lambda>x. \<not> P x) xs)"
  by (induction xs) simp_all

lemma filter_single:
  "distinct xs \<Longrightarrow> b \<in> set xs \<Longrightarrow> filter (\<lambda>x. x = b) xs = [b]"
proof (induction xs)
  case Nil
  then show ?case by simp
next
  case (Cons x xs)
  show ?case
  proof (cases "x = b")
    case True
    with Cons.prems have "b \<notin> set xs" by simp
    then have "filter (\<lambda>x. x = b) xs = []" by (induction xs) auto
    with True show ?thesis by simp
  next
    case False
    with Cons show ?thesis by simp
  qed
qed

lemma sort_sort: "sort (sort xs) = sort (xs :: string list)"
  by (simp add: sorted_sort_id)

lemma py_sorted_unique: "py_sorted (unique xs) = sort (remdups xs)"
  by (simp add: py_sorted_def unique_def sort_sort)

lemma scatter_of_system_events:
  "fst (scatter_of_system n f fn yl sys acc self) = fst (scatter_of_system n f fn yl sys [] self)"
  by (simp add: scatter_of_system_def split: prod.splits sum.splits)

lemma scatter_of_system_run:
  assumes gf: "get_field fn self = Inr vals"
  shows "scatter_of_system n f fn yl sys acc self =
           (scatter_events n f fn yl self sys,
            Inr (acc @ (if all_nan vals sys self then [] else [solution_path n f self sys])), self)"
proof (cases "all_nan vals sys self")
  case True
  then show ?thesis by (simp add: scatter_events_def scatter_of_system_skip[OF gf])
next
  case False
  from scatter_of_system_plot[OF gf False, of n f yl acc]
  obtain p where "scatter_of_system n f fn yl sys acc self =
         ([Debug (plot_message (solution_path n f self sys)), Plot p],
          Inr (acc @ [solution_path n f self sys]), self)" by blast
  then show ?thesis
    using False scatter_of_system_events[of n f fn yl sys acc self]
    by (simp add: scatter_events_def)
qed

lemma scatter_events_props:
  assumes gf: "get_field fn self = Inr vals"
  shows "map figure_path (plots (scatter_events n f fn yl self sys)) =
           (if all_nan vals sys self then [] else [solution_path n f self sys])"
    and "map labels (plots (scatter_events n f fn yl self sys)) =
           (if all_nan vals sys self then [] else [Some (satellites_of_system self sys)])"
    and "warnings (scatter_events n f fn yl self sys) = []"
proof -
  have "map figure_path (plots (scatter_events n f fn yl self sys)) =
           (if all_nan vals sys self then [] else [solution_path n f self sys]) \<and>
        map labels (plots (scatter_events n f fn yl self sys)) =
           (if all_nan vals sys self then [] else [Some (satellites_of_system self sys)]) \<and>
        warnings (scatter_events n f fn yl self sys) = []"
  proof (cases "all_nan vals sys self")
    case True
    then show ?thesis by (simp add: scatter_events_def scatter_of_system_skip[OF gf])
  next
    case False
    from scatter_of_system_plot[OF gf False, of n f yl "[]"]
    show ?thesis using False
      by (auto simp: scatter_events_def satellites_of_system_def py_sorted_unique)
  qed
  then show "map figure_path (plots (scatter_events n f fn yl self sys)) =
           (if all_nan vals sys self then [] else [solution_path n f self sys])"
    and "map labels (plots (scatter_events n f fn yl self sys)) =
           (if all_nan vals sys self then [] else [Some (satellites_of_system self sys)])"
    and "warnings (scatter_events n f fn yl self sys) = []" by simp_all
qed

lemma for_each_scatter_run:
  assumes gf: "get_field fn self = Inr vals"
  shows "for_each systems (scatter_of_system n f fn yl) acc self =
           (concat (map (scatter_events n f fn yl self) systems),
            Inr (acc @ map (solution_path n f self)
                         (filter (\<lambda>sys. \<not> all_nan vals sys self) systems)), self)"
proof -
  have "for_each systems (scatter_of_system n f fn yl) acc self =
      (concat (map (scatter_events n f fn yl self) systems),
       Inr (acc @ concat (map (\<lambda>sys. if all_nan vals sys self then []
                                      else [solution_path n f self sys]) systems)), self)"
    by (rule for_each_append) (rule scatter_of_system_run[OF gf])
  then show ?thesis by (simp add: concat_map_if)
qed

lemma scatter_events_concat:
  assumes gf: "get_field fn self = Inr vals"
  shows "map figure_path (plots (concat (map (scatter_events n f fn yl self) systems))) =
           map (solution_path n f self) (filter (\<lambda>sys. \<not> all_nan vals sys self) systems)"
    and "map labels (plots (concat (map (scatter_events n f fn yl self) systems))) =
           map (\<lambda>sys. Some (satellites_of_system self sys))
             (filter (\<lambda>sys. \<not> all_nan vals sys self) systems)"
    and "warnings (concat (map (scatter_events n f fn yl self) systems)) = []"
  by (induction systems) (simp_all add: scatter_events_props[OF gf])

lemma plot_field_run:
  assumes gf: "get_field (field_name_of collection field) self = Inr vals"
  shows "\<exists>ev. plot_field field collection n self =
           (ev, Inr (map (solution_path n field self) (plotted_systems vals self)), self) \<and>
         map figure_path (plots ev) = map (solution_path n field self) (plotted_systems vals self) \<and>
         map labels (plots ev) =
           map (\<lambda>sys. Some (satellites_of_system self sys)) (plotted_systems vals self) \<and>
         warnings ev = []"
  using for_each_scatter_run[OF gf, of "obstypes_systems self" n field
      "lookup_or field_def field (''Field ('' @ field @ '')'')" "[]"]
    scatter_events_concat[OF gf, of n field
      "lookup_or field_def field (''Field ('' @ field @ '')'')" "obstypes_systems self"]
  by (simp add: plot_field_def plotted_systems_def)

lemma collection_field_exists:
  assumes "collection_fields c self = Inr fs" and "f \<in> set fs"
  shows "get_field (c @ ''.'' @ f) self = Inr (field_values (c @ ''.'' @ f) self)"
proof -
  from assms obtain k where k: "k \<in> set (keys (float_fields (dset self)))"
    "startswith k (c @ ''.'')" "f = drop (length c + 1) k"
    by (auto simp: collection_fields_def Let_def split: if_splits)
  from k(2) have "take (length c + 1) k = c @ ''.''" by (simp add: startswith_def)
  then have "k = (c @ ''.'') @ f" using k(3) by (metis append_take_drop_id)
  moreover from k(1) have "map_of (float_fields (dset self)) k \<noteq> None"
    by (simp add: keys_def map_of_eq_None_iff)
  ultimately show ?thesis by (auto simp: get_field_def field_values_def)
qed

lemma epoch_difference_turn:
  assumes cf: "collection_fields ''diff_epo'' self = Inr fs" and f: "field \<in> set fs"
  shows "bind (read obstypes_systems) (\<lambda>systems.
          for_each systems
            (scatter_of_system n field (''diff_epo.'' @ field)
               (''Epoch by epoch difference ('' @ field @ '')''))
            acc) self =
         (epoch_difference_events n self field, Inr (acc @ epoch_difference_paths n self field), self)"
  using for_each_scatter_run[OF collection_field_exists[OF cf f], of "obstypes_systems self" n field
        "''Epoch by epoch difference ('' @ field @ '')''" acc]
  by (simp add: epoch_difference_paths_def plotted_systems_def epoch_difference_events_def)

lemma epoch_difference_events_props:
  assumes cf: "collection_fields ''diff_epo'' self = Inr fs" and f: "field \<in> set fs"
  shows "map figure_path (plots (epoch_difference_events n self field)) =
           epoch_difference_paths n self field"
    and "map labels (plots (epoch_difference_events n self field)) =
           epoch_difference_labels self field"
    and "warnings (epoch_difference_events n self field) = []"
  using scatter_events_concat[OF collection_field_exists[OF cf f], of n field
        "''Epoch by epoch difference ('' @ field @ '')''" "obstypes_systems self"]
  by (simp_all add: epoch_difference_paths_def plotted_systems_def epoch_difference_events_def
      epoch_difference_labels_def)

lemma plot_epoch_by_epoch_difference_run:
  assumes cf: "collection_fields ''diff_epo'' self = Inr fs"
  shows "\<exists>ev. plot_epoch_by_epoch_difference n self =
           (ev, Inr (concat (map (epoch_difference_paths n self) fs)), self) \<and>
         map figure_path (plots ev) = concat (map (epoch_difference_paths n self) fs) \<and>
         map labels (plots ev) = concat (map (epoch_difference_labels self) fs) \<and>
         warnings ev = []"
proof -
  let ?body = "\<lambda>field figure_paths.
          bind (read obstypes_systems) (\<lambda>systems.
          for_each systems
            (scatter_of_system n field (''diff_epo.'' @ field)
               (''Epoch by epoch difference ('' @ field @ '')''))
            figure_paths)"
  have run: "for_each fs ?body [] self =
      (concat (map (epoch_difference_events n self) fs),
       Inr ([] @ concat (map (epoch_difference_paths n self) fs)), self)"
    by (rule for_each_append) (rule epoch_difference_turn[OF cf])
  have all: "set gs \<subseteq> set fs \<Longrightarrow>
      map figure_path (plots (concat (map (epoch_difference_events n self) gs))) =
        concat (map (epoch_difference_paths n self) gs) \<and>
      map labels (plots (concat (map (epoch_difference_events n self) gs))) =
        concat (map (epoch_difference_labels self) gs) \<and>
      warnings (concat (map (epoch_difference_events n self) gs)) = []" for gs
    by (induction gs) (simp_all add: epoch_difference_events_props[OF cf])
  have "plot_epoch_by_epoch_difference n self = for_each fs ?body [] self"
    by (simp add: plot_epoch_by_epoch_difference_def cf)
  with run have "plot_epoch_by_epoch_difference n self =
      (concat (map (epoch_difference_events n self) fs),
       Inr (concat (map (epoch_difference_paths n self) fs)), self)" by simp
  with all[of fs] show ?thesis by blast
qed

lemma two_systems_one_plotted:
  assumes "set (keys d) = {a, b}" and "P b" and "\<not> P a"
  shows "filter P (py_sorted (keys d)) = [b]"
proof -
  have d: "distinct (py_sorted (keys d))" by (simp add: py_sorted_def keys_def)
  have s: "set (py_sorted (keys d)) = {a, b}" using assms(1) by (simp add: py_sorted_def)
  have "filter P (py_sorted (keys d)) = filter (\<lambda>x. x = b) (py_sorted (keys d))"
    by (rule filter_cong) (use s assms in auto)
  also have "\<dots> = [b]" by (rule filter_single[OF d]) (simp add: s)
  finally show ?thesis .
qed

text \<open>
  Claim C6. When the plotted field exists, \<open>plot_field\<close> returns the figure paths of
  the systems of \<open>meta["obstypes"]\<close>, in sorted order, whose observations are not all
  not-a-number in the field; it calls \<open>plot\<close> once for each of them, with that path, logs
  no warning and leaves the object as it was. A system whose observations are all
  not-a-number is none of them. With two systems of which one is all not-a-number and the
  other is not, it returns exactly the path of the other and plots once.
  \<open>plot_epoch_by_epoch_difference\<close> does the same for every field of the collection
  \<open>diff_epo\<close>, field after field.
\<close>

theorem all_nan_groups_are_skipped:
  "(get_field (field_name_of collection field) self = Inr vals \<longrightarrow>
      (\<exists>ev. plot_field field collection figure_name self =
               (ev, Inr (map (solution_path figure_name field self) (plotted_systems vals self)), self) \<and>
             map figure_path (plots ev) =
               map (solution_path figure_name field self) (plotted_systems vals self) \<and>
             warnings ev = []) \<and>
      (\<forall>sys. all_nan vals sys self \<longrightarrow> sys \<notin> set (plotted_systems vals self)) \<and>
      (\<forall>a b. set (keys (meta_obstypes (dset self))) = {a, b} \<and>
             all_nan vals a self \<and> \<not> all_nan vals b self \<longrightarrow>
         (\<exists>ev p. plot_field field collection figure_name self =
                   (ev, Inr [solution_path figure_name field self b], self) \<and>
                 plots ev = [p] \<and> figure_path p = solution_path figure_name field self b \<and>
                 warnings ev = []))) \<and>
   (collection_fields ''diff_epo'' self = Inr fs \<longrightarrow>
      (\<exists>ev. plot_epoch_by_epoch_difference figure_name self =
               (ev, Inr (concat (map (epoch_difference_paths figure_name self) fs)), self) \<and>
             map figure_path (plots ev) = concat (map (epoch_difference_paths figure_name self) fs) \<and>
             warnings ev = []) \<and>
      (\<forall>f sys. all_nan (field_values (''diff_epo.'' @ f) self) sys self \<longrightarrow>
         sys \<notin> set (plotted_systems (field_values (''diff_epo.'' @ f) self) self)))"
proof (intro conjI impI allI)
  assume gf: "get_field (field_name_of collection field) self = Inr vals"
  from plot_field_run[OF gf, of figure_name]
  show "\<exists>ev. plot_field field collection figure_name self =
               (ev, Inr (map (solution_path figure_name field self) (plotted_systems vals self)), self) \<and>
             map figure_path (plots ev) =
               map (solution_path figure_name field self) (plotted_systems vals self) \<and>
             warnings ev = []" by blast
next
  fix sys
  assume "all_nan vals sys self"
  then show "sys \<notin> set (plotted_systems vals self)" by (simp add: plotted_systems_def)
next
  fix a b
  assume gf: "get_field (field_name_of collection field) self = Inr vals"
    and ab: "set (keys (meta_obstypes (dset self))) = {a, b} \<and>
             all_nan vals a self \<and> \<not> all_nan vals b self"
  have ps: "plotted_systems vals self = [b]"
    unfolding plotted_systems_def obstypes_systems_def
    by (rule two_systems_one_plotted[of _ a]) (use ab in auto)
  from plot_field_run[OF gf, of figure_name] obtain ev where
    ev: "plot_field field collection figure_name self =
           (ev, Inr (map (solution_path figure_name field self) (plotted_systems vals self)), self)"
        "map figure_path (plots ev) = map (solution_path figure_name field self) (plotted_systems vals self)"
        "warnings ev = []" by blast
  from ev(2) ps obtain p where p: "plots ev = [p]" "figure_path p = solution_path figure_name field self b"
    by (cases "plots ev") auto
  show "\<exists>ev p. plot_field field collection figure_name self =
                   (ev, Inr [solution_path figure_name field self b], self) \<and>
                 plots ev = [p] \<and> figure_path p = solution_path figure_name field self b \<and>
                 warnings ev = []"
    using ev p ps by auto
next
  assume cf: "collection_fields ''diff_epo'' self = Inr fs"
  from plot_epoch_by_epoch_difference_run[OF cf, of figure_name]
  show "\<exists>ev. plot_epoch_by_epoch_difference figure_name self =
               (ev, Inr (concat (map (epoch_difference_paths figure_name self) fs)), self) \<and>
             map figure_path (plots ev) = concat (map (epoch_difference_paths figure_name self) fs) \<and>
             warnings ev = []" by blast
next
  fix f sys
  assume "all_nan (field_values (''diff_epo.'' @ f) self) sys self"
  then show "sys \<notin> set (plotted_systems (field_values (''diff_epo.'' @ f) self) self)"
    by (simp add: plotted_systems_def)
qed

text \<open>The definitions that evaluate a plot on the example dataset.\<close>

lemmas example_defs =
  example_self_def example_dataset_def get_field_def field_name_of_def all_nan_def
  select_def mask_eq_def isnan_def keys_def collection_fields_def startswith_def
  solution_path_def figure_path_of_def joinpath_def str_replace_def FIGURE_FORMAT_def
  plotted_systems_def obstypes_systems_def py_sorted_def field_values_def
  epoch_difference_paths_def

text \<open>The theorem of C6 on the example dataset: for \<open>gnss_range\<close> only Galileo is plotted,
  for the epoch difference of \<open>C1C\<close> only GPS.\<close>

theorem all_nan_groups_are_skipped_witness:
  "get_field (field_name_of None ''gnss_range'') example_self = Inr [Num 1, NaN, NaN, NaN] \<and>
   set (keys (meta_obstypes (dset example_self))) = {''G'', ''E''} \<and>
   all_nan [Num 1, NaN, NaN, NaN] ''G'' example_self \<and>
   \<not> all_nan [Num 1, NaN, NaN, NaN] ''E'' example_self \<and>
   (\<exists>ev p. plot_field ''gnss_range'' None ''plot_field_{solution}.{FIGURE_FORMAT}'' example_self =
             (ev, Inr [''figs/plot_field_E_gnss_range.png''], example_self) \<and>
           plots ev = [p] \<and> figure_path p = ''figs/plot_field_E_gnss_range.png'' \<and>
           warnings ev = []) \<and>
   collection_fields ''diff_epo'' example_self = Inr [''C1C''] \<and>
   (\<exists>ev. plot_epoch_by_epoch_difference ''plot_epoch_by_epoch_difference_{solution}.{FIGURE_FORMAT}''
            example_self =
            (ev, Inr [''figs/plot_epoch_by_epoch_difference_G_C1C.png''], example_self) \<and>
          map figure_path (plots ev) = [''figs/plot_epoch_by_epoch_difference_G_C1C.png''] \<and>
          warnings ev = [])"
proof -
  have gf: "get_field (field_name_of None ''gnss_range'') example_self = Inr [Num 1, NaN, NaN, NaN]"
    by (simp add: example_defs)
  have ks: "set (keys (meta_obstypes (dset example_self))) = {''G'', ''E''}"
    by (simp add: example_defs)
  have g: "all_nan [Num 1, NaN, NaN, NaN] ''G'' example_self"
    by (simp add: example_defs)
  have e: "\<not> all_nan [Num 1, NaN, NaN, NaN] ''E'' example_self"
    by (simp add: example_defs)
  have cf: "collection_fields ''diff_epo'' example_self = Inr [''C1C'']"
    by (simp add: example_defs)
  have p1: "solution_path ''plot_field_{solution}.{FIGURE_FORMAT}'' ''gnss_range'' example_self ''E''
      = ''figs/plot_field_E_gnss_range.png''"
    by (simp add: example_defs)
  have p2: "concat (map (epoch_difference_paths
        ''plot_epoch_by_epoch_difference_{solution}.{FIGURE_FORMAT}'' example_self) [''C1C''])
      = [''figs/plot_epoch_by_epoch_difference_G_C1C.png'']"
    by (simp add: example_defs)
  note t = all_nan_groups_are_skipped[of None "''gnss_range''" example_self "[Num 1, NaN, NaN, NaN]"
      "''plot_field_{solution}.{FIGURE_FORMAT}''" "[''C1C'']"]
  note t' = all_nan_groups_are_skipped[of None "''gnss_range''" example_self "[Num 1, NaN, NaN, NaN]"
      "''plot_epoch_by_epoch_difference_{solution}.{FIGURE_FORMAT}''" "[''C1C'']"]
  from t gf ks g e have a: "\<exists>ev p. plot_field ''gnss_range'' None ''plot_field_{solution}.{FIGURE_FORMAT}'' example_self =
             (ev, Inr [solution_path ''plot_field_{solution}.{FIGURE_FORMAT}'' ''gnss_range'' example_self ''E''], example_self) \<and>
           plots ev = [p] \<and>
           figure_path p = solution_path ''plot_field_{solution}.{FIGURE_FORMAT}'' ''gnss_range'' example_self ''E'' \<and>
           warnings ev = []"
    by blast
  from t' cf have b: "\<exists>ev. plot_epoch_by_epoch_difference ''plot_epoch_by_epoch_difference_{solution}.{FIGURE_FORMAT}''
            example_self =
            (ev, Inr (concat (map (epoch_difference_paths
        ''plot_epoch_by_epoch_difference_{solution}.{FIGURE_FORMAT}'' example_self) [''C1C''])), example_self) \<and>
          map figure_path (plots ev) = concat (map (epoch_difference_paths
        ''plot_epoch_by_epoch_difference_{solution}.{FIGURE_FORMAT}'' example_self) [''C1C'']) \<and>
          warnings ev = []"
    by blast
  show ?thesis using gf ks g e cf a b unfolding p1 p2 by blast
qed

lemma get_day_limits_run:
  "time_utc (dset self) \<noteq> [] \<Longrightarrow> \<exists>lo hi. get_day_limits self = ([], Inr (lo, hi), self)"
  by (cases "time_utc (dset self)") (simp_all add: get_day_limits_def try_read_def)

lemma get_day_limits_empty:
  "time_utc (dset self) = [] \<Longrightarrow> get_day_limits self = ([], Inl ValueError, self)"
  by (simp add: get_day_limits_def try_read_def)

lemma get_dataset_run:
  "\<exists>w d. get_dataset env stage systems self = (w, Inr d, self) \<and> plots w = []"
  by (cases "dataset_read env (stage_file_vars stage self)") (simp_all add: get_dataset_def)

lemma sort_by_satellite_run:
  "sort_by_satellite a self =
     ([], Inr (own_rows_by_satellite self (time_gps (dset self)),
               own_rows_by_satellite self (satellite_array (dset self)),
               own_rows_by_satellite self (system_array (dset self))), self)"
  by (simp add: sort_by_satellite_def read_def own_rows_by_satellite_def Let_def)

lemma bind_known:
  "m self = (w, Inr x, self) \<Longrightarrow>
     bind m f self = (case f x self of (ev, r, s) \<Rightarrow> (w @ ev, r, s))"
  by (simp add: bind_def)

lemma bind_sort_by_satellite [simp]:
  "bind (sort_by_satellite a) f self =
     f (own_rows_by_satellite self (time_gps (dset self)),
        own_rows_by_satellite self (satellite_array (dset self)),
        own_rows_by_satellite self (system_array (dset self))) self"
  by (simp add: bind_def sort_by_satellite_run split: prod.splits)

lemma plot_satellite_overview_no_file:
  assumes "\<not> path_exists env (read_file_path env self)" and "time_utc (dset self) \<noteq> []"
  shows "plot_satellite_overview env figure_name self =
     ([Debug (plot_message (simple_figure_path figure_name self)),
       Warn (''Read dataset does not exists: '' @ read_file_path env self @ ''. Plot '' @
             simple_figure_path figure_name self @ '' can not be plotted.'')],
      Inr None, self)"
proof -
  from get_day_limits_run[OF assms(2)] obtain lo hi where
    "get_day_limits self = ([], Inr (lo, hi), self)" by blast
  then have b: "bind get_day_limits f self = f (lo, hi) self" for f :: "epoch \<times> epoch \<Rightarrow> string option run"
    by (simp add: bind_def split: prod.splits)
  show ?thesis using assms(1)
    by (simp add: plot_satellite_overview_def b read_file_path_def)
qed

lemma plot_satellite_overview_empty:
  assumes "time_utc (dset self) = []"
  shows "plot_satellite_overview env figure_name self =
     ([Debug (plot_message (simple_figure_path figure_name self))], Inl ValueError, self)"
proof -
  have b: "bind get_day_limits f self = ([], Inl ValueError, self)" for f :: "epoch \<times> epoch \<Rightarrow> string option run"
    using get_day_limits_empty[OF assms] by (simp add: bind_def)
  show ?thesis by (simp add: plot_satellite_overview_def b)
qed

lemma plot_satellite_overview_file:
  assumes "path_exists env (read_file_path env self)" and "time_utc (dset self) \<noteq> []"
  shows "\<exists>ev p. plot_satellite_overview env figure_name self =
           (ev, Inr (Some (simple_figure_path figure_name self)), self) \<and>
         plots ev = [p] \<and>
         x_arrays p = replicate 3 (map T (own_rows_by_satellite self (time_gps (dset self)))) \<and>
         y_arrays p = replicate 3 (map S (own_rows_by_satellite self (satellite_array (dset self))))"
proof -
  from get_day_limits_run[OF assms(2)] obtain lo hi where
    "get_day_limits self = ([], Inr (lo, hi), self)" by blast
  then have b: "bind get_day_limits f self = f (lo, hi) self" for f :: "epoch \<times> epoch \<Rightarrow> string option run"
    by (simp add: bind_def split: prod.splits)
  let ?systems = "keys (meta_obstypes (dset self))"
  let ?t = "own_rows_by_satellite self (time_gps (dset self))"
  let ?s = "own_rows_by_satellite self (satellite_array (dset self))"
  let ?path = "simple_figure_path figure_name self"
  let ?plot = "Plot
         \<lparr>x_arrays = [map T ?t, map T ?t, map T ?t],
          y_arrays = [map S ?s, map S ?s, map S ?s],
          xlabel = ''Time [GPS]'', ylabel = ''Satellite'', y_unit = [], labels = None,
          colors = Some [''red'', ''orange'', ''green''], figure_path = ?path,
          opt_args = [(''colormap'', OStr ''tab20''), (''figsize'', OTuple [OInt 7, OInt 6]),
                      (''marker'', OStr ''|''), (''plot_to'', OStr ''file''),
                      (''plot_type'', OStr ''scatter''),
                      (''title'', OStr ''Overview over satellites''),
                      (''xlim'', OList [OTime lo, OTime hi])]\<rparr>"
  from get_dataset_run[of env "''read''" ?systems self] obtain w1 d1 where
    g1: "get_dataset env ''read'' ?systems self = (w1, Inr d1, self)" "plots w1 = []" by blast
  from get_dataset_run[of env "''orbit''" ?systems self] obtain w2 d2 where
    g2: "get_dataset env ''orbit'' ?systems self = (w2, Inr d2, self)" "plots w2 = []" by blast
  from get_dataset_run[of env "''edit''" ?systems self] obtain w3 d3 where
    g3: "get_dataset env ''edit'' ?systems self = (w3, Inr d3, self)" "plots w3 = []" by blast
  have "plot_satellite_overview env figure_name self =
      (Debug (plot_message ?path) # w1 @ w2 @ w3 @ [?plot], Inr (Some ?path), self)"
    using assms(1)
    by (simp add: plot_satellite_overview_def b read_file_path_def
        bind_known[where m = "get_dataset env ''read'' ?systems" and self = self, OF g1(1)]
        bind_known[where m = "get_dataset env ''orbit'' ?systems" and self = self, OF g2(1)]
        bind_known[where m = "get_dataset env ''edit'' ?systems" and self = self, OF g3(1)])
  then show ?thesis using g1(2) g2(2) g3(2)
    by (intro exI[where x = "Debug (plot_message ?path) # w1 @ w2 @ w3 @ [?plot]"]
        exI[where x = "\<lparr>x_arrays = [map T ?t, map T ?t, map T ?t],
          y_arrays = [map S ?s, map S ?s, map S ?s],
          xlabel = ''Time [GPS]'', ylabel = ''Satellite'', y_unit = [], labels = None,
          colors = Some [''red'', ''orange'', ''green''], figure_path = ?path,
          opt_args = [(''colormap'', OStr ''tab20''), (''figsize'', OTuple [OInt 7, OInt 6]),
                      (''marker'', OStr ''|''), (''plot_to'', OStr ''file''),
                      (''plot_type'', OStr ''scatter''),
                      (''title'', OStr ''Overview over satellites''),
                      (''xlim'', OList [OTime lo, OTime hi])]\<rparr>"])
       (simp add: numeral_3_eq_3)
qed

text \<open>
  Claim C7, as amended. If the dataset has at least one epoch and the file of the
  \<open>read\<close> stage does not exist, \<open>plot_satellite_overview\<close> logs its debug line and one
  warning, calls \<open>plot\<close> not at all, raises nothing, returns \<open>None\<close> and leaves the object
  as it was.
\<close>

theorem missing_read_file_skips_overview:
  assumes "\<not> path_exists env (read_file_path env self)" and "time_utc (dset self) \<noteq> []"
  shows "plot_satellite_overview env figure_name self =
           ([Debug (plot_message (simple_figure_path figure_name self)),
             Warn (''Read dataset does not exists: '' @ read_file_path env self @ ''. Plot '' @
                   simple_figure_path figure_name self @ '' can not be plotted.'')],
            Inr None, self) \<and>
         plots (events (plot_satellite_overview env figure_name) self) = [] \<and>
         length (warnings (events (plot_satellite_overview env figure_name) self)) = 1 \<and>
         outcome (plot_satellite_overview env figure_name) self = Inr None"
  using plot_satellite_overview_no_file[OF assms, of figure_name]
  by (simp add: events_def outcome_def)

text \<open>The definitions that evaluate the example environments.\<close>

lemmas example_env_defs =
  example_env_def example_env_no_file_def example_files_path_def example_no_file_def
  example_read_file_def example_dataset_read_def example_stage_dataset_def
  example_names_def example_count_def example_empty_self_def
  read_file_path_def stage_file_vars_def dict_merge_def lookup_or_def
  simple_figure_path_def plot_message_def

text \<open>The theorem of C7 on the example dataset, with no file of the \<open>read\<close> stage.\<close>

theorem missing_read_file_witness:
  "\<not> path_exists example_env_no_file (read_file_path example_env_no_file example_self) \<and>
   time_utc (dset example_self) \<noteq> [] \<and>
   plot_satellite_overview example_env_no_file ''plot_satellite_overview.{FIGURE_FORMAT}'' example_self =
     ([Debug ''Plot figs/plot_satellite_overview.png.'',
       Warn ''Read dataset does not exists: work/read.hdf5. Plot figs/plot_satellite_overview.png can not be plotted.''],
      Inr None, example_self)"
proof -
  have a: "\<not> path_exists example_env_no_file (read_file_path example_env_no_file example_self)"
    by (simp add: example_env_defs)
  have b: "time_utc (dset example_self) \<noteq> []"
    by (simp add: example_defs)
  have p: "simple_figure_path ''plot_satellite_overview.{FIGURE_FORMAT}'' example_self =
      ''figs/plot_satellite_overview.png''"
    by (simp add: example_defs simple_figure_path_def)
  have f: "read_file_path example_env_no_file example_self = ''work/read.hdf5''"
    by (simp add: example_env_defs example_defs)
  from missing_read_file_skips_overview[OF a b, of "''plot_satellite_overview.{FIGURE_FORMAT}''"]
  show ?thesis using a b unfolding p f by (simp add: plot_message_def)
qed

text \<open>
  Claim C7 as stated fails: line 800 takes the minimum and maximum of the epochs before
  line 806 looks for the file, so on a dataset without epochs the method raises
  \<open>ValueError\<close> and logs no warning.
\<close>

theorem overview_of_empty_dataset_counterexample:
  "\<not> path_exists example_env_no_file (read_file_path example_env_no_file example_empty_self) \<and>
   plot_satellite_overview example_env_no_file ''plot_satellite_overview.{FIGURE_FORMAT}''
     example_empty_self =
     ([Debug ''Plot figs/plot_satellite_overview.png.''], Inl ValueError, example_empty_self)"
proof -
  have a: "\<not> path_exists example_env_no_file (read_file_path example_env_no_file example_empty_self)"
    by (simp add: example_env_defs)
  have e: "time_utc (dset example_empty_self) = []"
    by (simp add: example_empty_self_def)
  have p: "simple_figure_path ''plot_satellite_overview.{FIGURE_FORMAT}'' example_empty_self =
      ''figs/plot_satellite_overview.png''"
    by (simp add: example_empty_self_def simple_figure_path_def joinpath_def str_replace_def
        startswith_def FIGURE_FORMAT_def)
  show ?thesis using a plot_satellite_overview_empty[OF e, of example_env_no_file
      "''plot_satellite_overview.{FIGURE_FORMAT}''"] unfolding p
    by (simp add: plot_message_def)
qed

text \<open>
  Claim C8. When the file of the \<open>read\<close> stage exists and the dataset has an epoch,
  \<open>plot_satellite_overview\<close> plots three times the same two series: the epochs and the
  satellites of the object's own dataset, ordered by satellite. \<open>_sort_by_satellite\<close>
  never reads the dataset it is given, so the datasets of the stages \<open>read\<close>, \<open>orbit\<close>
  and \<open>edit\<close> do not reach the plot.
\<close>

theorem overview_plots_own_dataset_three_times:
  assumes "path_exists env (read_file_path env self)" and "time_utc (dset self) \<noteq> []"
  shows "\<exists>ev p. plot_satellite_overview env figure_name self =
           (ev, Inr (Some (simple_figure_path figure_name self)), self) \<and>
         plots ev = [p] \<and>
         x_arrays p = replicate 3 (map T (own_rows_by_satellite self (time_gps (dset self)))) \<and>
         y_arrays p = replicate 3 (map S (own_rows_by_satellite self (satellite_array (dset self))))"
  using assms by (rule plot_satellite_overview_file)

text \<open>
  The theorem of C8 in an environment whose \<open>read\<close> stage holds one Galileo observation
  of satellite \<open>E30\<close>: the three series are those of the four observations of the
  object's own dataset.
\<close>

theorem overview_ignores_stage_datasets:
  "path_exists example_env (read_file_path example_env example_self) \<and>
   time_utc (dset example_self) \<noteq> [] \<and>
   get_dataset example_env ''read'' (keys (meta_obstypes (dset example_self))) example_self =
     ([], Inr (Dataset (example_stage_dataset\<lparr>system_array := [''E''], satellite_array := [''E30''],
                          time_gps := [60], time_utc := [60]\<rparr>)), example_self) \<and>
   (\<exists>ev p. plot_satellite_overview example_env ''plot_satellite_overview.{FIGURE_FORMAT}'' example_self =
             (ev, Inr (Some ''figs/plot_satellite_overview.png''), example_self) \<and>
           plots ev = [p] \<and>
           x_arrays p = [[T 30, T 0, T 0, T 30], [T 30, T 0, T 0, T 30], [T 30, T 0, T 0, T 30]] \<and>
           y_arrays p = [[S ''G02'', S ''G01'', S ''E11'', S ''E02''],
                         [S ''G02'', S ''G01'', S ''E11'', S ''E02''],
                         [S ''G02'', S ''G01'', S ''E11'', S ''E02'']])"
proof -
  have a: "path_exists example_env (read_file_path example_env example_self)"
    by (simp add: example_env_defs example_defs)
  have b: "time_utc (dset example_self) \<noteq> []"
    by (simp add: example_defs)
  have g: "get_dataset example_env ''read'' (keys (meta_obstypes (dset example_self))) example_self =
     ([], Inr (Dataset (example_stage_dataset\<lparr>system_array := [''E''], satellite_array := [''E30''],
                          time_gps := [60], time_utc := [60]\<rparr>)), example_self)"
    by (simp add: get_dataset_def example_env_defs example_defs subset_def)
  have p: "simple_figure_path ''plot_satellite_overview.{FIGURE_FORMAT}'' example_self =
      ''figs/plot_satellite_overview.png''"
    by (simp add: example_defs simple_figure_path_def)
  have t: "own_rows_by_satellite example_self (time_gps (dset example_self)) = [30, 0, 0, 30]"
    by (simp add: own_rows_by_satellite_def rows_of_satellites_def py_sorted_reverse_def
        unique_def example_defs)
  have s: "own_rows_by_satellite example_self (satellite_array (dset example_self)) =
      [''G02'', ''G01'', ''E11'', ''E02'']"
    by (simp add: own_rows_by_satellite_def rows_of_satellites_def py_sorted_reverse_def
        unique_def example_defs)
  from overview_plots_own_dataset_three_times[OF a b, of "''plot_satellite_overview.{FIGURE_FORMAT}''"]
  have "\<exists>ev p. plot_satellite_overview example_env ''plot_satellite_overview.{FIGURE_FORMAT}'' example_self =
             (ev, Inr (Some ''figs/plot_satellite_overview.png''), example_self) \<and>
           plots ev = [p] \<and>
           x_arrays p = [[T 30, T 0, T 0, T 30], [T 30, T 0, T 0, T 30], [T 30, T 0, T 0, T 30]] \<and>
           y_arrays p = [[S ''G02'', S ''G01'', S ''E11'', S ''E02''],
                         [S ''G02'', S ''G01'', S ''E11'', S ''E02''],
                         [S ''G02'', S ''G01'', S ''E11'', S ''E02'']]"
    unfolding p t s by (simp add: numeral_3_eq_3)
  then show ?thesis using a b g by blast
qed

lemma after_keeps: "keeps_self m \<Longrightarrow> after m self = self"
  by (simp add: keeps_self_def)

lemma after_bind_read [simp]: "after (bind (read g) f) self = after (f (g self)) self"
  by (simp add: after_def)

lemma after_bind_emit [simp]: "after (bind (emit e) f) self = after (f ()) self"
  by (simp add: after_def split: prod.splits)

lemma after_bind_try_read [simp]:
  "after (bind (try_read g) f) self = (case g self of Inl e \<Rightarrow> self | Inr x \<Rightarrow> after (f x) self)"
  by (simp add: after_def split: sum.splits)

lemma after_bind_modify_dset [simp]:
  "after (bind (modify_dset g) f) self = after (f ()) (self\<lparr>dset := g (dset self)\<rparr>)"
  by (simp add: after_def)

lemma after_ret [simp]: "after (ret x) self = self"
  by (simp add: after_def)

lemma after_bind_ret: "after (bind (ret x) f) self = after (f x) self"
  by simp

lemma after_bind:
  "after (bind m f) self =
     (case outcome m self of Inl e \<Rightarrow> after m self | Inr x \<Rightarrow> after (f x) (after m self))"
  by (simp add: after_def outcome_def bind_def split: prod.splits sum.splits)

lemma after_bind_rest:
  assumes "\<And>x. keeps_self (f x)"
  shows "after (bind m f) self = after m self"
  by (simp add: after_bind after_keeps[OF assms] split: sum.splits)

lemma after_modify_dset [simp]: "after (modify_dset g) self = self\<lparr>dset := g (dset self)\<rparr>"
  by (simp add: after_def modify_dset_def)

lemma after_plot_number_of_satellites_used:
  "after (plot_number_of_satellites_used env n) self = with_num_satellite_used env self"
proof -
  have rest: "keeps_self
     (bind (read (\<lambda>self. map T (time_gps (dset self)))) (\<lambda>t.
      bind (try_read (get_field ''num_satellite_available'')) (\<lambda>available.
      bind (try_read (get_field ''num_satellite_used'')) (\<lambda>used.
      bind (emit (Plot (pc t available used))) (\<lambda>_.
      ret path)))))" for pc path
    by (intro keeps_bind keeps_ret keeps_emit keeps_read keeps_try_read)
  show ?thesis
    unfolding plot_number_of_satellites_used_def with_num_satellite_used_def
    by (simp only: after_bind_read after_bind_emit after_bind_rest[OF rest])
       (simp add: after_modify_dset after_ret)
qed

lemma keeps_skyplot_of_system:
  "keeps_self (skyplot_of_system env n azimuth zenith_distance sys acc)"
  unfolding skyplot_of_system_def
  by (intro keeps_bind keeps_ret keeps_emit keeps_read keeps_try_read keeps_case_prod)

lemma after_plot_skyplot:
  "after (plot_skyplot env n) self = with_wrapped_azimuth env self"
proof -
  have rest: "keeps_self
     (bind (try_read (get_field ''site_pos.zenith_distance'')) (\<lambda>zenith_read.
      bind (ret (map rad2deg zenith_read)) (\<lambda>zenith_distance.
      bind (read (\<lambda>self. py_sorted (unique (system_array (dset self))))) (\<lambda>systems.
      for_each systems (skyplot_of_system env n azimuth zenith_distance) []))))" for azimuth
    by (intro keeps_bind keeps_for_each keeps_ret keeps_read keeps_try_read
        keeps_skyplot_of_system)
  show ?thesis
    unfolding plot_skyplot_def with_wrapped_azimuth_def
    by (simp only: after_bind_try_read after_bind_ret after_bind_rest[OF rest])
       (simp add: after_modify_dset split: sum.splits)
qed

lemma sort_string_array_idem: "sort_string_array (sort_string_array xs) = sort_string_array xs"
  unfolding sort_string_array_def by (rule sort_key_id_if_sorted) simp

lemma obstypes_sorted_from_refl: "obstypes_sorted_from self self"
  by (simp add: obstypes_sorted_from_def list_all2_same)

lemma obstypes_sorted_from_trans:
  assumes "obstypes_sorted_from a b" and "obstypes_sorted_from b c"
  shows "obstypes_sorted_from a c"
proof -
  let ?R = "\<lambda>a b. snd b = snd a \<or> snd b = sort_string_array (snd (a :: string \<times> string list))"
  have l: "list_all2 ?R (meta_obstypes (dset a)) (meta_obstypes (dset c))"
  proof (rule list_all2_trans[where ?P1.0 = ?R and ?P2.0 = ?R])
    show "?R x y \<Longrightarrow> ?R y z \<Longrightarrow> ?R x z" for x y z
      by (auto simp: sort_string_array_idem)
    show "list_all2 ?R (meta_obstypes (dset a)) (meta_obstypes (dset b))"
      using assms(1) by (simp add: obstypes_sorted_from_def)
    show "list_all2 ?R (meta_obstypes (dset b)) (meta_obstypes (dset c))"
      using assms(2) by (simp add: obstypes_sorted_from_def)
  qed
  from assms have "c = b\<lparr>dset := (dset b)\<lparr>meta_obstypes := meta_obstypes (dset c)\<rparr>\<rparr>"
    and "b = a\<lparr>dset := (dset a)\<lparr>meta_obstypes := meta_obstypes (dset b)\<rparr>\<rparr>"
    by (simp_all add: obstypes_sorted_from_def)
  then have "c = a\<lparr>dset := (dset a)\<lparr>meta_obstypes := meta_obstypes (dset c)\<rparr>\<rparr>"
    by (metis (no_types, lifting) dataset.surjective dataset.update_convs(6) gnss_plot.select_convs(1)
        gnss_plot.surjective gnss_plot.update_convs(1))
  with l assms show ?thesis by (simp add: obstypes_sorted_from_def)
qed

lemma sorts_keeps: "keeps_self m \<Longrightarrow> sorts_obstypes_only m"
  by (simp add: sorts_obstypes_only_def after_keeps obstypes_sorted_from_refl)

lemma sorts_bind:
  assumes "sorts_obstypes_only m" and "\<And>x. sorts_obstypes_only (f x)"
  shows "sorts_obstypes_only (bind m f)"
  unfolding sorts_obstypes_only_def
proof
  fix self
  from assms(1) have m: "obstypes_sorted_from self (after m self)"
    by (simp add: sorts_obstypes_only_def)
  show "obstypes_sorted_from self (after (bind m f) self)"
  proof (cases "outcome m self")
    case (Inl e)
    with m show ?thesis by (simp add: after_bind)
  next
    case (Inr x)
    from assms(2)[of x] have "obstypes_sorted_from (after m self) (after (f x) (after m self))"
      by (simp add: sorts_obstypes_only_def)
    with m Inr show ?thesis by (auto simp: after_bind intro: obstypes_sorted_from_trans)
  qed
qed

lemma sorts_for_each:
  assumes "\<And>x acc. sorts_obstypes_only (body x acc)"
  shows "sorts_obstypes_only (for_each xs body acc)"
  by (induction xs arbitrary: acc) (auto intro: sorts_keeps sorts_bind assms)

lemma sorts_case_prod:
  "(\<And>a b. sorts_obstypes_only (f a b)) \<Longrightarrow> sorts_obstypes_only (case p of (a, b) \<Rightarrow> f a b)"
  by (cases p) simp

lemma dict_set_found:
  assumes "map_of d k = Some v"
  shows "map fst (dict_set k (g v) d) = map fst d"
    and "list_all2 (\<lambda>a b. snd b = snd a \<or> snd b = g (snd a)) d (dict_set k (g v) d)"
  using assms by (induction d) (auto simp: list_all2_same)

lemma keeps_obstype_of_satellite: "keeps_self (obstype_of_satellite sat idx_sat obstype kxy)"
  unfolding obstype_of_satellite_def
  by (intro keeps_bind keeps_ret keeps_read keeps_try_read keeps_case_prod)

lemma after_obstypes_of_satellite:
  "after (obstypes_of_satellite sys sat xy) self =
     (case obstypes_of sys self of
        Inl e \<Rightarrow> self
      | Inr array \<Rightarrow> self\<lparr>dset := set_obstypes sys (sort_string_array array) (dset self)\<rparr>)"
proof -
  have rest: "keeps_self
     (bind (for_each sorted_array (obstype_of_satellite sat idx_sat) acc) (\<lambda>(keep_idx, x, y).
      ret (x, y)))" for sorted_array idx_sat acc
    by (intro keeps_bind keeps_for_each keeps_ret keeps_case_prod keeps_obstype_of_satellite)
  show ?thesis
    unfolding obstypes_of_satellite_def
    by (simp only: after_bind_read prod.case after_bind_try_read after_bind_modify_dset
        after_keeps[OF rest])
qed

lemma sorts_obstypes_of_satellite: "sorts_obstypes_only (obstypes_of_satellite sys sat xy)"
  unfolding sorts_obstypes_only_def
proof
  fix self
  show "obstypes_sorted_from self (after (obstypes_of_satellite sys sat xy) self)"
  proof (cases "obstypes_of sys self")
    case (Inl e)
    then show ?thesis by (simp add: after_obstypes_of_satellite obstypes_sorted_from_refl)
  next
    case (Inr array)
    then have m: "map_of (meta_obstypes (dset self)) sys = Some array"
      by (auto simp: obstypes_of_def subscript_def split: option.splits)
    from dict_set_found[OF m, of sort_string_array] Inr show ?thesis
      by (simp add: after_obstypes_of_satellite obstypes_sorted_from_def set_obstypes_def)
  qed
qed

lemma sorts_obstype_availability_of_system:
  "sorts_obstypes_only (obstype_availability_of_system n sys acc)"
  unfolding obstype_availability_of_system_def
  by (intro sorts_bind sorts_for_each sorts_case_prod sorts_obstypes_of_satellite
        sorts_keeps[OF keeps_read] sorts_keeps[OF keeps_emit] sorts_keeps[OF keeps_ret])

lemma sorts_plot_obstype_availability: "sorts_obstypes_only (plot_obstype_availability n)"
  unfolding plot_obstype_availability_def
  by (intro sorts_bind sorts_for_each sorts_obstype_availability_of_system
        sorts_keeps[OF keeps_read])

text \<open>
  Claim C10, as amended. Eight plot methods leave the object and its dataset as they were,
  whatever they return or raise: \<open>plot_dop\<close>, \<open>plot_epoch_by_epoch_difference\<close>,
  \<open>plot_field\<close>, \<open>plot_linear_combinations\<close>, \<open>plot_number_of_satellites\<close>,
  \<open>plot_satellite_availability\<close>, \<open>plot_satellite_elevation\<close> and
  \<open>plot_satellite_overview\<close>. \<open>plot_number_of_satellites_used\<close> adds the column
  \<open>num_satellite_used\<close> when it is absent and changes nothing when it is present.
  \<open>plot_obstype_availability\<close> changes nothing but the order within the lists of
  \<open>meta["obstypes"]\<close>, each of which ends as it was or sorted. \<open>plot_skyplot\<close> writes
  the azimuths, the negative ones raised by a full turn, into the array it took from the
  dataset: the dataset is unchanged when that array is a fresh one, and holds the new
  values when it is the dataset's own. (\<open>get_grc_csv_row\<close> is given no dataset.)
\<close>

theorem dataset_changes_of_every_plot:
  "keeps_self (plot_dop figure_name) \<and>
   keeps_self (plot_epoch_by_epoch_difference figure_name) \<and>
   keeps_self (plot_field field collection figure_name) \<and>
   keeps_self (plot_linear_combinations figure_name) \<and>
   keeps_self (plot_number_of_satellites env figure_name) \<and>
   keeps_self (plot_satellite_availability env figure_name) \<and>
   keeps_self (plot_satellite_elevation env figure_name) \<and>
   keeps_self (plot_satellite_overview env figure_name) \<and>
   after (plot_number_of_satellites_used env figure_name) self = with_num_satellite_used env self \<and>
   (''num_satellite_used'' \<in> set (dataset_fields (dset self)) \<longrightarrow>
      after (plot_number_of_satellites_used env figure_name) self = self) \<and>
   obstypes_sorted_from self (after (plot_obstype_availability figure_name) self) \<and>
   after (plot_skyplot env figure_name) self = with_wrapped_azimuth env self \<and>
   (\<not> azimuth_by_reference env \<longrightarrow> after (plot_skyplot env figure_name) self = self)"
proof -
  have a: "''num_satellite_used'' \<in> set (dataset_fields (dset self)) \<longrightarrow>
      after (plot_number_of_satellites_used env figure_name) self = self"
    by (simp add: after_plot_number_of_satellites_used with_num_satellite_used_def)
  have b: "\<not> azimuth_by_reference env \<longrightarrow> after (plot_skyplot env figure_name) self = self"
    by (simp add: after_plot_skyplot with_wrapped_azimuth_def split: sum.splits)
  have c: "obstypes_sorted_from self (after (plot_obstype_availability figure_name) self)"
    using sorts_plot_obstype_availability[of figure_name] by (simp add: sorts_obstypes_only_def)
  show ?thesis
    using a b c keeps_plot_dop keeps_plot_epoch_by_epoch_difference keeps_plot_field
      keeps_plot_linear_combinations keeps_plot_number_of_satellites
      keeps_plot_satellite_availability keeps_plot_satellite_elevation
      keeps_plot_satellite_overview after_plot_number_of_satellites_used after_plot_skyplot
    by blast
qed

text \<open>The definitions that run a method on a concrete object.\<close>

lemmas run_defs =
  bind_def ret_def emit_def read_def try_read_def modify_dset_def after_def outcome_def events_def

text \<open>\<open>plot_obstype_availability\<close> on the example dataset, in full.\<close>

lemma example_obstype_availability:
  "plot_obstype_availability ''plot_obstype_availability_{system}.{FIGURE_FORMAT}'' example_self =
     ([Debug ''Plot figs/plot_obstype_availability_E.png.'',
       Plot \<lparr>x_arrays = [[T 0], [T 30]],
             y_arrays = [[S ''E11_C1C''], [S ''E02_C1C'']],
             xlabel = ''Time [GPS]'', ylabel = ''Satellite and observation type'', y_unit = [],
             labels = None, colors = None,
             figure_path = ''figs/plot_obstype_availability_E.png'',
             opt_args = [(''colormap'', OStr ''tab20''),
                         (''figsize'', OTuple [OReal 2, OReal 6]),
                         (''fontsize'', OInt 5), (''plot_to'', OStr ''file''),
                         (''plot_type'', OStr ''scatter'')]\<rparr>,
       Debug ''Plot figs/plot_obstype_availability_G.png.'',
       Plot \<lparr>x_arrays = [[T 30], [T 0], [T 0]],
             y_arrays = [[S ''G02_C1C''], [S ''G01_C1C''], [S ''G01_C2W'']],
             xlabel = ''Time [GPS]'', ylabel = ''Satellite and observation type'', y_unit = [],
             labels = None, colors = None,
             figure_path = ''figs/plot_obstype_availability_G.png'',
             opt_args = [(''colormap'', OStr ''tab20''),
                         (''figsize'', OTuple [OReal 2, OReal 6]),
                         (''fontsize'', OInt 5), (''plot_to'', OStr ''file''),
                         (''plot_type'', OStr ''scatter'')]\<rparr>],
      Inr [''figs/plot_obstype_availability_E.png'', ''figs/plot_obstype_availability_G.png''],
      example_self\<lparr>dset := example_dataset
        \<lparr>meta_obstypes := [(''G'', [''C1C'', ''C2W'']), (''E'', [''C1C''])]\<rparr>\<rparr>)"
  by (simp add: plot_obstype_availability_def obstype_availability_of_system_def
      obstypes_of_satellite_def obstype_of_satellite_def run_defs
      example_self_def example_dataset_def py_sorted_def py_sorted_reverse_def unique_def
      startswith_def figure_path_of_def joinpath_def str_replace_def FIGURE_FORMAT_def
      plot_message_def mask_eq_def select_def num_obs_def obstypes_of_def subscript_def
      set_obstypes_def sort_string_array_def get_field_def isnan_def)

text \<open>
  The theorem of C10 on the example dataset: the column is added once and not again, the
  lists of observation types are reordered at most, and the azimuths change exactly when
  the dataset hands out its own array.
\<close>

theorem dataset_changes_witness:
  "''num_satellite_used'' \<notin> set (dataset_fields (dset example_self)) \<and>
   float_fields (dset (after (plot_number_of_satellites_used example_env
       ''plot_number_of_satellites_used.png'') example_self)) =
     float_fields (dset example_self) @ [(''num_satellite_used'', [Num 2, Num 2, Num 2, Num 2])] \<and>
   ''num_satellite_used'' \<in> set (dataset_fields (dset (with_num_satellite_used example_env example_self))) \<and>
   after (plot_number_of_satellites_used example_env ''plot_number_of_satellites_used.png'')
     (with_num_satellite_used example_env example_self) =
     with_num_satellite_used example_env example_self \<and>
   obstypes_sorted_from example_self
     (after (plot_obstype_availability ''plot_obstype_availability_{system}.{FIGURE_FORMAT}'')
        example_self) \<and>
   azimuth_by_reference example_env \<and>
   get_field ''site_pos.azimuth''
     (after (plot_skyplot example_env ''plot_skyplot_{system}.{FIGURE_FORMAT}'') example_self) =
     Inr [Num (2 * pi + - 1), Num 1, Num 2, Num 3] \<and>
   \<not> azimuth_by_reference example_env_fresh_arrays \<and>
   after (plot_skyplot example_env_fresh_arrays ''plot_skyplot_{system}.{FIGURE_FORMAT}'')
     example_self = example_self \<and>
   after (plot_dop ''plot_dop.{FIGURE_FORMAT}'') example_self = example_self"
proof -
  note t1 = dataset_changes_of_every_plot[of "''plot_number_of_satellites_used.png''" "''x''" None
      example_env example_self]
  note t2 = dataset_changes_of_every_plot[of "''plot_number_of_satellites_used.png''" "''x''" None
      example_env "with_num_satellite_used example_env example_self"]
  note t3 = dataset_changes_of_every_plot[of "''plot_obstype_availability_{system}.{FIGURE_FORMAT}''"
      "''x''" None example_env example_self]
  note t4 = dataset_changes_of_every_plot[of "''plot_skyplot_{system}.{FIGURE_FORMAT}''"
      "''x''" None example_env example_self]
  note t5 = dataset_changes_of_every_plot[of "''plot_skyplot_{system}.{FIGURE_FORMAT}''"
      "''x''" None example_env_fresh_arrays example_self]
  note t6 = dataset_changes_of_every_plot[of "''plot_dop.{FIGURE_FORMAT}''"
      "''x''" None example_env example_self]
  have a: "''num_satellite_used'' \<notin> set (dataset_fields (dset example_self))"
    by (simp add: example_self_def example_dataset_def dataset_fields_def keys_def)
  have b: "float_fields (dset (after (plot_number_of_satellites_used example_env
       ''plot_number_of_satellites_used.png'') example_self)) =
     float_fields (dset example_self) @ [(''num_satellite_used'', [Num 2, Num 2, Num 2, Num 2])]"
    using t1 a by (simp add: with_num_satellite_used_def add_float_def example_env_def
        example_count_def example_self_def example_dataset_def)
  have c: "''num_satellite_used'' \<in> set (dataset_fields (dset (with_num_satellite_used example_env example_self)))"
    by (simp add: with_num_satellite_used_def add_float_def example_self_def example_dataset_def
        dataset_fields_def keys_def)
  have d: "after (plot_number_of_satellites_used example_env ''plot_number_of_satellites_used.png'')
     (with_num_satellite_used example_env example_self) =
     with_num_satellite_used example_env example_self"
    using t2 c by blast
  have e: "obstypes_sorted_from example_self
     (after (plot_obstype_availability ''plot_obstype_availability_{system}.{FIGURE_FORMAT}'')
        example_self)"
    using t3 by blast
  have f: "azimuth_by_reference example_env" by (simp add: example_env_def)
  have g: "get_field ''site_pos.azimuth''
     (after (plot_skyplot example_env ''plot_skyplot_{system}.{FIGURE_FORMAT}'') example_self) =
     Inr [Num (2 * pi + - 1), Num 1, Num 2, Num 3]"
    using t4 f by (simp add: with_wrapped_azimuth_def get_field_def set_field_def
        example_self_def example_dataset_def negative_def add_2pi_def)
  have h: "\<not> azimuth_by_reference example_env_fresh_arrays"
    by (simp add: example_env_fresh_arrays_def)
  have i: "after (plot_skyplot example_env_fresh_arrays ''plot_skyplot_{system}.{FIGURE_FORMAT}'')
     example_self = example_self"
    using t5 h by blast
  have j: "after (plot_dop ''plot_dop.{FIGURE_FORMAT}'') example_self = example_self"
    using t6 by (simp add: keeps_self_def)
  show ?thesis using a b c d e f g h i j by blast
qed

text \<open>
  Claim C10 as stated fails: \<open>plot_obstype_availability\<close> returns its two figure paths
  and leaves the list of GPS observation types of the dataset sorted, \<open>C1C\<close> before
  \<open>C2W\<close>, where it was \<open>C2W\<close> before \<open>C1C\<close>.
\<close>

theorem obstype_availability_sorts_meta_counterexample:
  "meta_obstypes (dset example_self) = [(''G'', [''C2W'', ''C1C'']), (''E'', [''C1C''])] \<and>
   outcome (plot_obstype_availability ''plot_obstype_availability_{system}.{FIGURE_FORMAT}'')
     example_self =
     Inr [''figs/plot_obstype_availability_E.png'', ''figs/plot_obstype_availability_G.png''] \<and>
   meta_obstypes (dset (after
     (plot_obstype_availability ''plot_obstype_availability_{system}.{FIGURE_FORMAT}'')
     example_self)) = [(''G'', [''C1C'', ''C2W'']), (''E'', [''C1C''])]"
  by (simp add: outcome_def after_def example_obstype_availability)
     (simp add: example_self_def example_dataset_def)

lemma bind_success:
  assumes "bind m f self = (ev, Inr y, s')"
  shows "\<exists>ev1 x s1 ev2. m self = (ev1, Inr x, s1) \<and> f x s1 = (ev2, Inr y, s') \<and> ev = ev1 @ ev2"
  using assms by (auto simp: bind_def split: prod.splits sum.splits)

text \<open>A loop that returned, when every turn that returns keeps the object and changes the
  accumulator by a function of the element.\<close>

lemma for_each_success:
  assumes body: "\<And>x acc s ev acc' s'. x \<in> set xs \<Longrightarrow> body x acc s = (ev, Inr acc', s') \<Longrightarrow>
                   s' = s \<and> acc' = g x s acc \<and> P x s ev"
      and run: "for_each xs body acc self = (ev, Inr acc', self')"
  shows "self' = self \<and> acc' = fold (\<lambda>x. g x self) xs acc \<and>
         (\<exists>evs. ev = concat evs \<and> list_all2 (\<lambda>x e. P x self e) xs evs)"
  using body run
proof (induction xs arbitrary: acc ev)
  case Nil
  then show ?case by simp
next
  case (Cons x xs)
  from Cons.prems(2) have "bind (body x acc) (for_each xs body) self = (ev, Inr acc', self')"
    by simp
  from bind_success[OF this] obtain ev1 a1 s1 ev2 where
    b: "body x acc self = (ev1, Inr a1, s1)" and
    r: "for_each xs body a1 s1 = (ev2, Inr acc', self')" and e: "ev = ev1 @ ev2" by blast
  from Cons.prems(1)[OF _ b] have s1: "s1 = self" and a1: "a1 = g x self acc"
    and p: "P x self ev1" by simp_all
  have body': "s'' = s \<and> acc'' = g x' s acc0 \<and> P x' s ev'"
    if "x' \<in> set xs" "body x' acc0 s = (ev', Inr acc'', s'')" for x' acc0 s ev' acc'' s''
    using Cons.prems(1)[of x' acc0 s ev' acc'' s''] that by simp
  have r': "for_each xs body a1 self = (ev2, Inr acc', self')" using r s1 by simp
  have "self' = self \<and> acc' = fold (\<lambda>x. g x self) xs a1 \<and>
         (\<exists>evs. ev2 = concat evs \<and> list_all2 (\<lambda>x e. P x self e) xs evs)"
    by (rule Cons.IH[OF body' r'])
  then obtain evs where "self' = self" "acc' = fold (\<lambda>x. g x self) xs a1"
    "ev2 = concat evs" "list_all2 (\<lambda>x e. P x self e) xs evs" by blast
  then show ?case using a1 e p
    by (intro conjI exI[where x = "ev1 # evs"]) simp_all
qed

lemma fold_append_one: "fold (\<lambda>x acc. acc @ [f x]) xs acc = acc @ map f xs"
  by (induction xs arbitrary: acc) simp_all

text \<open>The plots of a list of event lists of which each holds one plot.\<close>

lemma plots_of_turns:
  assumes "list_all2 (\<lambda>x e. \<exists>p. plots e = [p] \<and> Q x p) xs evs"
  shows "list_all2 Q xs (plots (concat evs))"
  using assms by (induction xs evs rule: list_all2_induct) auto

lemma satellite_curves_labels:
  "satellite_curves d sys xs ys = (x, y, l) \<Longrightarrow>
     l = filter (\<lambda>sat. startswith sat sys) (sort (remdups (satellite_array d)))"
  by (auto simp: satellite_curves_def Let_def py_sorted_unique)

lemma skyplot_of_system_turn:
  assumes "skyplot_of_system env n az zd sys acc s = (ev, Inr acc', s')"
  shows "s' = s \<and> acc' = acc @ [figure_path_of n ''{system}'' sys s] \<and>
         (\<exists>p. plots ev = [p] \<and> plot_of_system n s sys p)"
  using assms
  by (auto simp: skyplot_of_system_def plot_of_system_def satellites_of_system_def
      split: prod.splits sum.splits dest: satellite_curves_labels)

lemma elevation_of_system_turn:
  assumes "elevation_of_system env n el lo hi sys acc s = (ev, Inr acc', s')"
  shows "s' = s \<and> acc' = acc @ [figure_path_of n ''{system}'' sys s] \<and>
         (\<exists>p. plots ev = [p] \<and> plot_of_system n s sys p)"
  using assms
  by (auto simp: elevation_of_system_def plot_of_system_def satellites_of_system_def
      split: prod.splits sum.splits dest: satellite_curves_labels)

lemma figures_of_systems:
  assumes turn: "\<And>sys acc s ev acc' s'. body sys acc s = (ev, Inr acc', s') \<Longrightarrow>
       s' = s \<and> acc' = acc @ [figure_path_of n ''{system}'' sys s] \<and>
       (\<exists>p. plots ev = [p] \<and> plot_of_system n s sys p)"
    and run: "for_each systems body [] s = (ev, Inr r, s')"
  shows "s' = s \<and> r = map (\<lambda>sys. figure_path_of n ''{system}'' sys s) systems \<and>
         list_all2 (plot_of_system n s) systems (plots ev)"
proof -
  from for_each_success[where body = body
      and g = "\<lambda>sys s acc. acc @ [figure_path_of n ''{system}'' sys s]"
      and P = "\<lambda>sys s e. \<exists>p. plots e = [p] \<and> plot_of_system n s sys p", OF turn run]
  obtain evs where "s' = s"
    "r = fold (\<lambda>sys acc. acc @ [figure_path_of n ''{system}'' sys s]) systems []"
    "ev = concat evs"
    "list_all2 (\<lambda>sys e. \<exists>p. plots e = [p] \<and> plot_of_system n s sys p) systems evs" by blast
  then show ?thesis
    using plots_of_turns[of "plot_of_system n s" systems evs]
    by (simp add: fold_append_one)
qed

lemma plot_of_system_same_satellites:
  assumes "satellite_array (dset s) = satellite_array (dset self)" and "figure_dir s = figure_dir self"
  shows "plot_of_system n s = plot_of_system n self"
  using assms
  by (intro ext) (simp add: plot_of_system_def satellites_of_system_def figure_path_of_def)

lemma plot_skyplot_success:
  assumes "plot_skyplot env n self = (ev, Inr r, self')"
  shows "r = map (\<lambda>sys. figure_path_of n ''{system}'' sys self) (dataset_systems self) \<and>
         list_all2 (plot_of_system n self) (dataset_systems self) (plots ev)"
proof (cases "get_field ''site_pos.azimuth'' self")
  case (Inl e)
  with assms show ?thesis by (simp add: plot_skyplot_def)
next
  case (Inr a)
  define az where "az = map (\<lambda>a. if negative a then add_2pi a else a) a"
  define s1 where "s1 = (if azimuth_by_reference env
     then self\<lparr>dset := set_field ''site_pos.azimuth'' az (dset self)\<rparr> else self)"
  have same: "satellite_array (dset s1) = satellite_array (dset self)"
    "figure_dir s1 = figure_dir self" "system_array (dset s1) = system_array (dset self)"
    by (auto simp: s1_def set_field_def)
  show ?thesis
  proof (cases "get_field ''site_pos.zenith_distance'' s1")
    case (Inl e)
    with assms Inr show ?thesis by (auto simp: plot_skyplot_def s1_def az_def split: if_splits)
  next
    case zd: (Inr z)
    from assms Inr zd
    have run: "for_each (py_sorted (unique (system_array (dset s1))))
        (skyplot_of_system env n az (map rad2deg z)) [] s1 = (ev, Inr r, self')"
      by (auto simp: plot_skyplot_def s1_def az_def split: if_splits)
    from figures_of_systems[where body = "skyplot_of_system env n az (map rad2deg z)",
        OF skyplot_of_system_turn run]
    have "r = map (\<lambda>sys. figure_path_of n ''{system}'' sys s1) (py_sorted (unique (system_array (dset s1)))) \<and>
         list_all2 (plot_of_system n s1) (py_sorted (unique (system_array (dset s1)))) (plots ev)"
      by simp
    then show ?thesis
      using same plot_of_system_same_satellites[OF same(1,2), of n]
      by (simp add: dataset_systems_def py_sorted_unique figure_path_of_def)
  qed
qed

lemma plot_satellite_elevation_success:
  assumes "plot_satellite_elevation env n self = (ev, Inr r, self')"
  shows "r = map (\<lambda>sys. figure_path_of n ''{system}'' sys self) (dataset_systems self) \<and>
         list_all2 (plot_of_system n self) (dataset_systems self) (plots ev)"
proof -
  from assms obtain el lo hi where
    run: "for_each (py_sorted (unique (system_array (dset self))))
            (elevation_of_system env n el lo hi) [] self = (ev, Inr r, self')"
    by (auto simp: plot_satellite_elevation_def get_day_limits_def split: sum.splits list.splits)
  from figures_of_systems[where body = "elevation_of_system env n el lo hi",
      OF elevation_of_system_turn run]
  show ?thesis by (simp add: dataset_systems_def py_sorted_unique)
qed

text \<open>A loop that returned, when every turn that returns keeps the object: what the plots of
  the turns show, one after the other.\<close>

lemma for_each_plots:
  assumes turn: "\<And>x acc s ev acc' s'. body x acc s = (ev, Inr acc', s') \<Longrightarrow>
                   s' = s \<and> map view (plots ev) = L x s"
      and run: "for_each xs body acc self = (ev, Inr acc', self')"
  shows "self' = self \<and> map view (plots ev) = concat (map (\<lambda>x. L x self) xs)"
  using run
proof (induction xs arbitrary: acc ev)
  case Nil
  then show ?case by simp
next
  case (Cons x xs)
  from Cons.prems have "bind (body x acc) (for_each xs body) self = (ev, Inr acc', self')"
    by simp
  from bind_success[OF this] obtain ev1 a1 s1 ev2 where
    b: "body x acc self = (ev1, Inr a1, s1)" and
    r: "for_each xs body a1 s1 = (ev2, Inr acc', self')" and e: "ev = ev1 @ ev2" by blast
  from turn[OF b] have s1: "s1 = self" and l: "map view (plots ev1) = L x self" by simp_all
  from Cons.IH[of a1 ev2] r s1 have "self' = self"
    "map view (plots ev2) = concat (map (\<lambda>x. L x self) xs)" by simp_all
  with l e show ?case by simp
qed

text \<open>The same for a list that every turn extends by one entry.\<close>

lemma for_each_column:
  assumes turn: "\<And>x acc s ev acc' s'. body x acc s = (ev, Inr acc', s') \<Longrightarrow>
                   s' = s \<and> column acc' = column acc @ [f x s] \<and> plots ev = []"
      and run: "for_each xs body acc self = (ev, Inr acc', self')"
  shows "self' = self \<and> column acc' = column acc @ map (\<lambda>x. f x self) xs \<and> plots ev = []"
  using run
proof (induction xs arbitrary: acc ev)
  case Nil
  then show ?case by simp
next
  case (Cons x xs)
  from Cons.prems have "bind (body x acc) (for_each xs body) self = (ev, Inr acc', self')"
    by simp
  from bind_success[OF this] obtain ev1 a1 s1 ev2 where
    b: "body x acc self = (ev1, Inr a1, s1)" and
    r: "for_each xs body a1 s1 = (ev2, Inr acc', self')" and e: "ev = ev1 @ ev2" by blast
  from turn[OF b] have s1: "s1 = self" and l: "column a1 = column acc @ [f x self]"
    and p: "plots ev1 = []" by simp_all
  from Cons.IH[of a1 ev2] r s1 have "self' = self"
    "column acc' = column a1 @ map (\<lambda>x. f x self) xs" "plots ev2 = []" by simp_all
  with l e p show ?case by simp
qed

lemma linear_combination_of_system_turn:
  assumes "linear_combination_of_system n field dn lg yl sys acc s = (ev, Inr acc', s')"
  shows "s' = s \<and> map labels (plots ev) = [Some (satellites_of_system s sys)]"
  using assms
  by (cases lg)
    (auto simp: linear_combination_of_system_def satellites_of_system_def
      split: prod.splits sum.splits dest: satellite_curves_labels)

lemma linear_combinations_of_field:
  assumes "for_each systems (linear_combination_of_system n field dn lg yl) acc s = (ev, Inr acc', s')"
  shows "s' = s \<and> map labels (plots ev) = map (\<lambda>sys. Some (satellites_of_system s sys)) systems"
proof -
  from for_each_plots[where body = "linear_combination_of_system n field dn lg yl"
      and view = labels and L = "\<lambda>sys s. [Some (satellites_of_system s sys)]",
      OF linear_combination_of_system_turn assms]
  show ?thesis by simp
qed

lemma linear_combinations_turn:
  assumes "(if field = ''melbourne_wuebbena'' then
            bind (read obstypes_systems) (\<lambda>systems.
            for_each systems
              (linear_combination_of_system n field field True
                 (Inr (''Melbourne-W'' @ [CHR 0xFC] @ ''bbena'')))
              acc)
          else if field = ''code_multipath_f1'' \<or> field = ''code_multipath_f2'' then
            bind (read obstypes_systems) (\<lambda>systems.
            for_each systems
              (linear_combination_of_system n field
                 (str_replace (str_replace field ''_f1'' '' '') ''_f2'' '' '') False
                 (Inr ''Code-multipath combination''))
              acc)
          else if field = ''code_phase_f1'' \<or> field = ''code_phase_f2'' then
            bind (read obstypes_systems) (\<lambda>systems.
            for_each systems
              (linear_combination_of_system n field
                 (str_replace (str_replace field ''_f1'' '' '') ''_f2'' '' '') True
                 (Inr ''Code-phase difference''))
              acc)
          else
            bind (read (\<lambda>self. py_sorted (unique (system_array (dset self))))) (\<lambda>systems.
            for_each systems
              (linear_combination_of_system n field
                 (join ''_'' (take 2 (split_char CHR ''_'' field))) True
                 (generic_ylabel field))
              acc)) s = (ev, Inr acc', s')"
  shows "s' = s \<and> map labels (plots ev) =
           map (\<lambda>sys. Some (satellites_of_system s sys)) (linear_combination_systems s field)"
proof -
  consider (mw) "field = ''melbourne_wuebbena''"
    | (cm) "field = ''code_multipath_f1'' \<or> field = ''code_multipath_f2''"
    | (cp) "field = ''code_phase_f1'' \<or> field = ''code_phase_f2''"
    | (other) "field \<notin> {''melbourne_wuebbena'', ''code_multipath_f1'', ''code_multipath_f2'',
                          ''code_phase_f1'', ''code_phase_f2''}"
    by auto
  then show ?thesis
  proof cases
    case mw
    with assms have "for_each (linear_combination_systems s field)
        (linear_combination_of_system n field field True
           (Inr (''Melbourne-W'' @ [CHR 0xFC] @ ''bbena''))) acc s = (ev, Inr acc', s')"
      by (simp add: linear_combination_systems_def)
    then show ?thesis by (rule linear_combinations_of_field)
  next
    case cm
    with assms have "for_each (linear_combination_systems s field)
        (linear_combination_of_system n field
           (str_replace (str_replace field ''_f1'' '' '') ''_f2'' '' '') False
           (Inr ''Code-multipath combination'')) acc s = (ev, Inr acc', s')"
      by (auto simp: linear_combination_systems_def)
    then show ?thesis by (rule linear_combinations_of_field)
  next
    case cp
    with assms have "for_each (linear_combination_systems s field)
        (linear_combination_of_system n field
           (str_replace (str_replace field ''_f1'' '' '') ''_f2'' '' '') True
           (Inr ''Code-phase difference'')) acc s = (ev, Inr acc', s')"
      by (auto simp: linear_combination_systems_def)
    then show ?thesis by (rule linear_combinations_of_field)
  next
    case other
    with assms have "for_each (linear_combination_systems s field)
        (linear_combination_of_system n field
           (join ''_'' (take 2 (split_char CHR ''_'' field))) True
           (generic_ylabel field)) acc s = (ev, Inr acc', s')"
      by (simp add: linear_combination_systems_def dataset_systems_def py_sorted_unique)
    then show ?thesis by (rule linear_combinations_of_field)
  qed
qed

lemma plot_linear_combinations_success:
  assumes "plot_linear_combinations n self = (ev, Inr r, self')"
  shows "\<exists>fields. collection_fields ''lin'' self = Inr fields \<and>
           map labels (plots ev) =
             map (\<lambda>sys. Some (satellites_of_system self sys))
               (concat (map (linear_combination_systems self) fields))"
proof (cases "collection_fields ''lin'' self")
  case (Inl e)
  with assms show ?thesis by (simp add: plot_linear_combinations_def)
next
  case (Inr fields)
  with assms have run: "for_each fields (\<lambda>field figure_info.
          if field = ''melbourne_wuebbena'' then
            bind (read obstypes_systems) (\<lambda>systems.
            for_each systems
              (linear_combination_of_system n field field True
                 (Inr (''Melbourne-W'' @ [CHR 0xFC] @ ''bbena'')))
              figure_info)
          else if field = ''code_multipath_f1'' \<or> field = ''code_multipath_f2'' then
            bind (read obstypes_systems) (\<lambda>systems.
            for_each systems
              (linear_combination_of_system n field
                 (str_replace (str_replace field ''_f1'' '' '') ''_f2'' '' '') False
                 (Inr ''Code-multipath combination''))
              figure_info)
          else if field = ''code_phase_f1'' \<or> field = ''code_phase_f2'' then
            bind (read obstypes_systems) (\<lambda>systems.
            for_each systems
              (linear_combination_of_system n field
                 (str_replace (str_replace field ''_f1'' '' '') ''_f2'' '' '') True
                 (Inr ''Code-phase difference''))
              figure_info)
          else
            bind (read (\<lambda>self. py_sorted (unique (system_array (dset self))))) (\<lambda>systems.
            for_each systems
              (linear_combination_of_system n field
                 (join ''_'' (take 2 (split_char CHR ''_'' field))) True
                 (generic_ylabel field))
              figure_info)) [] self = (ev, Inr r, self')"
    by (simp add: plot_linear_combinations_def)
  from for_each_plots[where view = labels
      and L = "\<lambda>field s. map (\<lambda>sys. Some (satellites_of_system s sys))
                  (linear_combination_systems s field)", OF _ run] linear_combinations_turn
  have "map labels (plots ev) =
      concat (map (\<lambda>field. map (\<lambda>sys. Some (satellites_of_system self sys))
                  (linear_combination_systems self field)) fields)" by blast
  with Inr show ?thesis by (simp add: map_concat comp_def)
qed

lemma number_of_satellites_of_system_turn:
  assumes "number_of_satellites_of_system env sys xyl s = (ev, Inr xyl', s')"
  shows "s' = s \<and> fst xyl' = fst xyl @ [observations_of_system s sys] \<and> plots ev = []"
  using assms
  by (auto simp: number_of_satellites_of_system_def observations_of_system_def Let_def
      split: prod.splits sum.splits)

lemma plot_number_of_satellites_success:
  assumes "plot_number_of_satellites env n self = (ev, Inr r, self')"
  shows "\<exists>p. plots ev = [p] \<and>
           x_arrays p = map (observations_of_system self) (dataset_systems self)"
  using assms unfolding plot_number_of_satellites_def
  apply (simp split: prod.splits)
  apply (drule bind_success)
  apply (elim exE conjE)
  subgoal premises prems for x1 ev1 xyl s1 ev2
  proof -
    from for_each_column[where column = fst and f = "\<lambda>sys s. observations_of_system s sys",
        OF number_of_satellites_of_system_turn prems(2)]
    have "s1 = self" "plots ev1 = []"
      "fst xyl = map (observations_of_system self) (dataset_systems self)"
      by (simp_all add: dataset_systems_def py_sorted_unique)
    with prems(1,3,4) show ?thesis by (auto split: prod.splits)
  qed
  done

lemma availability_of_system_turn:
  assumes "availability_of_system env ts sats syss sys xyl s = (ev, Inr xyl', s')"
  shows "s' = s \<and> fst (snd xyl') = fst (snd xyl) @ [map S (select (mask_eq syss sys) sats)] \<and>
         plots ev = []"
  using assms
  by (auto simp: availability_of_system_def split: prod.splits sum.splits)

lemma plot_satellite_availability_success:
  assumes "plot_satellite_availability env n self = (ev, Inr r, self')"
  shows "\<exists>p. plots ev = [p] \<and>
           y_arrays p = map (availability_rows self) (rev (dataset_systems self))"
  using assms unfolding plot_satellite_availability_def
  apply (simp split: prod.splits)
  apply (drule bind_success)
  apply (elim exE conjE)
  subgoal premises prems for x1 ev1 xyl s1 ev2
  proof -
    have turn: "s' = s \<and> fst (snd xyl') = fst (snd xyl) @ [availability_rows self sys] \<and>
        plots ev = []"
      if "availability_of_system env (own_rows_by_satellite self (time_gps (dset self)))
            (own_rows_by_satellite self (satellite_array (dset self)))
            (own_rows_by_satellite self (system_array (dset self))) sys xyl s = (ev, Inr xyl', s')"
      for sys xyl s ev xyl' s'
      using availability_of_system_turn[OF that] by (simp add: availability_rows_def)
    from for_each_column[where column = "\<lambda>xyl. fst (snd xyl)"
        and f = "\<lambda>sys s. availability_rows self sys", OF turn prems(2)]
    have "s1 = self" "plots ev1 = []"
      "fst (snd xyl) = map (availability_rows self) (rev (dataset_systems self))"
      by (simp_all add: dataset_systems_def py_sorted_reverse_def unique_def sort_sort)
    with prems(1,3,4) show ?thesis by (auto split: prod.splits)
  qed
  done

lemma row_of_satellite_replicate: "row_of_satellite sat (replicate k (S (sat @ CHR ''_'' # obstype)))"
  by (simp add: row_of_satellite_def list_all_iff startswith_def)

lemma obstype_of_satellite_turn:
  assumes "obstype_of_satellite sat idx obstype kxy s = (ev, Inr kxy', s')"
  shows "s' = s \<and> ev = [] \<and>
         (\<exists>rows. snd (snd kxy') = snd (snd kxy) @ rows \<and> list_all (row_of_satellite sat) rows)"
  using assms
  by (auto simp: obstype_of_satellite_def Let_def row_of_satellite_replicate
      split: sum.splits prod.splits if_splits)

lemma obstypes_loop:
  assumes "for_each obstypes (obstype_of_satellite sat idx) kxy s = (ev, Inr kxy', s')"
  shows "s' = s \<and> ev = [] \<and>
         (\<exists>rows. snd (snd kxy') = snd (snd kxy) @ rows \<and> list_all (row_of_satellite sat) rows)"
  using assms
proof (induction obstypes arbitrary: kxy ev)
  case Nil
  then show ?case by simp
next
  case (Cons obstype obstypes)
  from Cons.prems have "bind (obstype_of_satellite sat idx obstype kxy)
      (for_each obstypes (obstype_of_satellite sat idx)) s = (ev, Inr kxy', s')" by simp
  from bind_success[OF this] obtain ev1 k1 s1 ev2 where
    b: "obstype_of_satellite sat idx obstype kxy s = (ev1, Inr k1, s1)" and
    r: "for_each obstypes (obstype_of_satellite sat idx) k1 s1 = (ev2, Inr kxy', s')" and
    e: "ev = ev1 @ ev2" by blast
  from obstype_of_satellite_turn[OF b] obtain rows1 where
    t: "s1 = s" "ev1 = []" "snd (snd k1) = snd (snd kxy) @ rows1"
    "list_all (row_of_satellite sat) rows1" by blast
  from Cons.IH[of k1 ev2] r t(1) obtain rows2 where
    l: "s' = s" "ev2 = []" "snd (snd kxy') = snd (snd k1) @ rows2"
    "list_all (row_of_satellite sat) rows2" by blast
  from t l e show ?case by (intro conjI exI[where x = "rows1 @ rows2"]) simp_all
qed

lemma run_after: "m self = (ev, r, self') \<Longrightarrow> after m self = self'"
  by (simp add: after_def)

lemma obstypes_of_satellite_turn:
  assumes "obstypes_of_satellite sys sat xy s = (ev, Inr xy', s')"
  shows "obstypes_sorted_from s s' \<and> ev = [] \<and>
         (\<exists>rows. snd xy' = snd xy @ rows \<and> list_all (row_of_satellite sat) rows)"
proof -
  from sorts_obstypes_of_satellite[of sys sat xy]
    run_after[of "obstypes_of_satellite sys sat xy" s, OF assms]
  have frame: "obstypes_sorted_from s s'" by (auto simp: sorts_obstypes_only_def)
  show ?thesis
    using assms unfolding obstypes_of_satellite_def
    apply (simp split: sum.splits)
    apply (drule bind_success)
    apply (clarsimp split: prod.splits)
    subgoal premises prems for obstypes keep x y
      using obstypes_loop[OF prems(2)] frame by simp
    done
qed

lemma satellites_loop:
  assumes "for_each sats (obstypes_of_satellite sys) xy s = (ev, Inr xy', s')"
  shows "obstypes_sorted_from s s' \<and> ev = [] \<and>
         (\<exists>blocks. snd xy' = snd xy @ concat blocks \<and>
            list_all2 (\<lambda>sat block. list_all (row_of_satellite sat) block) sats blocks)"
  using assms
proof (induction sats arbitrary: xy ev s)
  case Nil
  then show ?case by (simp add: obstypes_sorted_from_refl)
next
  case (Cons sat sats)
  from Cons.prems have "bind (obstypes_of_satellite sys sat xy)
      (for_each sats (obstypes_of_satellite sys)) s = (ev, Inr xy', s')" by simp
  from bind_success[OF this] obtain ev1 xy1 s1 ev2 where
    b: "obstypes_of_satellite sys sat xy s = (ev1, Inr xy1, s1)" and
    r: "for_each sats (obstypes_of_satellite sys) xy1 s1 = (ev2, Inr xy', s')" and
    e: "ev = ev1 @ ev2" by blast
  from obstypes_of_satellite_turn[OF b] obtain rows where
    t: "obstypes_sorted_from s s1" "ev1 = []" "snd xy1 = snd xy @ rows"
    "list_all (row_of_satellite sat) rows" by blast
  from Cons.IH[OF r] obtain blocks where
    l: "obstypes_sorted_from s1 s'" "ev2 = []" "snd xy' = snd xy1 @ concat blocks"
    "list_all2 (\<lambda>sat block. list_all (row_of_satellite sat) block) sats blocks" by blast
  from t l e obstypes_sorted_from_trans[OF t(1) l(1)] show ?case
    by (intro conjI exI[where x = "rows # blocks"]) simp_all
qed

lemma obstypes_sorted_from_same:
  assumes "obstypes_sorted_from s s'"
  shows "satellite_array (dset s') = satellite_array (dset s)"
    and "system_array (dset s') = system_array (dset s)"
    and "figure_dir s' = figure_dir s"
proof -
  from assms have "s' = s\<lparr>dset := (dset s)\<lparr>meta_obstypes := meta_obstypes (dset s')\<rparr>\<rparr>"
    by (simp add: obstypes_sorted_from_def)
  then have "satellite_array (dset s') = satellite_array (dset s) \<and>
      system_array (dset s') = system_array (dset s) \<and> figure_dir s' = figure_dir s"
    by (metis dataset.select_convs(1,2) dataset.update_convs(6) gnss_plot.select_convs(1,2)
        gnss_plot.update_convs(1) dataset.surjective gnss_plot.surjective)
  then show "satellite_array (dset s') = satellite_array (dset s)"
    and "system_array (dset s') = system_array (dset s)"
    and "figure_dir s' = figure_dir s" by simp_all
qed

lemma obstype_availability_of_system_turn:
  assumes "obstype_availability_of_system n sys acc s = (ev, Inr acc', s')"
  shows "obstypes_sorted_from s s' \<and> acc' = acc @ [figure_path_of n ''{system}'' sys s] \<and>
         (\<exists>p. plots ev = [p] \<and> obstype_plot_of_system n s sys p)"
  using assms unfolding obstype_availability_of_system_def
  apply (simp split: prod.splits)
  apply (drule bind_success)
  apply (elim exE conjE)
  subgoal premises prems for x1 ev1 xy s1 ev2
  proof -
    from satellites_loop[OF prems(2)] obtain blocks where
      l: "obstypes_sorted_from s s1" "ev1 = []" "snd xy = concat blocks"
      "list_all2 (\<lambda>sat block. list_all (row_of_satellite sat) block)
         (filter (\<lambda>sat. startswith sat sys)
            (py_sorted_reverse (unique (satellite_array (dset s))))) blocks"
      by auto
    from l(4) have "rows_by_satellite (rev (satellites_of_system s sys)) (snd xy)"
      unfolding rows_by_satellite_def satellites_of_system_def
      by (intro exI[where x = blocks])
        (simp add: l(3) py_sorted_reverse_def unique_def sort_sort rev_filter)
    with prems(1,3,4) l(1,2) show ?thesis
      by (auto simp: obstype_plot_of_system_def split: prod.splits)
  qed
  done

lemma obstype_plot_of_system_same:
  assumes "obstypes_sorted_from s s'"
  shows "obstype_plot_of_system n s' = obstype_plot_of_system n s"
  using obstypes_sorted_from_same[OF assms]
  by (intro ext) (simp add: obstype_plot_of_system_def satellites_of_system_def figure_path_of_def)

lemma systems_loop:
  assumes "for_each systems (obstype_availability_of_system n) acc s = (ev, Inr acc', s')"
  shows "obstypes_sorted_from s s' \<and>
         list_all2 (obstype_plot_of_system n s) systems (plots ev)"
  using assms
proof (induction systems arbitrary: acc ev s)
  case Nil
  then show ?case by (simp add: obstypes_sorted_from_refl)
next
  case (Cons sys systems)
  from Cons.prems have "bind (obstype_availability_of_system n sys acc)
      (for_each systems (obstype_availability_of_system n)) s = (ev, Inr acc', s')" by simp
  from bind_success[OF this] obtain ev1 a1 s1 ev2 where
    b: "obstype_availability_of_system n sys acc s = (ev1, Inr a1, s1)" and
    r: "for_each systems (obstype_availability_of_system n) a1 s1 = (ev2, Inr acc', s')" and
    e: "ev = ev1 @ ev2" by blast
  from obstype_availability_of_system_turn[OF b] obtain p where
    t: "obstypes_sorted_from s s1" "plots ev1 = [p]" "obstype_plot_of_system n s sys p" by blast
  from Cons.IH[OF r] have
    l: "obstypes_sorted_from s1 s'" "list_all2 (obstype_plot_of_system n s1) systems (plots ev2)"
    by simp_all
  from t l e obstypes_sorted_from_trans[OF t(1) l(1)] obstype_plot_of_system_same[OF t(1), of n]
  show ?case by simp
qed

lemma plot_obstype_availability_success:
  assumes "plot_obstype_availability n self = (ev, Inr r, self')"
  shows "list_all2 (obstype_plot_of_system n self) (dataset_systems self) (plots ev)"
  using assms systems_loop[of "dataset_systems self" n "[]" self ev r self']
  by (simp add: plot_obstype_availability_def dataset_systems_def py_sorted_unique)

lemma satellites_of_system_order:
  "sorted (satellites_of_system self sys) \<and> distinct (satellites_of_system self sys) \<and>
   set (satellites_of_system self sys) =
     {sat \<in> set (satellite_array (dset self)). startswith sat sys}"
  by (auto simp: satellites_of_system_def sorted_filter[where f = "\<lambda>x. x", simplified])

lemma dataset_systems_order:
  "sorted (dataset_systems self) \<and> distinct (dataset_systems self) \<and>
   set (dataset_systems self) = set (system_array (dset self))"
  by (simp add: dataset_systems_def)

lemma select_mask_eq: "select (mask_eq xs v) xs = filter (\<lambda>x. x = v) xs"
  by (induction xs) (simp_all add: mask_eq_def select_def)

lemma blocks_descending:
  assumes "sorted (rev vs)" and "distinct vs"
  shows "sorted (rev (concat (map (\<lambda>v. filter (\<lambda>x. x = v) xs) vs)))"
  using assms
proof (induction vs)
  case Nil
  then show ?case by simp
next
  case (Cons v vs)
  then have "sorted (rev (concat (map (\<lambda>v. filter (\<lambda>x. x = v) xs) vs)))"
    by (simp add: sorted_append)
  moreover have "sorted (rev (filter (\<lambda>x. x = v) xs))"
    by (induction xs) (auto simp: sorted_append)
  moreover from Cons.prems have "\<forall>w \<in> set vs. w \<le> v" by (auto simp: sorted_append)
  ultimately show ?case by (auto simp: sorted_append)
qed

lemma own_rows_descending:
  "sorted (rev (own_rows_by_satellite self (satellite_array (dset self))))"
  unfolding own_rows_by_satellite_def rows_of_satellites_def py_sorted_reverse_def unique_def
    select_mask_eq
  by (rule blocks_descending) (simp_all add: sort_sort)

lemma returns_run:
  assumes "returns m self"
  shows "\<exists>r. m self = (events m self, Inr r, after m self)"
  using assms
  by (cases "m self") (auto simp: returns_def outcome_def events_def after_def split: sum.splits)

lemma labels_of_plots_of_systems:
  assumes "list_all2 (plot_of_system n self) systems ps"
  shows "map labels ps = map (\<lambda>sys. Some (satellites_of_system self sys)) systems"
  using assms by (induction systems ps rule: list_all2_induct) (simp_all add: plot_of_system_def)

lemma plotted_systems_sorted: "sorted (plotted_systems vals self)"
  by (simp add: plotted_systems_def obstypes_systems_def py_sorted_def
      sorted_filter[where f = "\<lambda>x. x", simplified])

text \<open>
  Claim C9, as amended. A satellite is put with a system exactly when its name begins
  with the code of the system, and the satellites of a system are enumerated in ascending
  order, in \<open>plot_field\<close>, \<open>plot_epoch_by_epoch_difference\<close>,
  \<open>plot_linear_combinations\<close>, \<open>plot_skyplot\<close> and \<open>plot_satellite_elevation\<close>: the
  legend of the figure of a system is the ascending list of the satellites with that
  prefix. \<open>plot_obstype_availability\<close> takes the satellites with the prefix in descending
  order: the rows of a figure come in blocks, one for each satellite, the last satellite
  first. \<open>_sort_by_satellite\<close> orders the observations by satellite, descending, and
  \<open>plot_satellite_availability\<close> takes the systems in descending order and selects the
  observations of a system by the column of systems. Every other loop over the systems
  is ascending: over the systems of the dataset in \<open>plot_skyplot\<close>,
  \<open>plot_satellite_elevation\<close>, \<open>plot_number_of_satellites\<close> (which selects by the
  column of systems as well), \<open>plot_obstype_availability\<close> and the generic branch of
  \<open>plot_linear_combinations\<close>, over the keys of \<open>meta["obstypes"]\<close> in \<open>plot_field\<close>,
  \<open>plot_epoch_by_epoch_difference\<close> and the named branches of
  \<open>plot_linear_combinations\<close>.
\<close>

theorem enumeration_order_of_every_plot:
  "sorted (satellites_of_system self sys) \<and> distinct (satellites_of_system self sys) \<and>
   set (satellites_of_system self sys) =
     {sat \<in> set (satellite_array (dset self)). startswith sat sys} \<and>
   sorted (dataset_systems self) \<and> distinct (dataset_systems self) \<and>
   set (dataset_systems self) = set (system_array (dset self)) \<and>
   sorted (obstypes_systems self) \<and> sorted (plotted_systems vals self) \<and>
   sorted (rev (own_rows_by_satellite self (satellite_array (dset self)))) \<and>
   (get_field (field_name_of collection field) self = Inr vals \<longrightarrow>
      map labels (plots (events (plot_field field collection figure_name) self)) =
        map (\<lambda>sys. Some (satellites_of_system self sys)) (plotted_systems vals self)) \<and>
   (collection_fields ''diff_epo'' self = Inr differences \<longrightarrow>
      map labels (plots (events (plot_epoch_by_epoch_difference figure_name) self)) =
        concat (map (epoch_difference_labels self) differences)) \<and>
   (collection_fields ''lin'' self = Inr combinations \<longrightarrow>
    returns (plot_linear_combinations figure_name) self \<longrightarrow>
      map labels (plots (events (plot_linear_combinations figure_name) self)) =
        map (\<lambda>sys. Some (satellites_of_system self sys))
          (concat (map (linear_combination_systems self) combinations))) \<and>
   (returns (plot_skyplot env figure_name) self \<longrightarrow>
      map labels (plots (events (plot_skyplot env figure_name) self)) =
        map (\<lambda>sys. Some (satellites_of_system self sys)) (dataset_systems self)) \<and>
   (returns (plot_satellite_elevation env figure_name) self \<longrightarrow>
      map labels (plots (events (plot_satellite_elevation env figure_name) self)) =
        map (\<lambda>sys. Some (satellites_of_system self sys)) (dataset_systems self)) \<and>
   (returns (plot_number_of_satellites env figure_name) self \<longrightarrow>
      map x_arrays (plots (events (plot_number_of_satellites env figure_name) self)) =
        [map (observations_of_system self) (dataset_systems self)]) \<and>
   (returns (plot_satellite_availability env figure_name) self \<longrightarrow>
      map y_arrays (plots (events (plot_satellite_availability env figure_name) self)) =
        [map (availability_rows self) (rev (dataset_systems self))]) \<and>
   (returns (plot_obstype_availability figure_name) self \<longrightarrow>
      list_all2 (obstype_plot_of_system figure_name self) (dataset_systems self)
        (plots (events (plot_obstype_availability figure_name) self)))"
proof -
  have field: "map labels (plots (events (plot_field field collection figure_name) self)) =
        map (\<lambda>sys. Some (satellites_of_system self sys)) (plotted_systems vals self)"
    if "get_field (field_name_of collection field) self = Inr vals"
    using plot_field_run[OF that, of figure_name] by (auto simp: events_def)
  have epoch: "map labels (plots (events (plot_epoch_by_epoch_difference figure_name) self)) =
        concat (map (epoch_difference_labels self) differences)"
    if "collection_fields ''diff_epo'' self = Inr differences"
    using plot_epoch_by_epoch_difference_run[OF that, of figure_name] by (auto simp: events_def)
  have lin: "map labels (plots (events (plot_linear_combinations figure_name) self)) =
        map (\<lambda>sys. Some (satellites_of_system self sys))
          (concat (map (linear_combination_systems self) combinations))"
    if "collection_fields ''lin'' self = Inr combinations"
      and "returns (plot_linear_combinations figure_name) self"
  proof -
    from returns_run[OF that(2)] obtain r where
      "plot_linear_combinations figure_name self =
         (events (plot_linear_combinations figure_name) self, Inr r,
          after (plot_linear_combinations figure_name) self)" by blast
    from plot_linear_combinations_success[OF this] that(1) show ?thesis by simp
  qed
  have sky: "map labels (plots (events (plot_skyplot env figure_name) self)) =
        map (\<lambda>sys. Some (satellites_of_system self sys)) (dataset_systems self)"
    if "returns (plot_skyplot env figure_name) self"
  proof -
    from returns_run[OF that] obtain r where
      "plot_skyplot env figure_name self =
         (events (plot_skyplot env figure_name) self, Inr r,
          after (plot_skyplot env figure_name) self)" by blast
    from plot_skyplot_success[OF this] show ?thesis by (blast intro: labels_of_plots_of_systems)
  qed
  have elevation: "map labels (plots (events (plot_satellite_elevation env figure_name) self)) =
        map (\<lambda>sys. Some (satellites_of_system self sys)) (dataset_systems self)"
    if "returns (plot_satellite_elevation env figure_name) self"
  proof -
    from returns_run[OF that] obtain r where
      "plot_satellite_elevation env figure_name self =
         (events (plot_satellite_elevation env figure_name) self, Inr r,
          after (plot_satellite_elevation env figure_name) self)" by blast
    from plot_satellite_elevation_success[OF this] show ?thesis
      by (blast intro: labels_of_plots_of_systems)
  qed
  have number: "map x_arrays (plots (events (plot_number_of_satellites env figure_name) self)) =
        [map (observations_of_system self) (dataset_systems self)]"
    if "returns (plot_number_of_satellites env figure_name) self"
  proof -
    from returns_run[OF that] obtain r where
      "plot_number_of_satellites env figure_name self =
         (events (plot_number_of_satellites env figure_name) self, Inr r,
          after (plot_number_of_satellites env figure_name) self)" by blast
    from plot_number_of_satellites_success[OF this] show ?thesis by auto
  qed
  have availability:
    "map y_arrays (plots (events (plot_satellite_availability env figure_name) self)) =
        [map (availability_rows self) (rev (dataset_systems self))]"
    if "returns (plot_satellite_availability env figure_name) self"
  proof -
    from returns_run[OF that] obtain r where
      "plot_satellite_availability env figure_name self =
         (events (plot_satellite_availability env figure_name) self, Inr r,
          after (plot_satellite_availability env figure_name) self)" by blast
    from plot_satellite_availability_success[OF this] show ?thesis by auto
  qed
  have obstype: "list_all2 (obstype_plot_of_system figure_name self) (dataset_systems self)
        (plots (events (plot_obstype_availability figure_name) self))"
    if "returns (plot_obstype_availability figure_name) self"
  proof -
    from returns_run[OF that] obtain r where
      "plot_obstype_availability figure_name self =
         (events (plot_obstype_availability figure_name) self, Inr r,
          after (plot_obstype_availability figure_name) self)" by blast
    then show ?thesis by (rule plot_obstype_availability_success)
  qed
  have orders: "sorted (obstypes_systems self)"
    by (simp add: obstypes_systems_def py_sorted_def)
  show ?thesis
    using satellites_of_system_order[of self sys] dataset_systems_order[of self] orders
      plotted_systems_sorted[of vals self] own_rows_descending[of self]
      field epoch lin sky elevation number availability obstype
    by blast
qed

text \<open>The definitions that evaluate a method on the example datasets.\<close>

lemmas survey_defs =
  example_survey_self_def example_dataset_def example_env_def example_names_def
  returns_def run_defs py_sorted_def py_sorted_reverse_def unique_def
  startswith_def figure_path_of_def joinpath_def str_replace_def FIGURE_FORMAT_def
  plot_message_def mask_eq_def select_def get_field_def subscript_def gnss_name_of_def
  satellite_curves_def

lemma survey_skyplot_returns:
  "returns (plot_skyplot example_env ''plot_skyplot_{system}.{FIGURE_FORMAT}'') example_survey_self"
  by (simp add: plot_skyplot_def skyplot_of_system_def survey_defs set_field_def negative_def
      add_2pi_def)

lemma survey_elevation_returns:
  "returns (plot_satellite_elevation example_env
      ''plot_satellite_elevation_{system}.{FIGURE_FORMAT}'') example_survey_self"
  by (simp add: plot_satellite_elevation_def elevation_of_system_def get_day_limits_def
      survey_defs)

lemma survey_number_returns:
  "returns (plot_number_of_satellites example_env
      ''plot_gnss_number_of_satellites.{FIGURE_FORMAT}'') example_survey_self"
  by (simp add: plot_number_of_satellites_def number_of_satellites_of_system_def
      simple_figure_path_def survey_defs)

lemma survey_availability_returns:
  "returns (plot_satellite_availability example_env
      ''plot_satellite_availability.{FIGURE_FORMAT}'') example_survey_self"
  by (simp add: plot_satellite_availability_def availability_of_system_def
      simple_figure_path_def sort_by_satellite_def rows_of_satellites_def survey_defs)

lemma survey_obstype_returns:
  "returns (plot_obstype_availability ''plot_obstype_availability_{system}.{FIGURE_FORMAT}'')
     example_survey_self"
  by (simp add: plot_obstype_availability_def obstype_availability_of_system_def
      obstypes_of_satellite_def obstype_of_satellite_def survey_defs
      num_obs_def obstypes_of_def set_obstypes_def sort_string_array_def isnan_def)

lemma survey_combinations:
  "collection_fields ''lin'' example_survey_self =
     Inr [''melbourne_wuebbena'', ''geometry_free_C1C'']"
  by (simp add: collection_fields_def keys_def survey_defs)

lemma survey_differences:
  "collection_fields ''diff_epo'' example_survey_self = Inr [''C1C'']"
  by (simp add: collection_fields_def keys_def survey_defs)

lemma survey_range:
  "get_field (field_name_of None ''gnss_range'') example_survey_self = Inr [Num 1, NaN, NaN, NaN]"
  by (simp add: field_name_of_def survey_defs)

lemma survey_linear_combinations_returns:
  "returns (plot_linear_combinations ''plot_{solution}.{FIGURE_FORMAT}'') example_survey_self"
  apply (simp add: plot_linear_combinations_def returns_def outcome_def survey_combinations)
  apply (simp add: linear_combination_of_system_def obstypes_systems_def
      keys_def linear_combination_of_def generic_ylabel_def capitalize_def survey_defs)
  done

lemma survey_satellites:
  "satellites_of_system example_survey_self ''E'' = [''E02'', ''E11'']"
  "satellites_of_system example_survey_self ''G'' = [''G01'', ''G02'']"
  "dataset_systems example_survey_self = [''E'', ''G'']"
  "obstypes_systems example_survey_self = [''E'', ''G'']"
  by (simp_all add: satellites_of_system_def dataset_systems_def obstypes_systems_def keys_def
      survey_defs)

text \<open>
  The theorem of C9 on the example dataset, whose satellites are stored in the order
  \<open>E11\<close>, \<open>E02\<close>, \<open>G01\<close>, \<open>G02\<close>: the legends are \<open>E02\<close>, \<open>E11\<close> and \<open>G01\<close>,
  \<open>G02\<close>, Galileo before GPS; the range has a figure for Galileo only and the
  difference for GPS only; \<open>plot_satellite_availability\<close> takes GPS before Galileo and
  the later satellite first.
\<close>

theorem enumeration_order_witness:
  "returns (plot_skyplot example_env ''plot_skyplot_{system}.{FIGURE_FORMAT}'')
     example_survey_self \<and>
   map labels (plots (events (plot_skyplot example_env ''plot_skyplot_{system}.{FIGURE_FORMAT}'')
     example_survey_self)) = [Some [''E02'', ''E11''], Some [''G01'', ''G02'']] \<and>
   returns (plot_satellite_elevation example_env
     ''plot_satellite_elevation_{system}.{FIGURE_FORMAT}'') example_survey_self \<and>
   map labels (plots (events (plot_satellite_elevation example_env
     ''plot_satellite_elevation_{system}.{FIGURE_FORMAT}'') example_survey_self)) =
     [Some [''E02'', ''E11''], Some [''G01'', ''G02'']] \<and>
   collection_fields ''lin'' example_survey_self =
     Inr [''melbourne_wuebbena'', ''geometry_free_C1C''] \<and>
   returns (plot_linear_combinations ''plot_{solution}.{FIGURE_FORMAT}'') example_survey_self \<and>
   map labels (plots (events (plot_linear_combinations ''plot_{solution}.{FIGURE_FORMAT}'')
     example_survey_self)) =
     [Some [''E02'', ''E11''], Some [''G01'', ''G02''],
      Some [''E02'', ''E11''], Some [''G01'', ''G02'']] \<and>
   get_field (field_name_of None ''gnss_range'') example_survey_self =
     Inr [Num 1, NaN, NaN, NaN] \<and>
   map labels (plots (events (plot_field ''gnss_range'' None ''plot_{solution}.{FIGURE_FORMAT}'')
     example_survey_self)) = [Some [''E02'', ''E11'']] \<and>
   collection_fields ''diff_epo'' example_survey_self = Inr [''C1C''] \<and>
   map labels (plots (events (plot_epoch_by_epoch_difference ''plot_{solution}.{FIGURE_FORMAT}'')
     example_survey_self)) = [Some [''G01'', ''G02'']] \<and>
   returns (plot_number_of_satellites example_env
     ''plot_gnss_number_of_satellites.{FIGURE_FORMAT}'') example_survey_self \<and>
   map x_arrays (plots (events (plot_number_of_satellites example_env
     ''plot_gnss_number_of_satellites.{FIGURE_FORMAT}'') example_survey_self)) =
     [[[T 0, T 30], [T 0, T 30]]] \<and>
   returns (plot_satellite_availability example_env
     ''plot_satellite_availability.{FIGURE_FORMAT}'') example_survey_self \<and>
   map y_arrays (plots (events (plot_satellite_availability example_env
     ''plot_satellite_availability.{FIGURE_FORMAT}'') example_survey_self)) =
     [[[S ''G02'', S ''G01''], [S ''E11'', S ''E02'']]] \<and>
   returns (plot_obstype_availability ''plot_obstype_availability_{system}.{FIGURE_FORMAT}'')
     example_survey_self \<and>
   list_all2
     (obstype_plot_of_system ''plot_obstype_availability_{system}.{FIGURE_FORMAT}''
        example_survey_self)
     [''E'', ''G'']
     (plots (events (plot_obstype_availability ''plot_obstype_availability_{system}.{FIGURE_FORMAT}'')
        example_survey_self))"
proof -
  note sky = enumeration_order_of_every_plot[of example_survey_self "''E''" "[]" None "''x''"
      "''plot_skyplot_{system}.{FIGURE_FORMAT}''" "[]" "[]" example_env]
  note elevation = enumeration_order_of_every_plot[of example_survey_self "''E''" "[]" None "''x''"
      "''plot_satellite_elevation_{system}.{FIGURE_FORMAT}''" "[]" "[]" example_env]
  note solution = enumeration_order_of_every_plot[of example_survey_self "''E''"
      "[Num 1, NaN, NaN, NaN]" None "''gnss_range''" "''plot_{solution}.{FIGURE_FORMAT}''"
      "[''C1C'']" "[''melbourne_wuebbena'', ''geometry_free_C1C'']" example_env]
  note number = enumeration_order_of_every_plot[of example_survey_self "''E''" "[]" None "''x''"
      "''plot_gnss_number_of_satellites.{FIGURE_FORMAT}''" "[]" "[]" example_env]
  note availability = enumeration_order_of_every_plot[of example_survey_self "''E''" "[]" None
      "''x''" "''plot_satellite_availability.{FIGURE_FORMAT}''" "[]" "[]" example_env]
  note obstype = enumeration_order_of_every_plot[of example_survey_self "''E''" "[]" None "''x''"
      "''plot_obstype_availability_{system}.{FIGURE_FORMAT}''" "[]" "[]" example_env]
  have a: "map labels (plots (events (plot_skyplot example_env
      ''plot_skyplot_{system}.{FIGURE_FORMAT}'') example_survey_self)) =
      [Some [''E02'', ''E11''], Some [''G01'', ''G02'']]"
    using sky survey_skyplot_returns by (simp add: survey_satellites)
  have b: "map labels (plots (events (plot_satellite_elevation example_env
     ''plot_satellite_elevation_{system}.{FIGURE_FORMAT}'') example_survey_self)) =
     [Some [''E02'', ''E11''], Some [''G01'', ''G02'']]"
    using elevation survey_elevation_returns by (simp add: survey_satellites)
  have c: "map labels (plots (events (plot_linear_combinations ''plot_{solution}.{FIGURE_FORMAT}'')
     example_survey_self)) =
     [Some [''E02'', ''E11''], Some [''G01'', ''G02''],
      Some [''E02'', ''E11''], Some [''G01'', ''G02'']]"
    using solution survey_linear_combinations_returns survey_combinations
    by (simp add: survey_satellites linear_combination_systems_def)
  have all_nan: "\<not> all_nan [Num 1, NaN, NaN, NaN] ''E'' example_survey_self"
    "all_nan [Num 1, NaN, NaN, NaN] ''G'' example_survey_self"
    "all_nan (field_values ''diff_epo.C1C'' example_survey_self) ''E'' example_survey_self"
    "\<not> all_nan (field_values ''diff_epo.C1C'' example_survey_self) ''G'' example_survey_self"
    by (simp_all add: all_nan_def field_values_def isnan_def survey_defs)
  have d: "map labels (plots (events (plot_field ''gnss_range'' None
     ''plot_{solution}.{FIGURE_FORMAT}'') example_survey_self)) = [Some [''E02'', ''E11'']]"
    using solution survey_range
    by (simp add: survey_satellites plotted_systems_def all_nan)
  have e: "map labels (plots (events (plot_epoch_by_epoch_difference
     ''plot_{solution}.{FIGURE_FORMAT}'') example_survey_self)) = [Some [''G01'', ''G02'']]"
    using solution survey_differences
    by (simp add: survey_satellites plotted_systems_def epoch_difference_labels_def all_nan)
  have f: "map x_arrays (plots (events (plot_number_of_satellites example_env
     ''plot_gnss_number_of_satellites.{FIGURE_FORMAT}'') example_survey_self)) =
     [[[T 0, T 30], [T 0, T 30]]]"
    using number survey_number_returns
    by (simp add: survey_satellites) (simp add: observations_of_system_def survey_defs)
  have g: "map y_arrays (plots (events (plot_satellite_availability example_env
     ''plot_satellite_availability.{FIGURE_FORMAT}'') example_survey_self)) =
     [[[S ''G02'', S ''G01''], [S ''E11'', S ''E02'']]]"
    using availability survey_availability_returns
    by (simp add: survey_satellites)
      (simp add: availability_rows_def own_rows_by_satellite_def rows_of_satellites_def
        survey_defs)
  have h: "list_all2
     (obstype_plot_of_system ''plot_obstype_availability_{system}.{FIGURE_FORMAT}''
        example_survey_self)
     [''E'', ''G'']
     (plots (events (plot_obstype_availability ''plot_obstype_availability_{system}.{FIGURE_FORMAT}'')
        example_survey_self))"
    using obstype survey_obstype_returns by (simp add: survey_satellites)
  show ?thesis
    using a b c d e f g h survey_skyplot_returns survey_elevation_returns
      survey_linear_combinations_returns survey_combinations survey_range survey_differences
      survey_number_returns survey_availability_returns survey_obstype_returns
    by blast
qed

text \<open>
  Claim C9 as stated fails: \<open>plot_obstype_availability\<close> is not among the exceptions,
  and the rows of its GPS figure are those of \<open>G02\<close> and then those of \<open>G01\<close>, the
  rows of its Galileo figure those of \<open>E11\<close> and then that of \<open>E02\<close>.
\<close>

theorem obstype_availability_descending_counterexample:
  "map y_arrays (plots (events
     (plot_obstype_availability ''plot_obstype_availability_{system}.{FIGURE_FORMAT}'')
     example_self)) =
     [[[S ''E11_C1C''], [S ''E02_C1C'']],
      [[S ''G02_C1C''], [S ''G01_C1C''], [S ''G01_C2W'']]]"
  by (simp add: events_def example_obstype_availability)

end
